(* ===== verification/Prelude.thy ===== *)
theory Prelude
  imports Complex_Main
begin

text \<open>
  Shared vocabulary of the development: the error taxonomy of the bootstrapping
  interface (spec section 7, the exceptions raised through \<open>OPENFHE_THROW\<close>), the
  result type \<open>fhe_error + 'a\<close> with its bind, the slot-vector algebra that gives the
  decrypted meaning of the ring operations (addition, multiplication and rotation of
  the plaintext slots), and the generic lemmas on these that the component theories
  share through the collections \<open>res_simps\<close> and \<open>slot_simps\<close>.
\<close>

named_theorems res_simps "rewriting rules for the error monad"
named_theorems slot_simps "rewriting rules for slot vectors"
named_theorems unsupported_free "introduction rules: a result is never the unsupported error"

section \<open>Errors and results\<close>

text \<open>
  \<open>Not_supported\<close> is the exception every default method of \<open>FHEBase\<close> throws;
  the other constructors are the error classes of spec section 7 raised by the
  scheme implementation, and \<open>Key_not_found\<close> is the failed lookup of a rotation
  key in the key map (spec section 6, key-management collaborator).
\<close>

datatype fhe_error =
    Not_supported string
  | Invalid_configuration string
  | Parameter_mismatch string
  | Insufficient_level nat nat
  | Key_not_found nat

type_synonym 'a fhe_result = "fhe_error + 'a"

definition res_bind :: "'e + 'a \<Rightarrow> ('a \<Rightarrow> 'e + 'b) \<Rightarrow> 'e + 'b" where
  "res_bind r f = (case r of Inl e \<Rightarrow> Inl e | Inr a \<Rightarrow> f a)"

definition is_error :: "'e + 'a \<Rightarrow> bool" where
  "is_error r = (case r of Inl _ \<Rightarrow> True | Inr _ \<Rightarrow> False)"

text \<open>
  \<open>res_map f xs\<close> applies a fallible operation to every element in order and stops
  at the first error, as a loop whose body may throw does.
\<close>

fun res_map :: "('a \<Rightarrow> 'e + 'b) \<Rightarrow> 'a list \<Rightarrow> 'e + 'b list" where
  "res_map f [] = Inr []"
| "res_map f (x # xs) = res_bind (f x) (\<lambda>y. res_bind (res_map f xs) (\<lambda>ys. Inr (y # ys)))"

text \<open>\<open>res_foldl f b xs\<close>: a loop that threads an accumulator through fallible steps.\<close>

fun res_foldl :: "('b \<Rightarrow> 'a \<Rightarrow> 'e + 'b) \<Rightarrow> 'b \<Rightarrow> 'a list \<Rightarrow> 'e + 'b" where
  "res_foldl f b [] = Inr b"
| "res_foldl f b (x # xs) = res_bind (f b x) (\<lambda>b'. res_foldl f b' xs)"

text \<open>
  A result that is never the unsupported error: what a scheme's override must give,
  since an override means the method is supported.
\<close>

definition not_unsupported :: "'a fhe_result \<Rightarrow> bool" where
  "not_unsupported r \<longleftrightarrow> (\<forall>m. r \<noteq> Inl (Not_supported m))"

section \<open>Slot vectors\<close>

text \<open>
  A CKKS plaintext packs a vector of slots; the homomorphic operations act on the
  slots of the decrypted ciphertext as follows. \<open>vrot v k\<close> is the left rotation
  by \<open>k\<close> (slot \<open>i\<close> receives slot \<open>(i + k) mod n\<close>), which is what
  \<open>EvalRotate\<close> with a positive index does; \<open>vmul\<close> and \<open>vadd\<close> are slot-wise;
  \<open>vsum n\<close> adds a list of vectors of length \<open>n\<close>.
\<close>

definition vrot :: "'v list \<Rightarrow> nat \<Rightarrow> 'v list" where
  "vrot v k = map (\<lambda>i. v ! ((i + k) mod length v)) [0..<length v]"

definition vmul :: "'v::times list \<Rightarrow> 'v list \<Rightarrow> 'v list" where
  "vmul a b = map2 (*) a b"

definition vadd :: "'v::plus list \<Rightarrow> 'v list \<Rightarrow> 'v list" where
  "vadd a b = map2 (+) a b"

definition vzero :: "nat \<Rightarrow> 'v::zero list" where
  "vzero n = replicate n 0"

definition vsum :: "nat \<Rightarrow> 'v::monoid_add list list \<Rightarrow> 'v list" where
  "vsum n vs = foldr vadd vs (vzero n)"

definition vsub :: "'v::minus list \<Rightarrow> 'v list \<Rightarrow> 'v list" where
  "vsub a b = map2 (-) a b"

definition vscale :: "'v::times \<Rightarrow> 'v list \<Rightarrow> 'v list" where
  "vscale c a = map (\<lambda>x. c * x) a"

section \<open>Errors and results\<close>

lemma res_bind_Inl [simp, res_simps]: "res_bind (Inl e) f = Inl e"
  by (simp add: res_bind_def)

lemma res_bind_Inr [simp, res_simps]: "res_bind (Inr a) f = f a"
  by (simp add: res_bind_def)

lemma res_bind_eq_Inr [res_simps]:
  "res_bind r f = Inr b \<longleftrightarrow> (\<exists>a. r = Inr a \<and> f a = Inr b)"
  by (cases r) auto

lemma res_bind_eq_Inl [res_simps]:
  "res_bind r f = Inl e \<longleftrightarrow> r = Inl e \<or> (\<exists>a. r = Inr a \<and> f a = Inl e)"
  by (cases r) auto

lemma res_bind_assoc [res_simps]:
  "res_bind (res_bind r f) g = res_bind r (\<lambda>a. res_bind (f a) g)"
  by (cases r) auto

lemma res_bind_cong [fundef_cong]:
  "r = r' \<Longrightarrow> (\<And>a. r' = Inr a \<Longrightarrow> f a = g a) \<Longrightarrow> res_bind r f = res_bind r' g"
  by (cases r) auto

lemma is_error_simps [simp, res_simps]:
  "is_error (Inl e) = True" "is_error (Inr a) = False"
  by (simp_all add: is_error_def)

lemma is_error_res_bind [res_simps]:
  "is_error (res_bind r f) \<longleftrightarrow> is_error r \<or> (\<exists>a. r = Inr a \<and> is_error (f a))"
  by (cases r) auto

lemma res_map_all_Inr [res_simps]:
  "\<forall>x\<in>set xs. f x = Inr (g x) \<Longrightarrow> res_map f xs = Inr (map g xs)"
  by (induction xs) auto

lemma res_map_error [res_simps]:
  "x \<in> set xs \<Longrightarrow> is_error (f x) \<Longrightarrow> is_error (res_map f xs)"
proof (induction xs)
  case Nil
  then show ?case by simp
next
  case (Cons y ys)
  then show ?case
    by (cases "f y") (auto simp: is_error_res_bind)
qed

lemma res_map_Inr_D [res_simps]:
  "res_map f xs = Inr ys \<Longrightarrow> list_all2 (\<lambda>x y. f x = Inr y) xs ys"
  by (induction xs arbitrary: ys) (auto simp: res_bind_eq_Inr)

lemma res_foldl_all_Inr [res_simps]:
  assumes "\<forall>x\<in>set xs. \<forall>b. P b \<longrightarrow> f b x = Inr (g b x) \<and> P (g b x)" and "P b"
  shows "res_foldl f b xs = Inr (foldl g b xs) \<and> P (foldl g b xs)"
  using assms
proof (induction xs arbitrary: b)
  case Nil
  then show ?case by simp
next
  case (Cons x xs)
  from Cons.prems have step: "f b x = Inr (g b x)" and inv: "P (g b x)" by simp_all
  from Cons.prems(1) inv have "res_foldl f (g b x) xs = Inr (foldl g (g b x) xs) \<and> P (foldl g (g b x) xs)"
    by (intro Cons.IH) simp_all
  with step show ?case by simp
qed

lemma res_foldl_error [res_simps]:
  assumes "\<forall>z\<in>set xs. \<forall>b b'. P b \<longrightarrow> f b z = Inr b' \<longrightarrow> P b'" and "P b"
    and "x \<in> set xs" and "\<forall>b. P b \<longrightarrow> is_error (f b x)"
  shows "is_error (res_foldl f b xs)"
  using assms
proof (induction xs arbitrary: b)
  case Nil
  then show ?case by simp
next
  case (Cons y ys)
  show ?case
  proof (cases "f b y")
    case (Inl e)
    then show ?thesis by simp
  next
    case (Inr b')
    have step: "\<forall>b b'. P b \<longrightarrow> f b y = Inr b' \<longrightarrow> P b'"
      using Cons.prems(1) by (meson list.set_intros(1))
    have Pb': "P b'" using step Cons.prems(2) Inr by blast
    show ?thesis
    proof (cases "x = y")
      case True
      then have "is_error (f b y)" using Cons.prems(2,4) by blast
      with Inr show ?thesis by simp
    next
      case False
      then have x: "x \<in> set ys" using Cons.prems(3) by simp
      have rest: "\<forall>z\<in>set ys. \<forall>b b'. P b \<longrightarrow> f b z = Inr b' \<longrightarrow> P b'"
        using Cons.prems(1) by (meson list.set_intros(2))
      have "is_error (res_foldl f b' ys)"
        by (rule Cons.IH [OF rest Pb' x Cons.prems(4)])
      with Inr show ?thesis by simp
    qed
  qed
qed

lemma not_unsupported_Inr [unsupported_free]: "not_unsupported (Inr a)"
  by (simp add: not_unsupported_def)

lemma not_unsupported_Inl [unsupported_free]:
  "(\<And>m. e \<noteq> Not_supported m) \<Longrightarrow> not_unsupported (Inl e)"
  by (simp add: not_unsupported_def)

lemma not_unsupported_res_bind [unsupported_free]:
  "not_unsupported r \<Longrightarrow> (\<And>a. not_unsupported (f a)) \<Longrightarrow> not_unsupported (res_bind r f)"
  by (cases r) (simp_all add: not_unsupported_def)

lemma not_unsupported_res_map [unsupported_free]:
  "(\<And>x. not_unsupported (f x)) \<Longrightarrow> not_unsupported (res_map f xs)"
  by (induction xs) (simp_all add: not_unsupported_res_bind not_unsupported_Inr)

lemma not_unsupported_res_foldl [unsupported_free]:
  "(\<And>b x. not_unsupported (f b x)) \<Longrightarrow> not_unsupported (res_foldl f b xs)"
  by (induction xs arbitrary: b) (simp_all add: not_unsupported_res_bind not_unsupported_Inr)

lemma not_unsupported_if [unsupported_free]:
  "not_unsupported a \<Longrightarrow> not_unsupported b \<Longrightarrow> not_unsupported (if c then a else b)"
  by simp

lemma not_unsupported_option [unsupported_free]:
  "not_unsupported a \<Longrightarrow> (\<And>x. not_unsupported (b x)) \<Longrightarrow>
   not_unsupported (case opt of None \<Rightarrow> a | Some x \<Rightarrow> b x)"
  by (cases opt) simp_all

lemma not_unsupported_prod [unsupported_free]:
  "(\<And>x y. not_unsupported (f x y)) \<Longrightarrow> not_unsupported (case p of (x, y) \<Rightarrow> f x y)"
  by (cases p) simp

lemma not_unsupported_Let [unsupported_free]:
  "(\<And>x. not_unsupported (f x)) \<Longrightarrow> not_unsupported (Let a f)"
  by simp

text \<open>Sums over a list, regrouped by a key (the regrouping behind baby-step/giant-step).\<close>

lemma sum_list_delta_distinct:
  "distinct J \<Longrightarrow> (\<Sum>j\<leftarrow>J. if k = j then a else (0::'a::comm_monoid_add)) =
     (if k \<in> set J then a else 0)"
  by (induction J) auto

lemma sum_list_regroup:
  fixes f :: "'x \<Rightarrow> 'a::comm_monoid_add"
  assumes "distinct J" and "set (map key xs) \<subseteq> set J"
  shows "(\<Sum>j\<leftarrow>J. \<Sum>x\<leftarrow>filter (\<lambda>x. key x = j) xs. f x) = (\<Sum>x\<leftarrow>xs. f x)"
  using assms(2)
proof (induction xs)
  case Nil
  then show ?case by simp
next
  case (Cons x xs)
  have "(\<Sum>j\<leftarrow>J. \<Sum>y\<leftarrow>filter (\<lambda>y. key y = j) (x # xs). f y) =
        (\<Sum>j\<leftarrow>J. (if key x = j then f x else 0) + (\<Sum>y\<leftarrow>filter (\<lambda>y. key y = j) xs. f y))"
    by (intro arg_cong [where f = sum_list] map_cong) auto
  also have "\<dots> = (\<Sum>j\<leftarrow>J. if key x = j then f x else 0) +
                  (\<Sum>j\<leftarrow>J. \<Sum>y\<leftarrow>filter (\<lambda>y. key y = j) xs. f y)"
    by (rule sum_list_addf)
  also have "\<dots> = f x + (\<Sum>y\<leftarrow>xs. f y)"
    using Cons assms(1) by (simp add: sum_list_delta_distinct)
  finally show ?case by simp
qed

text \<open>A key map built from a list of indices, each with its own key.\<close>

lemma map_of_map_keys:
  "map_of (map (\<lambda>k. (k, f k)) ks) = (\<lambda>k. if k \<in> set ks then Some (f k) else None)"
  by (induction ks) (auto simp: fun_eq_iff)

lemma dom_map_of_map_keys: "dom (map_of (map (\<lambda>k. (k, f k)) ks)) = set ks"
  by (auto simp: map_of_map_keys split: if_splits)

section \<open>Slot vectors\<close>

lemma length_vsub [simp, slot_simps]: "length (vsub a b) = min (length a) (length b)"
  by (simp add: vsub_def)

lemma nth_vsub [simp, slot_simps]:
  "i < length a \<Longrightarrow> i < length b \<Longrightarrow> vsub a b ! i = a ! i - b ! i"
  by (simp add: vsub_def)

lemma length_vscale [simp, slot_simps]: "length (vscale c a) = length a"
  by (simp add: vscale_def)

lemma nth_vscale [simp, slot_simps]: "i < length a \<Longrightarrow> vscale c a ! i = c * a ! i"
  by (simp add: vscale_def)

lemma replicate_numeral_Cons [simp]:
  "replicate (numeral k) x = x # replicate (pred_numeral k) x"
  by (simp add: numeral_eq_Suc)

lemma mod_below_bound [simp]: "i < (n::nat) \<Longrightarrow> j mod n < n"
  by simp

lemma length_vrot [simp, slot_simps]: "length (vrot v k) = length v"
  by (simp add: vrot_def)

lemma nth_vrot [simp, slot_simps]:
  "i < length v \<Longrightarrow> vrot v k ! i = v ! ((i + k) mod length v)"
  by (simp add: vrot_def)

lemma length_vmul [simp, slot_simps]: "length (vmul a b) = min (length a) (length b)"
  by (simp add: vmul_def)

lemma nth_vmul [simp, slot_simps]:
  "i < length a \<Longrightarrow> i < length b \<Longrightarrow> vmul a b ! i = a ! i * b ! i"
  by (simp add: vmul_def)

lemma length_vadd [simp, slot_simps]: "length (vadd a b) = min (length a) (length b)"
  by (simp add: vadd_def)

lemma nth_vadd [simp, slot_simps]:
  "i < length a \<Longrightarrow> i < length b \<Longrightarrow> vadd a b ! i = a ! i + b ! i"
  by (simp add: vadd_def)

lemma vsum_Nil [simp, slot_simps]: "vsum n [] = vzero n"
  by (simp add: vsum_def)

lemma vsum_Cons [simp, slot_simps]: "vsum n (v # vs) = vadd v (vsum n vs)"
  by (simp add: vsum_def)

lemma length_vsum [slot_simps]:
  "\<forall>v\<in>set vs. length v = n \<Longrightarrow> length (vsum n vs) = n"
  by (induction vs) (auto simp: vzero_def)

lemma nth_vsum [slot_simps]:
  "\<forall>v\<in>set vs. length v = n \<Longrightarrow> i < n \<Longrightarrow> vsum n vs ! i = (\<Sum>v\<leftarrow>vs. v ! i)"
  by (induction vs) (auto simp: vzero_def length_vsum)

text \<open>\<open>vrot\<close> is the library's \<open>rotate\<close>, read slot by slot.\<close>

lemma vrot_rotate: "vrot v k = rotate k v"
proof (rule nth_equalityI)
  show "length (vrot v k) = length (rotate k v)" by simp
next
  fix i assume "i < length (vrot v k)"
  then show "vrot v k ! i = rotate k v ! i"
    by (simp add: nth_rotate add.commute)
qed

lemma vrot_vrot [slot_simps]: "vrot (vrot v a) b = vrot v (a + b)"
  by (simp add: vrot_rotate rotate_rotate add.commute)

lemma vrot_mod [slot_simps]: "vrot v (k mod length v) = vrot v k"
  by (simp add: vrot_rotate rotate_conv_mod [symmetric])

lemma vrot_0 [simp, slot_simps]: "vrot v 0 = v"
  by (simp add: vrot_rotate)

lemma vrot_length [slot_simps]: "k mod length v = 0 \<Longrightarrow> vrot v k = v"
  by (simp add: vrot_rotate)

lemma vrot_vmul [slot_simps]:
  "length a = length b \<Longrightarrow> vrot (vmul a b) k = vmul (vrot a k) (vrot b k)"
  by (rule nth_equalityI) auto

lemma vrot_vsum [slot_simps]:
  assumes "\<forall>v\<in>set vs. length v = n"
  shows "vrot (vsum n vs) k = vsum n (map (\<lambda>v. vrot v k) vs)"
proof (rule nth_equalityI)
  show "length (vrot (vsum n vs) k) = length (vsum n (map (\<lambda>v. vrot v k) vs))"
    using assms by (simp add: length_vsum)
next
  fix i assume "i < length (vrot (vsum n vs) k)"
  with assms have i: "i < n" by (simp add: length_vsum)
  have "(\<Sum>v\<leftarrow>vs. v ! ((i + k) mod n)) = (\<Sum>v\<leftarrow>vs. vrot v k ! i)"
    using assms i by (intro arg_cong [where f = sum_list] map_cong) auto
  with assms i show "vrot (vsum n vs) k ! i = vsum n (map (\<lambda>v. vrot v k) vs) ! i"
    by (simp add: length_vsum nth_vsum o_def)
qed

lemma vsum_regroup:
  fixes f :: "'x \<Rightarrow> 'v::comm_monoid_add list"
  assumes "distinct J" "set (map key xs) \<subseteq> set J" "\<forall>x\<in>set xs. length (f x) = n"
  shows "vsum n (map (\<lambda>j. vsum n (map f (filter (\<lambda>x. key x = j) xs))) J) = vsum n (map f xs)"
proof (rule nth_equalityI)
  have inner: "\<forall>u\<in>set (map (\<lambda>j. vsum n (map f (filter (\<lambda>x. key x = j) xs))) J). length u = n"
    using assms(3) by (auto intro!: length_vsum)
  then show "length (vsum n (map (\<lambda>j. vsum n (map f (filter (\<lambda>x. key x = j) xs))) J)) =
             length (vsum n (map f xs))"
    using assms(3) by (simp add: length_vsum)
  fix i assume "i < length (vsum n (map (\<lambda>j. vsum n (map f (filter (\<lambda>x. key x = j) xs))) J))"
  with inner have i: "i < n" by (simp add: length_vsum)
  have "vsum n (map (\<lambda>j. vsum n (map f (filter (\<lambda>x. key x = j) xs))) J) ! i =
        (\<Sum>j\<leftarrow>J. \<Sum>x\<leftarrow>filter (\<lambda>x. key x = j) xs. f x ! i)"
    using inner i assms(3) by (simp add: nth_vsum o_def)
  also have "\<dots> = (\<Sum>x\<leftarrow>xs. f x ! i)"
    using assms(1,2) by (rule sum_list_regroup)
  also have "\<dots> = vsum n (map f xs) ! i"
    using i assms(3) by (simp add: nth_vsum o_def)
  finally show "vsum n (map (\<lambda>j. vsum n (map f (filter (\<lambda>x. key x = j) xs))) J) ! i =
                vsum n (map f xs) ! i" .
qed

end
