(* ===== verification/FHEBase.thy ===== *)
theory FHEBase
  imports Prelude
begin

text \<open>
  The abstract interface \<open>FHEBase<Element>\<close> of
  \<open>src/src/pke/include/schemebase/base-fhe.h\<close>. Every virtual method of the class has a
  default body that throws: \<open>OPENFHE_THROW("Not supported")\<close>, and for
  \<open>EvalBootstrap\<close> the message \<open>"EvalBootstrap is not implemented for this scheme"\<close>.
  A scheme (such as the CKKS implementation) overrides a subset of the methods.

  The model: one definition per overload of the class (\<open>FHEBase_<method>\<close>), each the
  thrown error as an \<open>Inl\<close> value; a datatype \<open>fhe_call\<close> of the calls with their
  arguments and \<open>fhe_ret\<close> of their results; the calls that omit defaulted
  trailing arguments (\<open>EvalFBT_defaults\<close>, ...); the virtual table
  \<open>FHEBase_default\<close>; a scheme as a record of an override table and an implementation;
  and \<open>FHEBase_dispatch\<close>, the virtual call. The scheme object is a state \<open>'st\<close>:
  non-const methods (the setups, key generation, the functional bootstraps) return the
  updated object; the const method \<open>EvalBootstrap\<close> (line 128) has its own override
  slot, with no state among its results, so that no override can change the object,
  as C++ requires of an override of a const member function. The serialization hooks
  \<open>save\<close> (const) and \<open>load\<close> are member templates, not virtual: a call through the
  interface always runs their empty bodies.

  Types: \<open>uint32_t\<close> and \<open>size_t\<close> arguments are \<open>nat\<close>, \<open>BigInteger\<close> is \<open>int\<close>,
  \<open>int64_t\<close> coefficients are \<open>int\<close> and \<open>std::complex<double>\<close> is \<open>complex\<close>;
  the methods here never compute on them. The context, keys, ciphertexts and
  \<open>seriesPowers\<close> handles are type parameters.
\<close>

section \<open>Calls and results\<close>

text \<open>
  Coefficients are passed either as \<open>std::vector<std::complex<double>>\<close> or as
  \<open>std::vector<int64_t>\<close>; each method taking coefficients has one overload per domain.
\<close>

datatype coeffs = Complex_coeffs "complex list" | Int_coeffs "int list"

text \<open>One tag per virtual method slot of the class, overloads apart.\<close>

datatype fhe_method =
    M_EvalBootstrapSetup
  | M_EvalBootstrapKeyGen
  | M_EvalBootstrapPrecompute
  | M_EvalBootstrap
  | M_EvalFBTSetup_complex | M_EvalFBTSetup_int
  | M_EvalFBT_complex | M_EvalFBT_int
  | M_EvalFBTNoDecoding_complex | M_EvalFBTNoDecoding_int
  | M_EvalHomDecoding
  | M_EvalMVBPrecompute_complex | M_EvalMVBPrecompute_int
  | M_EvalMVB_complex | M_EvalMVB_int
  | M_EvalMVBNoDecoding_complex | M_EvalMVBNoDecoding_int
  | M_EvalHermiteTrigSeries_complex | M_EvalHermiteTrigSeries_int

text \<open>
  A call with its arguments, in the order of the C++ parameter lists (the context
  argument \<open>cc\<close> is the scheme state, below). \<open>EvalHermiteTrigSeries\<close> takes its
  Hermite coefficients in either domain; its Chebyshev coefficients are always complex.
\<close>

datatype ('sk, 'pk, 'ct, 'sp) fhe_call =
    EvalBootstrapSetup "nat list" "nat list" nat nat bool
  | EvalBootstrapKeyGen 'sk nat
  | EvalBootstrapPrecompute nat
  | EvalBootstrap 'ct nat nat
  | EvalFBTSetup coeffs nat int int int 'pk "nat list" "nat list" nat nat nat
  | EvalFBT 'ct coeffs nat int nat nat nat
  | EvalFBTNoDecoding 'ct coeffs nat int nat
  | EvalHomDecoding 'ct nat nat
  | EvalMVBPrecompute 'ct coeffs nat int nat
  | EvalMVB 'sp coeffs nat nat nat nat
  | EvalMVBNoDecoding 'sp coeffs nat nat
  | EvalHermiteTrigSeries 'ct "complex list" real real coeffs nat

datatype ('ek, 'ct, 'sp) fhe_ret =
    Ret_unit
  | Ret_keys "nat \<rightharpoonup> 'ek"
  | Ret_ct 'ct
  | Ret_powers 'sp

fun method_of :: "('sk, 'pk, 'ct, 'sp) fhe_call \<Rightarrow> fhe_method" where
  "method_of (EvalBootstrapSetup _ _ _ _ _) = M_EvalBootstrapSetup"
| "method_of (EvalBootstrapKeyGen _ _) = M_EvalBootstrapKeyGen"
| "method_of (EvalBootstrapPrecompute _) = M_EvalBootstrapPrecompute"
| "method_of (EvalBootstrap _ _ _) = M_EvalBootstrap"
| "method_of (EvalFBTSetup (Complex_coeffs _) _ _ _ _ _ _ _ _ _ _) = M_EvalFBTSetup_complex"
| "method_of (EvalFBTSetup (Int_coeffs _) _ _ _ _ _ _ _ _ _ _) = M_EvalFBTSetup_int"
| "method_of (EvalFBT _ (Complex_coeffs _) _ _ _ _ _) = M_EvalFBT_complex"
| "method_of (EvalFBT _ (Int_coeffs _) _ _ _ _ _) = M_EvalFBT_int"
| "method_of (EvalFBTNoDecoding _ (Complex_coeffs _) _ _ _) = M_EvalFBTNoDecoding_complex"
| "method_of (EvalFBTNoDecoding _ (Int_coeffs _) _ _ _) = M_EvalFBTNoDecoding_int"
| "method_of (EvalHomDecoding _ _ _) = M_EvalHomDecoding"
| "method_of (EvalMVBPrecompute _ (Complex_coeffs _) _ _ _) = M_EvalMVBPrecompute_complex"
| "method_of (EvalMVBPrecompute _ (Int_coeffs _) _ _ _) = M_EvalMVBPrecompute_int"
| "method_of (EvalMVB _ (Complex_coeffs _) _ _ _ _) = M_EvalMVB_complex"
| "method_of (EvalMVB _ (Int_coeffs _) _ _ _ _) = M_EvalMVB_int"
| "method_of (EvalMVBNoDecoding _ (Complex_coeffs _) _ _) = M_EvalMVBNoDecoding_complex"
| "method_of (EvalMVBNoDecoding _ (Int_coeffs _) _ _) = M_EvalMVBNoDecoding_int"
| "method_of (EvalHermiteTrigSeries _ _ _ _ (Complex_coeffs _) _) = M_EvalHermiteTrigSeries_complex"
| "method_of (EvalHermiteTrigSeries _ _ _ _ (Int_coeffs _) _) = M_EvalHermiteTrigSeries_int"

section \<open>Default arguments\<close>

text \<open>
  Trailing parameters with default values (\<open>lvlsAfterBoot = 0\<close>,
  \<open>depthLeveledComputation = 0\<close>, \<open>levelToReduce = 0\<close>, \<open>order = 1\<close>,
  \<open>precomp = 0\<close>): a C++ call that omits them is the call with the defaults filled in.
  Both overloads of a method declare the same defaults.
\<close>

definition EvalFBTSetup_defaults ::
  "coeffs \<Rightarrow> nat \<Rightarrow> int \<Rightarrow> int \<Rightarrow> int \<Rightarrow> 'pk \<Rightarrow> nat list \<Rightarrow> nat list \<Rightarrow> ('sk, 'pk, 'ct, 'sp) fhe_call" where
  "EvalFBTSetup_defaults cf numSlots PIn POut Bigq pk dim1 levelBudget =
     EvalFBTSetup cf numSlots PIn POut Bigq pk dim1 levelBudget 0 0 1"

definition EvalFBT_defaults ::
  "'ct \<Rightarrow> coeffs \<Rightarrow> nat \<Rightarrow> int \<Rightarrow> nat \<Rightarrow> ('sk, 'pk, 'ct, 'sp) fhe_call" where
  "EvalFBT_defaults ct cf digitBitSize initialScaling postScaling =
     EvalFBT ct cf digitBitSize initialScaling postScaling 0 1"

definition EvalFBTNoDecoding_defaults ::
  "'ct \<Rightarrow> coeffs \<Rightarrow> nat \<Rightarrow> int \<Rightarrow> ('sk, 'pk, 'ct, 'sp) fhe_call" where
  "EvalFBTNoDecoding_defaults ct cf digitBitSize initialScaling =
     EvalFBTNoDecoding ct cf digitBitSize initialScaling 1"

definition EvalHomDecoding_defaults :: "'ct \<Rightarrow> nat \<Rightarrow> ('sk, 'pk, 'ct, 'sp) fhe_call" where
  "EvalHomDecoding_defaults ct postScaling = EvalHomDecoding ct postScaling 0"

definition EvalMVBPrecompute_defaults ::
  "'ct \<Rightarrow> coeffs \<Rightarrow> nat \<Rightarrow> int \<Rightarrow> ('sk, 'pk, 'ct, 'sp) fhe_call" where
  "EvalMVBPrecompute_defaults ct cf digitBitSize initialScaling =
     EvalMVBPrecompute ct cf digitBitSize initialScaling 1"

definition EvalMVB_defaults :: "'sp \<Rightarrow> coeffs \<Rightarrow> nat \<Rightarrow> nat \<Rightarrow> ('sk, 'pk, 'ct, 'sp) fhe_call" where
  "EvalMVB_defaults sp cf digitBitSize postScaling = EvalMVB sp cf digitBitSize postScaling 0 1"

definition EvalMVBNoDecoding_defaults :: "'sp \<Rightarrow> coeffs \<Rightarrow> nat \<Rightarrow> ('sk, 'pk, 'ct, 'sp) fhe_call" where
  "EvalMVBNoDecoding_defaults sp cf digitBitSize = EvalMVBNoDecoding sp cf digitBitSize 1"

definition EvalHermiteTrigSeries_defaults ::
  "'ct \<Rightarrow> complex list \<Rightarrow> real \<Rightarrow> real \<Rightarrow> coeffs \<Rightarrow> ('sk, 'pk, 'ct, 'sp) fhe_call" where
  "EvalHermiteTrigSeries_defaults ct cheb a b herm = EvalHermiteTrigSeries ct cheb a b herm 0"

section \<open>The default method bodies\<close>

text \<open>The two messages the class throws.\<close>

definition msg_not_supported :: string where
  "msg_not_supported = ''Not supported''"

definition msg_bootstrap_not_implemented :: string where
  "msg_bootstrap_not_implemented = ''EvalBootstrap is not implemented for this scheme''"

definition FHEBase_EvalBootstrapSetup ::
  "'st \<Rightarrow> nat list \<Rightarrow> nat list \<Rightarrow> nat \<Rightarrow> nat \<Rightarrow> bool \<Rightarrow> 'st fhe_result" where
  "FHEBase_EvalBootstrapSetup cc levelBudget dim1 slots correctionFactor precompute =
     Inl (Not_supported msg_not_supported)"

definition FHEBase_EvalBootstrapKeyGen ::
  "'st \<Rightarrow> 'sk \<Rightarrow> nat \<Rightarrow> ((nat \<rightharpoonup> 'ek) \<times> 'st) fhe_result" where
  "FHEBase_EvalBootstrapKeyGen cc privateKey slots = Inl (Not_supported msg_not_supported)"

definition FHEBase_EvalBootstrapPrecompute :: "'st \<Rightarrow> nat \<Rightarrow> 'st fhe_result" where
  "FHEBase_EvalBootstrapPrecompute cc slots = Inl (Not_supported msg_not_supported)"

definition FHEBase_EvalBootstrap :: "'st \<Rightarrow> 'ct \<Rightarrow> nat \<Rightarrow> nat \<Rightarrow> 'ct fhe_result" where
  "FHEBase_EvalBootstrap cc ciphertext numIterations precision =
     Inl (Not_supported msg_bootstrap_not_implemented)"

definition FHEBase_EvalFBTSetup_complex ::
  "'st \<Rightarrow> complex list \<Rightarrow> nat \<Rightarrow> int \<Rightarrow> int \<Rightarrow> int \<Rightarrow> 'pk \<Rightarrow> nat list \<Rightarrow> nat list \<Rightarrow>
   nat \<Rightarrow> nat \<Rightarrow> nat \<Rightarrow> 'st fhe_result" where
  "FHEBase_EvalFBTSetup_complex cc coeffs numSlots PIn POut Bigq pubKey dim1 levelBudget
     lvlsAfterBoot depthLeveledComputation order = Inl (Not_supported msg_not_supported)"

definition FHEBase_EvalFBTSetup_int ::
  "'st \<Rightarrow> int list \<Rightarrow> nat \<Rightarrow> int \<Rightarrow> int \<Rightarrow> int \<Rightarrow> 'pk \<Rightarrow> nat list \<Rightarrow> nat list \<Rightarrow>
   nat \<Rightarrow> nat \<Rightarrow> nat \<Rightarrow> 'st fhe_result" where
  "FHEBase_EvalFBTSetup_int cc coeffs numSlots PIn POut Bigq pubKey dim1 levelBudget
     lvlsAfterBoot depthLeveledComputation order = Inl (Not_supported msg_not_supported)"

definition FHEBase_EvalFBT_complex ::
  "'st \<Rightarrow> 'ct \<Rightarrow> complex list \<Rightarrow> nat \<Rightarrow> int \<Rightarrow> nat \<Rightarrow> nat \<Rightarrow> nat \<Rightarrow> ('ct \<times> 'st) fhe_result" where
  "FHEBase_EvalFBT_complex cc ciphertext coeffs digitBitSize initialScaling postScaling
     levelToReduce order = Inl (Not_supported msg_not_supported)"

definition FHEBase_EvalFBT_int ::
  "'st \<Rightarrow> 'ct \<Rightarrow> int list \<Rightarrow> nat \<Rightarrow> int \<Rightarrow> nat \<Rightarrow> nat \<Rightarrow> nat \<Rightarrow> ('ct \<times> 'st) fhe_result" where
  "FHEBase_EvalFBT_int cc ciphertext coeffs digitBitSize initialScaling postScaling
     levelToReduce order = Inl (Not_supported msg_not_supported)"

definition FHEBase_EvalFBTNoDecoding_complex ::
  "'st \<Rightarrow> 'ct \<Rightarrow> complex list \<Rightarrow> nat \<Rightarrow> int \<Rightarrow> nat \<Rightarrow> ('ct \<times> 'st) fhe_result" where
  "FHEBase_EvalFBTNoDecoding_complex cc ciphertext coeffs digitBitSize initialScaling order =
     Inl (Not_supported msg_not_supported)"

definition FHEBase_EvalFBTNoDecoding_int ::
  "'st \<Rightarrow> 'ct \<Rightarrow> int list \<Rightarrow> nat \<Rightarrow> int \<Rightarrow> nat \<Rightarrow> ('ct \<times> 'st) fhe_result" where
  "FHEBase_EvalFBTNoDecoding_int cc ciphertext coeffs digitBitSize initialScaling order =
     Inl (Not_supported msg_not_supported)"

definition FHEBase_EvalHomDecoding ::
  "'st \<Rightarrow> 'ct \<Rightarrow> nat \<Rightarrow> nat \<Rightarrow> ('ct \<times> 'st) fhe_result" where
  "FHEBase_EvalHomDecoding cc ciphertext postScaling levelToReduce =
     Inl (Not_supported msg_not_supported)"

definition FHEBase_EvalMVBPrecompute_complex ::
  "'st \<Rightarrow> 'ct \<Rightarrow> complex list \<Rightarrow> nat \<Rightarrow> int \<Rightarrow> nat \<Rightarrow> ('sp \<times> 'st) fhe_result" where
  "FHEBase_EvalMVBPrecompute_complex cc ciphertext coeffs digitBitSize initialScaling order =
     Inl (Not_supported msg_not_supported)"

definition FHEBase_EvalMVBPrecompute_int ::
  "'st \<Rightarrow> 'ct \<Rightarrow> int list \<Rightarrow> nat \<Rightarrow> int \<Rightarrow> nat \<Rightarrow> ('sp \<times> 'st) fhe_result" where
  "FHEBase_EvalMVBPrecompute_int cc ciphertext coeffs digitBitSize initialScaling order =
     Inl (Not_supported msg_not_supported)"

definition FHEBase_EvalMVB_complex ::
  "'st \<Rightarrow> 'sp \<Rightarrow> complex list \<Rightarrow> nat \<Rightarrow> nat \<Rightarrow> nat \<Rightarrow> nat \<Rightarrow> ('ct \<times> 'st) fhe_result" where
  "FHEBase_EvalMVB_complex cc ciphertexts coeffs digitBitSize postScaling levelToReduce order =
     Inl (Not_supported msg_not_supported)"

definition FHEBase_EvalMVB_int ::
  "'st \<Rightarrow> 'sp \<Rightarrow> int list \<Rightarrow> nat \<Rightarrow> nat \<Rightarrow> nat \<Rightarrow> nat \<Rightarrow> ('ct \<times> 'st) fhe_result" where
  "FHEBase_EvalMVB_int cc ciphertexts coeffs digitBitSize postScaling levelToReduce order =
     Inl (Not_supported msg_not_supported)"

definition FHEBase_EvalMVBNoDecoding_complex ::
  "'st \<Rightarrow> 'sp \<Rightarrow> complex list \<Rightarrow> nat \<Rightarrow> nat \<Rightarrow> ('ct \<times> 'st) fhe_result" where
  "FHEBase_EvalMVBNoDecoding_complex cc ciphertexts coeffs digitBitSize order =
     Inl (Not_supported msg_not_supported)"

definition FHEBase_EvalMVBNoDecoding_int ::
  "'st \<Rightarrow> 'sp \<Rightarrow> int list \<Rightarrow> nat \<Rightarrow> nat \<Rightarrow> ('ct \<times> 'st) fhe_result" where
  "FHEBase_EvalMVBNoDecoding_int cc ciphertexts coeffs digitBitSize order =
     Inl (Not_supported msg_not_supported)"

definition FHEBase_EvalHermiteTrigSeries_complex ::
  "'st \<Rightarrow> 'ct \<Rightarrow> complex list \<Rightarrow> real \<Rightarrow> real \<Rightarrow> complex list \<Rightarrow> nat \<Rightarrow> ('ct \<times> 'st) fhe_result" where
  "FHEBase_EvalHermiteTrigSeries_complex cc ciphertext coefficientsCheb a b coefficientsHerm
     precomp = Inl (Not_supported msg_not_supported)"

definition FHEBase_EvalHermiteTrigSeries_int ::
  "'st \<Rightarrow> 'ct \<Rightarrow> complex list \<Rightarrow> real \<Rightarrow> real \<Rightarrow> int list \<Rightarrow> nat \<Rightarrow> ('ct \<times> 'st) fhe_result" where
  "FHEBase_EvalHermiteTrigSeries_int cc ciphertext coefficientsCheb a b coefficientsHerm
     precomp = Inl (Not_supported msg_not_supported)"

text \<open>
  The serialization hooks \<open>save\<close> and \<open>load\<close> have empty bodies: they write nothing
  to the archive and read nothing from it.
\<close>

definition FHEBase_save :: "'st \<Rightarrow> 'ar \<Rightarrow> 'ar" where
  "FHEBase_save obj ar = ar"

definition FHEBase_load :: "'st \<Rightarrow> 'ar \<Rightarrow> 'st \<times> 'ar" where
  "FHEBase_load obj ar = (obj, ar)"

section \<open>The virtual table and dispatch\<close>

text \<open>
  \<open>FHEBase_default\<close> is the class's own virtual table: each call is answered by the
  default body of its overload, with the result wrapped into \<open>fhe_ret\<close>.
\<close>

fun FHEBase_default ::
  "('sk, 'pk, 'ct, 'sp) fhe_call \<Rightarrow> 'st \<Rightarrow> (('ek, 'ct, 'sp) fhe_ret \<times> 'st) fhe_result" where
  "FHEBase_default (EvalBootstrapSetup lb d1 s cf pre) cc =
     res_bind (FHEBase_EvalBootstrapSetup cc lb d1 s cf pre) (\<lambda>cc'. Inr (Ret_unit, cc'))"
| "FHEBase_default (EvalBootstrapKeyGen sk s) cc =
     res_bind (FHEBase_EvalBootstrapKeyGen cc sk s) (\<lambda>(ks, cc'). Inr (Ret_keys ks, cc'))"
| "FHEBase_default (EvalBootstrapPrecompute s) cc =
     res_bind (FHEBase_EvalBootstrapPrecompute cc s) (\<lambda>cc'. Inr (Ret_unit, cc'))"
| "FHEBase_default (EvalBootstrap ct it pr) cc =
     res_bind (FHEBase_EvalBootstrap cc ct it pr) (\<lambda>ct'. Inr (Ret_ct ct', cc))"
| "FHEBase_default (EvalFBTSetup (Complex_coeffs cs) n pin pout q pk d1 lb la dl ord) cc =
     res_bind (FHEBase_EvalFBTSetup_complex cc cs n pin pout q pk d1 lb la dl ord)
       (\<lambda>cc'. Inr (Ret_unit, cc'))"
| "FHEBase_default (EvalFBTSetup (Int_coeffs cs) n pin pout q pk d1 lb la dl ord) cc =
     res_bind (FHEBase_EvalFBTSetup_int cc cs n pin pout q pk d1 lb la dl ord)
       (\<lambda>cc'. Inr (Ret_unit, cc'))"
| "FHEBase_default (EvalFBT ct (Complex_coeffs cs) db isc ps lr ord) cc =
     res_bind (FHEBase_EvalFBT_complex cc ct cs db isc ps lr ord) (\<lambda>(ct', cc'). Inr (Ret_ct ct', cc'))"
| "FHEBase_default (EvalFBT ct (Int_coeffs cs) db isc ps lr ord) cc =
     res_bind (FHEBase_EvalFBT_int cc ct cs db isc ps lr ord) (\<lambda>(ct', cc'). Inr (Ret_ct ct', cc'))"
| "FHEBase_default (EvalFBTNoDecoding ct (Complex_coeffs cs) db isc ord) cc =
     res_bind (FHEBase_EvalFBTNoDecoding_complex cc ct cs db isc ord)
       (\<lambda>(ct', cc'). Inr (Ret_ct ct', cc'))"
| "FHEBase_default (EvalFBTNoDecoding ct (Int_coeffs cs) db isc ord) cc =
     res_bind (FHEBase_EvalFBTNoDecoding_int cc ct cs db isc ord) (\<lambda>(ct', cc'). Inr (Ret_ct ct', cc'))"
| "FHEBase_default (EvalHomDecoding ct ps lr) cc =
     res_bind (FHEBase_EvalHomDecoding cc ct ps lr) (\<lambda>(ct', cc'). Inr (Ret_ct ct', cc'))"
| "FHEBase_default (EvalMVBPrecompute ct (Complex_coeffs cs) db isc ord) cc =
     res_bind (FHEBase_EvalMVBPrecompute_complex cc ct cs db isc ord)
       (\<lambda>(sp, cc'). Inr (Ret_powers sp, cc'))"
| "FHEBase_default (EvalMVBPrecompute ct (Int_coeffs cs) db isc ord) cc =
     res_bind (FHEBase_EvalMVBPrecompute_int cc ct cs db isc ord) (\<lambda>(sp, cc'). Inr (Ret_powers sp, cc'))"
| "FHEBase_default (EvalMVB sp (Complex_coeffs cs) db ps lr ord) cc =
     res_bind (FHEBase_EvalMVB_complex cc sp cs db ps lr ord) (\<lambda>(ct', cc'). Inr (Ret_ct ct', cc'))"
| "FHEBase_default (EvalMVB sp (Int_coeffs cs) db ps lr ord) cc =
     res_bind (FHEBase_EvalMVB_int cc sp cs db ps lr ord) (\<lambda>(ct', cc'). Inr (Ret_ct ct', cc'))"
| "FHEBase_default (EvalMVBNoDecoding sp (Complex_coeffs cs) db ord) cc =
     res_bind (FHEBase_EvalMVBNoDecoding_complex cc sp cs db ord) (\<lambda>(ct', cc'). Inr (Ret_ct ct', cc'))"
| "FHEBase_default (EvalMVBNoDecoding sp (Int_coeffs cs) db ord) cc =
     res_bind (FHEBase_EvalMVBNoDecoding_int cc sp cs db ord) (\<lambda>(ct', cc'). Inr (Ret_ct ct', cc'))"
| "FHEBase_default (EvalHermiteTrigSeries ct ch a b (Complex_coeffs hs) pc) cc =
     res_bind (FHEBase_EvalHermiteTrigSeries_complex cc ct ch a b hs pc)
       (\<lambda>(ct', cc'). Inr (Ret_ct ct', cc'))"
| "FHEBase_default (EvalHermiteTrigSeries ct ch a b (Int_coeffs hs) pc) cc =
     res_bind (FHEBase_EvalHermiteTrigSeries_int cc ct ch a b hs pc)
       (\<lambda>(ct', cc'). Inr (Ret_ct ct', cc'))"

text \<open>
  A derived scheme: the set of method slots it overrides and the bodies of its
  overrides. The override of \<open>EvalBootstrap\<close> is a separate field whose result carries
  no scheme object: the method is \<open>const\<close>. A virtual call runs the override when the
  slot is overridden and the class default otherwise.
\<close>

record ('sk, 'pk, 'ct, 'sp, 'ek, 'st) fhe_scheme =
  overrides :: "fhe_method \<Rightarrow> bool"
  impl :: "('sk, 'pk, 'ct, 'sp) fhe_call \<Rightarrow> 'st \<Rightarrow> (('ek, 'ct, 'sp) fhe_ret \<times> 'st) fhe_result"
  impl_bootstrap :: "'ct \<Rightarrow> nat \<Rightarrow> nat \<Rightarrow> 'st \<Rightarrow> 'ct fhe_result"

definition FHEBase_dispatch ::
  "('sk, 'pk, 'ct, 'sp, 'ek, 'st) fhe_scheme \<Rightarrow> ('sk, 'pk, 'ct, 'sp) fhe_call \<Rightarrow> 'st \<Rightarrow>
   (('ek, 'ct, 'sp) fhe_ret \<times> 'st) fhe_result" where
  "FHEBase_dispatch s c cc =
     (if overrides s (method_of c)
      then (case c of
              EvalBootstrap ct it pr \<Rightarrow> res_bind (impl_bootstrap s ct it pr cc) (\<lambda>ct'. Inr (Ret_ct ct', cc))
            | _ \<Rightarrow> impl s c cc)
      else FHEBase_default c cc)"

text \<open>
  The class itself, used as a scheme: nothing is overridden.
\<close>

definition FHEBase_scheme :: "('sk, 'pk, 'ct, 'sp, 'ek, 'st) fhe_scheme" where
  "FHEBase_scheme = \<lparr>overrides = (\<lambda>_. False), impl = FHEBase_default,
                     impl_bootstrap = (\<lambda>ct it pr cc. FHEBase_EvalBootstrap cc ct it pr)\<rparr>"

text \<open>
  The caller's view of a virtual call: the result and the scheme object afterwards.
  A failed call leaves the object as it was (spec section 7: no partial mutation).
\<close>

definition FHEBase_call ::
  "('sk, 'pk, 'ct, 'sp, 'ek, 'st) fhe_scheme \<Rightarrow> ('sk, 'pk, 'ct, 'sp) fhe_call \<Rightarrow> 'st \<Rightarrow>
   ('ek, 'ct, 'sp) fhe_ret fhe_result \<times> 'st" where
  "FHEBase_call s c cc =
     (case FHEBase_dispatch s c cc of
        Inl e \<Rightarrow> (Inl e, cc)
      | Inr (r, cc') \<Rightarrow> (Inr r, cc'))"

fun FHEBase_run ::
  "('sk, 'pk, 'ct, 'sp, 'ek, 'st) fhe_scheme \<Rightarrow> ('sk, 'pk, 'ct, 'sp) fhe_call list \<Rightarrow> 'st \<Rightarrow>
   ('ek, 'ct, 'sp) fhe_ret fhe_result list \<times> 'st" where
  "FHEBase_run s [] cc = ([], cc)"
| "FHEBase_run s (c # cs) cc =
     (let (r, cc') = FHEBase_call s c cc; (rs, cc'') = FHEBase_run s cs cc' in (r # rs, cc''))"

text \<open>The message the default body of a slot throws.\<close>

definition default_message :: "fhe_method \<Rightarrow> string" where
  "default_message m =
     (if m = M_EvalBootstrap then msg_bootstrap_not_implemented else msg_not_supported)"

text \<open>
  A session on one scheme object with an archive: the caller's virtual calls
  interleaved with the serialization hooks \<open>save\<close> (a const member function that
  writes the object to the archive) and \<open>load\<close> (which reads the object back).
\<close>

datatype ('sk, 'pk, 'ct, 'sp) fhe_op =
    Op_call "('sk, 'pk, 'ct, 'sp) fhe_call"
  | Op_save
  | Op_load

fun FHEBase_session ::
  "('sk, 'pk, 'ct, 'sp, 'ek, 'st) fhe_scheme \<Rightarrow> ('sk, 'pk, 'ct, 'sp) fhe_op list \<Rightarrow> 'st \<times> 'ar \<Rightarrow>
   ('ek, 'ct, 'sp) fhe_ret fhe_result list \<times> ('st \<times> 'ar)" where
  "FHEBase_session s [] (cc, ar) = ([], (cc, ar))"
| "FHEBase_session s (Op_call c # ops) (cc, ar) =
     (let (r, cc') = FHEBase_call s c cc; (rs, fin) = FHEBase_session s ops (cc', ar) in (r # rs, fin))"
| "FHEBase_session s (Op_save # ops) (cc, ar) = FHEBase_session s ops (cc, FHEBase_save cc ar)"
| "FHEBase_session s (Op_load # ops) (cc, ar) =
     (let (cc', ar') = FHEBase_load cc ar in FHEBase_session s ops (cc', ar'))"

fun op_calls :: "('sk, 'pk, 'ct, 'sp) fhe_op list \<Rightarrow> ('sk, 'pk, 'ct, 'sp) fhe_call list" where
  "op_calls [] = []"
| "op_calls (Op_call c # ops) = c # op_calls ops"
| "op_calls (_ # ops) = op_calls ops"

section \<open>Lemmas\<close>

lemmas FHEBase_bodies =
  FHEBase_EvalBootstrapSetup_def FHEBase_EvalBootstrapKeyGen_def
  FHEBase_EvalBootstrapPrecompute_def FHEBase_EvalBootstrap_def
  FHEBase_EvalFBTSetup_complex_def FHEBase_EvalFBTSetup_int_def
  FHEBase_EvalFBT_complex_def FHEBase_EvalFBT_int_def
  FHEBase_EvalFBTNoDecoding_complex_def FHEBase_EvalFBTNoDecoding_int_def
  FHEBase_EvalHomDecoding_def
  FHEBase_EvalMVBPrecompute_complex_def FHEBase_EvalMVBPrecompute_int_def
  FHEBase_EvalMVB_complex_def FHEBase_EvalMVB_int_def
  FHEBase_EvalMVBNoDecoding_complex_def FHEBase_EvalMVBNoDecoding_int_def
  FHEBase_EvalHermiteTrigSeries_complex_def FHEBase_EvalHermiteTrigSeries_int_def

lemma FHEBase_default_eq:
  "FHEBase_default c cc = Inl (Not_supported (default_message (method_of c)))"
  by (induction c cc rule: FHEBase_default.induct) (simp_all add: FHEBase_bodies default_message_def)

lemma FHEBase_dispatch_default [simp]:
  "\<not> overrides s (method_of c) \<Longrightarrow> FHEBase_dispatch s c cc = FHEBase_default c cc"
  by (simp add: FHEBase_dispatch_def)

lemma FHEBase_call_error:
  "FHEBase_dispatch s c cc = Inl e \<Longrightarrow> FHEBase_call s c cc = (Inl e, cc)"
  by (simp add: FHEBase_call_def)


lemma FHEBase_run_Cons:
  "FHEBase_run s (c # cs) cc =
     (fst (FHEBase_call s c cc) # fst (FHEBase_run s cs (snd (FHEBase_call s c cc))),
      snd (FHEBase_run s cs (snd (FHEBase_call s c cc))))"
  by (simp split: prod.splits)

lemma FHEBase_run_length [simp]: "length (fst (FHEBase_run s cs cc)) = length cs"
  by (induction cs arbitrary: cc) (simp_all add: FHEBase_run_Cons del: FHEBase_run.simps(2))


section \<open>Properties of the interface\<close>

text \<open>
  C1. Every method of the class, called on the class itself, throws the unsupported
  error; the message is \<open>"EvalBootstrap is not implemented for this scheme"\<close> for
  \<open>EvalBootstrap\<close> and \<open>"Not supported"\<close> for every other overload.
\<close>

theorem FHEBase_default_unsupported:
  "FHEBase_default c cc =
     Inl (Not_supported (if method_of c = M_EvalBootstrap
                         then ''EvalBootstrap is not implemented for this scheme''
                         else ''Not supported''))"
  by (simp add: FHEBase_default_eq default_message_def msg_not_supported_def
      msg_bootstrap_not_implemented_def)


text \<open>
  C5. The serialization hooks are inert: in any session that interleaves the virtual
  calls with \<open>save\<close> and \<open>load\<close> at any points, the calls return exactly what they
  return without the hooks, the scheme object ends as it would without them, and the
  archive is neither written nor consumed.
\<close>

theorem FHEBase_session_hooks_inert:
  "FHEBase_session s ops (cc, ar) =
     (fst (FHEBase_run s (op_calls ops) cc), (snd (FHEBase_run s (op_calls ops) cc), ar))"
proof (induction ops arbitrary: cc ar)
  case Nil
  then show ?case by simp
next
  case (Cons op ops)
  then show ?case
    by (cases op) (simp_all add: FHEBase_save_def FHEBase_load_def FHEBase_run_Cons split: prod.splits
        del: FHEBase_run.simps(2))
qed

end
