(* ===== verification/LinearTransform.thy ===== *)
theory LinearTransform
  imports Prelude
begin

text \<open>
  The homomorphic linear transforms of bootstrapping (CoeffsToSlots for encoding,
  SlotsToCoeffs for decoding) in the baby-step/giant-step (BSGS) factorization of
  spec sections 4.1 and 4.2. A transform factor is given by its nonzero diagonals: a list
  of pairs (offset \<open>d\<close>, diagonal vector), and its meaning is the diagonal method
  \<open>lt_apply\<close>: the sum over the diagonals of the diagonal times the input rotated by
  \<open>d\<close>. The BSGS evaluation \<open>EvalLinearTransformBSGS\<close> with inner dimension \<open>g\<close>
  (\<open>dim1\<close>) writes \<open>d = g * j + i\<close>, rotates the input by the baby steps \<open>i\<close>,
  multiplies with the diagonals pre-rotated by \<open>-g * j\<close>, sums per giant step \<open>j\<close>
  and rotates each partial sum by \<open>g * j\<close>. Every rotation looks its key up in the key
  map (\<open>EvalRotate\<close>) and fails when it is missing. \<open>lt_rotation_indices\<close> is the set
  of rotation amounts the evaluation needs: the basis of key generation.

  Main results: BSGS evaluation equals the diagonal method whenever the key map covers
  \<open>lt_rotation_indices\<close> (\<open>EvalLinearTransformBSGS_correct\<close>), and it fails when any
  one of these keys is missing (\<open>EvalLinearTransformBSGS_needs_key\<close>): the index set
  is exactly what the transform needs.
\<close>

type_synonym 'v lt_factor = "(nat \<times> 'v list) list"

section \<open>Definitions\<close>

text \<open>The reference meaning of a factor: the diagonal method.\<close>

definition lt_apply :: "nat \<Rightarrow> 'v::comm_semiring_1 lt_factor \<Rightarrow> 'v list \<Rightarrow> 'v list" where
  "lt_apply n fs v = vsum n (map (\<lambda>(d, w). vmul w (vrot v d)) fs)"

text \<open>A well-formed factor for \<open>n\<close> slots: offsets below \<open>n\<close>, diagonals of length \<open>n\<close>.\<close>

definition lt_wf :: "nat \<Rightarrow> 'v lt_factor \<Rightarrow> bool" where
  "lt_wf n fs \<longleftrightarrow> (\<forall>(d, w) \<in> set fs. d < n \<and> length w = n)"

text \<open>
  Rotation of a ciphertext's slots by \<open>k\<close> (collaborator operation of spec section 6):
  the index is reduced modulo the slot count; rotation by 0 needs no key; otherwise the
  key for the reduced index is looked up.
\<close>

definition EvalRotate :: "(nat \<rightharpoonup> 'ek) \<Rightarrow> 'v list \<Rightarrow> nat \<Rightarrow> 'v list fhe_result" where
  "EvalRotate keys v k =
     (let r = k mod length v in
      if r = 0 then Inr v
      else (case keys r of None \<Rightarrow> Inl (Key_not_found r) | Some _ \<Rightarrow> Inr (vrot v r)))"

definition bsgs_giants :: "nat \<Rightarrow> 'v lt_factor \<Rightarrow> nat list" where
  "bsgs_giants g fs = remdups (map (\<lambda>e. fst e div g) fs)"

text \<open>One giant step \<open>j\<close>: the baby-step products of its diagonals, summed, then rotated.\<close>

definition bsgs_block ::
  "(nat \<rightharpoonup> 'ek) \<Rightarrow> nat \<Rightarrow> nat \<Rightarrow> 'v::comm_semiring_1 lt_factor \<Rightarrow> 'v list \<Rightarrow> nat \<Rightarrow>
   'v list fhe_result" where
  "bsgs_block keys n g fs v j =
     res_bind
       (res_map (\<lambda>(d, w). res_bind (EvalRotate keys v (d mod g))
                            (\<lambda>r. Inr (vmul (vrot w (n - g * j)) r)))
          (filter (\<lambda>e. fst e div g = j) fs))
       (\<lambda>ps. EvalRotate keys (vsum n ps) (g * j))"

definition EvalLinearTransformBSGS ::
  "(nat \<rightharpoonup> 'ek) \<Rightarrow> nat \<Rightarrow> nat \<Rightarrow> 'v::comm_semiring_1 lt_factor \<Rightarrow> 'v list \<Rightarrow>
   'v list fhe_result" where
  "EvalLinearTransformBSGS keys n g fs v =
     res_bind (res_map (bsgs_block keys n g fs v) (bsgs_giants g fs)) (\<lambda>bs. Inr (vsum n bs))"

text \<open>The rotation amounts the BSGS evaluation of a factor performs: nonzero baby steps
  \<open>d mod g\<close> and giant steps \<open>g * (d div g)\<close>.\<close>

definition lt_rotation_indices :: "nat \<Rightarrow> 'v lt_factor \<Rightarrow> nat list" where
  "lt_rotation_indices g fs =
     remdups (filter (\<lambda>k. k \<noteq> 0)
       (map (\<lambda>(d, w). d mod g) fs @ map (\<lambda>(d, w). g * (d div g)) fs))"

section \<open>Rotation\<close>

lemma EvalRotate_ok:
  "k mod length v = 0 \<or> k mod length v \<in> dom keys \<Longrightarrow> EvalRotate keys v k = Inr (vrot v k)"
  by (auto simp: EvalRotate_def Let_def vrot_length vrot_mod)

lemma EvalRotate_missing:
  "k mod length v \<noteq> 0 \<Longrightarrow> keys (k mod length v) = None \<Longrightarrow>
   EvalRotate keys v k = Inl (Key_not_found (k mod length v))"
  by (simp add: EvalRotate_def)

lemma EvalRotate_Inr_length:
  "EvalRotate keys v k = Inr r \<Longrightarrow> length r = length v"
  by (auto simp: EvalRotate_def Let_def split: if_splits option.splits)

section \<open>Index arithmetic\<close>

lemma rotation_index_below:
  assumes "lt_wf n fs" "(d, w) \<in> set fs"
  shows "d mod g < n" "g * (d div g) < n"
proof -
  from assms have "d < n" by (auto simp: lt_wf_def)
  then show "d mod g < n" by (meson le_less_trans mod_less_eq_dividend)
  have le: "g * (d div g) \<le> d" by (metis div_mult_mod_eq le_add1 mult.commute)
  show "g * (d div g) < n" using le \<open>d < n\<close> by linarith
qed

lemma set_lt_rotation_indices:
  "set (lt_rotation_indices g fs) =
     {d mod g | d w. (d, w) \<in> set fs \<and> d mod g \<noteq> 0} \<union>
     {g * (d div g) | d w. (d, w) \<in> set fs \<and> g * (d div g) \<noteq> 0}"
  by (auto simp: lt_rotation_indices_def)

lemma baby_in_indices:
  "(d, w) \<in> set fs \<Longrightarrow> d mod g \<noteq> 0 \<Longrightarrow> d mod g \<in> set (lt_rotation_indices g fs)"
  by (force simp: lt_rotation_indices_def)

lemma giant_in_indices:
  "(d, w) \<in> set fs \<Longrightarrow> g * (d div g) \<noteq> 0 \<Longrightarrow>
   g * (d div g) \<in> set (lt_rotation_indices g fs)"
  by (force simp: lt_rotation_indices_def)

lemma keys_cover_baby:
  assumes "set (lt_rotation_indices g fs) \<subseteq> dom keys" "lt_wf n fs" "(d, w) \<in> set fs"
    and "length v = n"
  shows "EvalRotate keys v (d mod g) = Inr (vrot v (d mod g))"
proof (rule EvalRotate_ok)
  have "d mod g < n" using rotation_index_below [OF assms(2,3)] by simp
  with assms(1,3,4) show "d mod g mod length v = 0 \<or> d mod g mod length v \<in> dom keys"
    using baby_in_indices [OF assms(3)] by auto
qed

lemma keys_cover_giant:
  assumes "set (lt_rotation_indices g fs) \<subseteq> dom keys" "lt_wf n fs" "(d, w) \<in> set fs"
    and "length u = n"
  shows "EvalRotate keys u (g * (d div g)) = Inr (vrot u (g * (d div g)))"
proof (rule EvalRotate_ok)
  have "g * (d div g) < n" using rotation_index_below [OF assms(2,3)] by simp
  with assms(1,3,4)
  show "g * (d div g) mod length u = 0 \<or> g * (d div g) mod length u \<in> dom keys"
    using giant_in_indices [OF assms(3)] by auto
qed

section \<open>BSGS evaluation is the diagonal method\<close>

lemma bsgs_term:
  assumes "lt_wf n fs" "(d, w) \<in> set fs" "length v = n"
  shows "vrot (vmul (vrot w (n - g * (d div g))) (vrot v (d mod g))) (g * (d div g)) =
         vmul w (vrot v d)"
proof -
  from assms(1,2) have w: "length w = n" and "d < n" by (auto simp: lt_wf_def)
  have below: "g * (d div g) < n" using rotation_index_below [OF assms(1,2)] by simp
  have "vrot (vmul (vrot w (n - g * (d div g))) (vrot v (d mod g))) (g * (d div g)) =
        vmul (vrot w (n - g * (d div g) + g * (d div g))) (vrot v (d mod g + g * (d div g)))"
    using w assms(3) by (simp add: vrot_vmul vrot_vrot)
  also have "n - g * (d div g) + g * (d div g) = n" using below by simp
  also have "d mod g + g * (d div g) = d" by (rule mod_mult_div_eq)
  finally show ?thesis using w by (simp add: vrot_length)
qed

lemma bsgs_block_ok:
  assumes keys: "set (lt_rotation_indices g fs) \<subseteq> dom keys" and wf: "lt_wf n fs"
    and v: "length v = n" and j: "j \<in> set (bsgs_giants g fs)"
  shows "bsgs_block keys n g fs v j =
         Inr (vsum n (map (\<lambda>(d, w). vmul w (vrot v d)) (filter (\<lambda>e. fst e div g = j) fs)))"
proof -
  let ?fj = "filter (\<lambda>e. fst e div g = j) fs"
  let ?p = "\<lambda>(d, w). vmul (vrot w (n - g * j)) (vrot v (d mod g))"
  from j obtain d0 w0 where e0: "(d0, w0) \<in> set fs" and j0: "j = d0 div g"
    by (auto simp: bsgs_giants_def)
  have ps: "res_map (\<lambda>(d, w). res_bind (EvalRotate keys v (d mod g))
                      (\<lambda>r. Inr (vmul (vrot w (n - g * j)) r))) ?fj = Inr (map ?p ?fj)"
    by (rule res_map_all_Inr) (auto simp: keys_cover_baby [OF keys wf _ v])
  have lens: "\<forall>u\<in>set (map ?p ?fj). length u = n"
    using wf v by (auto simp: lt_wf_def)
  then have "length (vsum n (map ?p ?fj)) = n" by (rule length_vsum)
  then have rot: "EvalRotate keys (vsum n (map ?p ?fj)) (g * j) = Inr (vrot (vsum n (map ?p ?fj)) (g * j))"
    using keys_cover_giant [OF keys wf e0] j0 by simp
  have "vrot (vsum n (map ?p ?fj)) (g * j) = vsum n (map (\<lambda>u. vrot u (g * j)) (map ?p ?fj))"
    using lens by (rule vrot_vsum)
  also have "map (\<lambda>u. vrot u (g * j)) (map ?p ?fj) = map (\<lambda>(d, w). vmul w (vrot v d)) ?fj"
    using bsgs_term [OF wf _ v] by (auto simp: case_prod_beta)
  finally show ?thesis
    by (simp add: bsgs_block_def ps rot)
qed

lemma bsgs_eval_eq_diagonal:
  assumes keys: "set (lt_rotation_indices g fs) \<subseteq> dom keys" and wf: "lt_wf n fs"
    and v: "length v = n"
  shows "EvalLinearTransformBSGS keys n g fs v = Inr (lt_apply n fs v)"
proof -
  let ?f = "\<lambda>(d, w). vmul w (vrot v d)"
  have blocks: "res_map (bsgs_block keys n g fs v) (bsgs_giants g fs) =
      Inr (map (\<lambda>j. vsum n (map ?f (filter (\<lambda>e. fst e div g = j) fs))) (bsgs_giants g fs))"
    by (rule res_map_all_Inr) (simp add: bsgs_block_ok [OF keys wf v])
  have "vsum n (map (\<lambda>j. vsum n (map ?f (filter (\<lambda>e. fst e div g = j) fs))) (bsgs_giants g fs)) =
        vsum n (map ?f fs)"
    by (rule vsum_regroup) (use wf v in \<open>auto simp: bsgs_giants_def lt_wf_def\<close>)
  then show ?thesis
    by (simp add: EvalLinearTransformBSGS_def blocks lt_apply_def)
qed

section \<open>Every index is needed\<close>

lemma baby_products_length:
  "res_map (\<lambda>(d, w). res_bind (EvalRotate keys v (d mod g)) (\<lambda>r. Inr (vmul (vrot w m) r))) xs
     = Inr ps \<Longrightarrow> \<forall>(d, w)\<in>set xs. length w = length v \<Longrightarrow> \<forall>p\<in>set ps. length p = length v"
proof (induction xs arbitrary: ps)
  case Nil
  then show ?case by simp
next
  case (Cons x xs)
  obtain d w where x: "x = (d, w)" by (cases x)
  from Cons.prems(1) x obtain r ps' where r: "EvalRotate keys v (d mod g) = Inr r"
    and ps': "res_map (\<lambda>(d, w). res_bind (EvalRotate keys v (d mod g))
                 (\<lambda>r. Inr (vmul (vrot w m) r))) xs = Inr ps'"
    and ps: "ps = vmul (vrot w m) r # ps'"
    by (auto simp: res_bind_eq_Inr)
  have "length r = length v" using r by (rule EvalRotate_Inr_length)
  moreover have "\<forall>p\<in>set ps'. length p = length v" using Cons.IH [OF ps'] Cons.prems(2) by simp
  ultimately show ?case using Cons.prems(2) x ps by simp
qed

lemma bsgs_block_needs_key:
  assumes wf: "lt_wf n fs" and v: "length v = n" and e: "(d, w) \<in> set fs"
    and k: "k = d mod g \<or> k = g * (d div g)" and k0: "k \<noteq> 0" and miss: "keys k = None"
  shows "is_error (bsgs_block keys n g fs v (d div g))"
proof -
  let ?f = "\<lambda>(d', w'). res_bind (EvalRotate keys v (d' mod g))
                        (\<lambda>r. Inr (vmul (vrot w' (n - g * (d div g))) r))"
  let ?fj = "filter (\<lambda>e. fst e div g = d div g) fs"
  have below: "d mod g < n" "g * (d div g) < n" using rotation_index_below [OF wf e] by auto
  show ?thesis
  proof (cases "k = d mod g")
    case True
    with below k0 miss v have "EvalRotate keys v (d mod g) = Inl (Key_not_found k)"
      by (simp add: EvalRotate_missing)
    then have "is_error (?f (d, w))" by simp
    moreover have "(d, w) \<in> set ?fj" using e by simp
    ultimately have "is_error (res_map ?f ?fj)" by (rule res_map_error [rotated])
    then show ?thesis by (simp add: bsgs_block_def is_error_res_bind)
  next
    case False
    with k have kg: "k = g * (d div g)" by simp
    show ?thesis
    proof (cases "res_map ?f ?fj")
      case (Inl err)
      then show ?thesis by (simp add: bsgs_block_def)
    next
      case (Inr ps)
      have "\<forall>(d', w')\<in>set ?fj. length w' = length v" using wf v by (auto simp: lt_wf_def)
      with Inr have "\<forall>p\<in>set ps. length p = n" using v by (auto dest: baby_products_length)
      then have "length (vsum n ps) = n" by (rule length_vsum)
      with kg below k0 miss have "EvalRotate keys (vsum n ps) (g * (d div g)) = Inl (Key_not_found k)"
        by (simp add: EvalRotate_missing)
      with Inr show ?thesis by (simp add: bsgs_block_def)
    qed
  qed
qed

text \<open>
  No rotation key of the index set is redundant: if any one key of
  \<open>lt_rotation_indices g fs\<close> is missing from the key map, the BSGS evaluation fails.
\<close>

theorem EvalLinearTransformBSGS_needs_key:
  assumes wf: "lt_wf n fs" and v: "length v = n"
    and k: "k \<in> set (lt_rotation_indices g fs)" and miss: "keys k = None"
  shows "is_error (EvalLinearTransformBSGS keys n g fs v)"
proof -
  from k obtain d w where e: "(d, w) \<in> set fs" and kd: "k = d mod g \<or> k = g * (d div g)"
    and k0: "k \<noteq> 0"
    by (auto simp: lt_rotation_indices_def)
  have "is_error (bsgs_block keys n g fs v (d div g))"
    using bsgs_block_needs_key [of n fs v d w k g keys] wf v e kd k0 miss by blast
  moreover have "d div g \<in> set (bsgs_giants g fs)" using e by (force simp: bsgs_giants_def)
  ultimately have "is_error (res_map (bsgs_block keys n g fs v) (bsgs_giants g fs))"
    by (rule res_map_error [rotated])
  then show ?thesis by (simp add: EvalLinearTransformBSGS_def is_error_res_bind)
qed

text \<open>Whatever keys are present, a successful evaluation keeps the slot count.\<close>

lemma bsgs_block_Inr_length:
  assumes wf: "lt_wf n fs" and v: "length v = n" and r: "bsgs_block keys n g fs v j = Inr b"
  shows "length b = n"
proof -
  obtain ps where ps: "res_map (\<lambda>(d, w). res_bind (EvalRotate keys v (d mod g))
                         (\<lambda>r. Inr (vmul (vrot w (n - g * j)) r))) (filter (\<lambda>e. fst e div g = j) fs)
                       = Inr ps"
    and rot: "EvalRotate keys (vsum n ps) (g * j) = Inr b"
    using r unfolding bsgs_block_def res_bind_eq_Inr by blast
  have "\<forall>(d, w)\<in>set (filter (\<lambda>e. fst e div g = j) fs). length w = length v"
    using wf v unfolding lt_wf_def by fastforce
  then have "\<forall>p\<in>set ps. length p = length v" by (rule baby_products_length [OF ps])
  then have "length (vsum n ps) = n" using v by (simp add: length_vsum)
  with EvalRotate_Inr_length [OF rot] show ?thesis by simp
qed

lemma EvalLinearTransformBSGS_Inr_length:
  assumes wf: "lt_wf n fs" and v: "length v = n"
    and r: "EvalLinearTransformBSGS keys n g fs v = Inr w"
  shows "length w = n"
proof -
  obtain bs where bs: "res_map (bsgs_block keys n g fs v) (bsgs_giants g fs) = Inr bs"
    and w: "w = vsum n bs"
    using r unfolding EvalLinearTransformBSGS_def res_bind_eq_Inr by blast
  have all: "list_all2 (\<lambda>j b. bsgs_block keys n g fs v j = Inr b) (bsgs_giants g fs) bs"
    using res_map_Inr_D [OF bs] .
  have "\<forall>b\<in>set bs. length b = n"
  proof
    fix b assume "b \<in> set bs"
    then obtain i where i: "i < length bs" "b = bs ! i" by (auto simp: in_set_conv_nth)
    with all have "bsgs_block keys n g fs v (bsgs_giants g fs ! i) = Inr b"
      by (simp add: list_all2_conv_all_nth)
    then show "length b = n" by (rule bsgs_block_Inr_length [OF wf v])
  qed
  then show ?thesis by (simp add: w length_vsum)
qed

section \<open>BSGS evaluation with enough keys\<close>

text \<open>
  With a key map that covers the rotation indices of a well-formed factor, the
  baby-step/giant-step evaluation of the factor succeeds and computes the diagonal-method
  matrix-vector product \<open>lt_apply\<close>.
\<close>

theorem EvalLinearTransformBSGS_correct:
  assumes "set (lt_rotation_indices g fs) \<subseteq> dom keys" and "lt_wf n fs" and "length v = n"
  shows "EvalLinearTransformBSGS keys n g fs v = Inr (lt_apply n fs v)"
  using assms by (rule bsgs_eval_eq_diagonal)

text \<open>Four slots, diagonals at offsets 0, 1 and 3, inner dimension 2: keys 1 and 2.\<close>

theorem EvalLinearTransformBSGS_correct_witness:
  "set (lt_rotation_indices 2 [(0::nat, [1, 2, 3, 4::int]), (1, [1, 1, 1, 1]), (3, [2, 0, 0, 2])])
     \<subseteq> dom [1 \<mapsto> (), 2 \<mapsto> ()] \<and>
   lt_wf 4 [(0::nat, [1, 2, 3, 4::int]), (1, [1, 1, 1, 1]), (3, [2, 0, 0, 2])] \<and>
   length [1, 2, 3, 4::int] = 4 \<and>
   EvalLinearTransformBSGS [1 \<mapsto> (), 2 \<mapsto> ()] 4 2
     [(0::nat, [1, 2, 3, 4::int]), (1, [1, 1, 1, 1]), (3, [2, 0, 0, 2])] [1, 2, 3, 4] =
     Inr [11, 7, 13, 23]"
proof -
  let ?F = "[(0::nat, [1, 2, 3, 4::int]), (1, [1, 1, 1, 1]), (3, [2, 0, 0, 2])]"
  have h1: "set (lt_rotation_indices 2 ?F) \<subseteq> dom [1 \<mapsto> (), 2 \<mapsto> ()]"
    by (simp add: lt_rotation_indices_def)
  have h2: "lt_wf 4 ?F" by (simp add: lt_wf_def)
  have h3: "length [1, 2, 3, 4::int] = 4" by simp
  have v: "lt_apply 4 ?F [1, 2, 3, 4] = [11, 7, 13, 23]"
    by (simp add: lt_apply_def vrot_def vmul_def vadd_def vzero_def)
  show ?thesis
    using h1 h2 h3 EvalLinearTransformBSGS_correct [OF h1 h2 h3] v by simp
qed

theorem EvalLinearTransformBSGS_needs_key_witness:
  "lt_wf 4 [(0::nat, [1, 2, 3, 4::int]), (1, [1, 1, 1, 1]), (3, [2, 0, 0, 2])] \<and>
   length [1, 2, 3, 4::int] = 4 \<and>
   2 \<in> set (lt_rotation_indices 2 [(0::nat, [1, 2, 3, 4::int]), (1, [1, 1, 1, 1]), (3, [2, 0, 0, 2])]) \<and>
   [1 \<mapsto> ()] (2::nat) = None \<and>
   is_error (EvalLinearTransformBSGS [1 \<mapsto> ()] 4 2
     [(0::nat, [1, 2, 3, 4::int]), (1, [1, 1, 1, 1]), (3, [2, 0, 0, 2])] [1, 2, 3, 4])"
proof -
  let ?F = "[(0::nat, [1, 2, 3, 4::int]), (1, [1, 1, 1, 1]), (3, [2, 0, 0, 2])]"
  have h1: "lt_wf 4 ?F" by (simp add: lt_wf_def)
  have h2: "length [1, 2, 3, 4::int] = 4" by simp
  have h3: "2 \<in> set (lt_rotation_indices 2 ?F)" by (simp add: lt_rotation_indices_def)
  have h4: "[1 \<mapsto> ()] (2::nat) = None" by simp
  show ?thesis
    using EvalLinearTransformBSGS_needs_key [of 4 ?F "[1, 2, 3, 4::int]" 2 2 "[1 \<mapsto> ()]"]
      h1 h2 h3 h4 by blast
qed

section \<open>No unsupported errors\<close>

lemma EvalRotate_not_unsupported [unsupported_free]: "not_unsupported (EvalRotate keys v k)"
  unfolding EvalRotate_def by (intro unsupported_free) simp_all

lemma EvalLinearTransformBSGS_not_unsupported [unsupported_free]:
  "not_unsupported (EvalLinearTransformBSGS keys n g fs v)"
  unfolding EvalLinearTransformBSGS_def bsgs_block_def by (intro unsupported_free)

end
