(* ===== verification/BootConfig.thy ===== *)
theory BootConfig
  imports LinearTransform
begin

text \<open>
  The CKKS implementation of the bootstrap setup (spec sections 4.1 and 4.2; the code,
  \<open>FHECKKSRNS::EvalBootstrapSetup\<close>, \<open>EvalBootstrapPrecompute\<close> and
  \<open>EvalBootstrapKeyGen\<close>, is not among the repository's sources, so it is modelled from
  the spec). The scheme object keeps one bootstrap configuration per slot count
  (\<open>st_boot\<close>, a map keyed by slot count, replaced on rewrite). Setup validates the level
  budgets and inner dimensions against the modulus chain (InvalidConfiguration
  otherwise), resolves an inner dimension of 0 to the default, stores the configuration
  and, when asked, precomputes the encoding and decoding plaintexts. Key generation
  derives the rotation indices the BSGS factorization of both stages needs, plus the
  conjugation key, and returns a key map; it does not change the scheme object.

  The collaborators the spec keeps outside (the encoding of the transform matrices, the
  key-switching key generation) are parameters: \<open>ckks_prims\<close> gives, for a slot
  count and a level budget, the factors of each stage (one factor per level), and the
  slot-level effect of the other bootstrap steps used in \<open>Refresh\<close>, and the encoding of
  a complex coefficient as a slot scalar used by the functional bootstrap (\<open>FBT\<close>). The
  scheme object also holds the functional-bootstrap configurations \<open>st_fbt\<close>, keyed by
  slot count in the same way, which \<open>FBT\<close> reads and writes.
\<close>

record ckks_params =
  ringDim :: nat
  multDepth :: nat
  approxModDepth :: nat

record 'v ckks_prims =
  enc_factors :: "nat \<Rightarrow> nat \<Rightarrow> 'v lt_factor list"
  dec_factors :: "nat \<Rightarrow> nat \<Rightarrow> 'v lt_factor list"
  raise_eff :: "'v list \<Rightarrow> 'v list"
  conj_eff :: "'v \<Rightarrow> 'v"
  approx_mod :: "'v list \<Rightarrow> 'v list"
  enc_coeff :: "complex \<Rightarrow> 'v"

record 'v boot_cfg =
  cfg_levelBudget :: "nat list"
  cfg_dim1 :: "nat list"
  cfg_correctionFactor :: nat
  cfg_precom :: "('v lt_factor list \<times> 'v lt_factor list) option"

text \<open>
  The configuration \<open>EvalFBTSetup\<close> stores for a slot count (spec section 4.4): the
  dimensioning of the two linear stages, the degree of the bound function's series, the
  moduli \<open>PIn\<close>, \<open>POut\<close>, \<open>Bigq\<close>, the levels reserved after the bootstrap and
  assumed consumed before it, and the composition order.
\<close>

record fbt_cfg =
  fbt_levelBudget :: "nat list"
  fbt_dim1 :: "nat list"
  fbt_degree :: nat
  fbt_PIn :: int
  fbt_POut :: int
  fbt_Bigq :: int
  fbt_lvlsAfterBoot :: nat
  fbt_depthLeveled :: nat
  fbt_order :: nat

record 'v ckks_state =
  st_params :: ckks_params
  st_boot :: "nat \<rightharpoonup> 'v boot_cfg"
  st_fbt :: "nat \<rightharpoonup> fbt_cfg"

section \<open>Setup and precomputation\<close>

fun is_pow2 :: "nat \<Rightarrow> bool" where
  "is_pow2 n = (if n \<le> 1 then n = 1 else even n \<and> is_pow2 (n div 2))"

declare is_pow2.simps [simp del]

text \<open>The default inner dimension: the least \<open>g \<ge> 1\<close> with \<open>g * g \<ge> slots\<close>.\<close>

definition default_dim1 :: "nat \<Rightarrow> nat" where
  "default_dim1 slots = hd (filter (\<lambda>g. slots \<le> g * g) [1..<slots + 2])"

text \<open>The automorphism index of complex conjugation, \<open>M - 1\<close> with \<open>M = 2 N\<close>.\<close>

definition conj_index :: "ckks_params \<Rightarrow> nat" where
  "conj_index p = 2 * ringDim p - 1"

definition EvalBootstrapPrecompute_ckks ::
  "'v ckks_prims \<Rightarrow> 'v ckks_state \<Rightarrow> nat \<Rightarrow> 'v ckks_state fhe_result" where
  "EvalBootstrapPrecompute_ckks prims st slots =
     (case st_boot st slots of
        None \<Rightarrow> Inl (Invalid_configuration ''EvalBootstrapSetup was not called for these slots'')
      | Some cfg \<Rightarrow>
          Inr (st\<lparr>st_boot := (st_boot st)(slots \<mapsto>
                 cfg\<lparr>cfg_precom := Some (enc_factors prims slots (cfg_levelBudget cfg ! 0),
                                         dec_factors prims slots (cfg_levelBudget cfg ! 1))\<rparr>)\<rparr>))"

definition EvalBootstrapSetup_ckks ::
  "'v ckks_prims \<Rightarrow> 'v ckks_state \<Rightarrow> nat list \<Rightarrow> nat list \<Rightarrow> nat \<Rightarrow> nat \<Rightarrow> bool \<Rightarrow>
   'v ckks_state fhe_result" where
  "EvalBootstrapSetup_ckks prims st levelBudget dim1 slots correctionFactor precompute =
     (let p = st_params st in
      if length levelBudget \<noteq> 2 \<or> length dim1 \<noteq> 2
      then Inl (Invalid_configuration ''levelBudget and dim1 need one entry per stage'')
      else if \<not> is_pow2 slots \<or> ringDim p < 2 * slots
      then Inl (Invalid_configuration ''slots must be a power of two of at most ringDim / 2'')
      else if levelBudget ! 0 = 0 \<or> levelBudget ! 1 = 0
      then Inl (Invalid_configuration ''level budgets must be positive'')
      else if multDepth p < levelBudget ! 0 + approxModDepth p + levelBudget ! 1
      then Inl (Invalid_configuration ''level budget exceeds the modulus chain'')
      else
        (let cfg = \<lparr>cfg_levelBudget = levelBudget,
                    cfg_dim1 = map (\<lambda>d. if d = 0 then default_dim1 slots else d) dim1,
                    cfg_correctionFactor = correctionFactor, cfg_precom = None\<rparr>;
             st' = st\<lparr>st_boot := (st_boot st)(slots \<mapsto> cfg)\<rparr>
         in if precompute then EvalBootstrapPrecompute_ckks prims st' slots else Inr st'))"

section \<open>Rotation indices and key generation\<close>

definition FindBootstrapRotationIndices ::
  "'v ckks_prims \<Rightarrow> nat \<Rightarrow> 'v boot_cfg \<Rightarrow> nat list" where
  "FindBootstrapRotationIndices prims slots cfg =
     remdups
       (concat (map (lt_rotation_indices (cfg_dim1 cfg ! 0))
                  (enc_factors prims slots (cfg_levelBudget cfg ! 0))) @
        concat (map (lt_rotation_indices (cfg_dim1 cfg ! 1))
                  (dec_factors prims slots (cfg_levelBudget cfg ! 1))))"

definition EvalBootstrapKeyGen_ckks ::
  "'v ckks_prims \<Rightarrow> ('sk \<Rightarrow> nat \<Rightarrow> 'ek) \<Rightarrow> 'v ckks_state \<Rightarrow> 'sk \<Rightarrow> nat \<Rightarrow>
   ((nat \<rightharpoonup> 'ek) \<times> 'v ckks_state) fhe_result" where
  "EvalBootstrapKeyGen_ckks prims keygen st privateKey slots =
     (case st_boot st slots of
        None \<Rightarrow> Inl (Invalid_configuration ''EvalBootstrapSetup was not called for these slots'')
      | Some cfg \<Rightarrow>
          Inr (map_of (map (\<lambda>k. (k, keygen privateKey k))
                 (FindBootstrapRotationIndices prims slots cfg @ [conj_index (st_params st)])), st))"

section \<open>The configuration store invariant\<close>

text \<open>
  A stored configuration is consistent with the parameters (spec section 3: one entry
  per stage, positive budgets within the modulus chain, power-of-two slot count) and its
  precomputed plaintexts, if any, are those of its slot count and budgets.
\<close>

definition boot_cfg_ok :: "'v ckks_prims \<Rightarrow> ckks_params \<Rightarrow> nat \<Rightarrow> 'v boot_cfg \<Rightarrow> bool" where
  "boot_cfg_ok prims p slots cfg \<longleftrightarrow>
     length (cfg_levelBudget cfg) = 2 \<and> length (cfg_dim1 cfg) = 2 \<and>
     is_pow2 slots \<and> 2 * slots \<le> ringDim p \<and>
     0 < cfg_levelBudget cfg ! 0 \<and> 0 < cfg_levelBudget cfg ! 1 \<and>
     cfg_levelBudget cfg ! 0 + approxModDepth p + cfg_levelBudget cfg ! 1 \<le> multDepth p \<and>
     0 < cfg_dim1 cfg ! 0 \<and> 0 < cfg_dim1 cfg ! 1 \<and>
     (case cfg_precom cfg of None \<Rightarrow> True
      | Some pc \<Rightarrow> pc = (enc_factors prims slots (cfg_levelBudget cfg ! 0),
                         dec_factors prims slots (cfg_levelBudget cfg ! 1)))"

definition boot_store_wf :: "'v ckks_prims \<Rightarrow> 'v ckks_state \<Rightarrow> bool" where
  "boot_store_wf prims st \<longleftrightarrow>
     (\<forall>slots cfg. st_boot st slots = Some cfg \<longrightarrow> boot_cfg_ok prims (st_params st) slots cfg)"

text \<open>The conditions Setup checks, in its order.\<close>

definition boot_setup_valid :: "ckks_params \<Rightarrow> nat list \<Rightarrow> nat list \<Rightarrow> nat \<Rightarrow> bool" where
  "boot_setup_valid p levelBudget dim1 slots \<longleftrightarrow>
     length levelBudget = 2 \<and> length dim1 = 2 \<and> is_pow2 slots \<and> 2 * slots \<le> ringDim p \<and>
     0 < levelBudget ! 0 \<and> 0 < levelBudget ! 1 \<and>
     levelBudget ! 0 + approxModDepth p + levelBudget ! 1 \<le> multDepth p"

section \<open>The configuration store invariant\<close>

lemma default_dim1_props: "0 < default_dim1 slots" "slots \<le> default_dim1 slots * default_dim1 slots"
proof -
  let ?xs = "filter (\<lambda>g. slots \<le> g * g) [1..<slots + 2]"
  have "slots + 1 \<in> set ?xs" by (simp del: upt_Suc)
  then have "?xs \<noteq> []" by (metis empty_iff list.set(1))
  then have "hd ?xs \<in> set ?xs" by (rule hd_in_set)
  then have "1 \<le> hd ?xs \<and> slots \<le> hd ?xs * hd ?xs" by (simp del: upt_Suc)
  then show "0 < default_dim1 slots" "slots \<le> default_dim1 slots * default_dim1 slots"
    unfolding default_dim1_def by simp_all
qed

lemma boot_store_wf_empty: "boot_store_wf prims \<lparr>st_params = p, st_boot = Map.empty, st_fbt = f\<rparr>"
  by (simp add: boot_store_wf_def)

lemma boot_store_wf_upd:
  "boot_store_wf prims st \<Longrightarrow> boot_cfg_ok prims (st_params st) slots cfg \<Longrightarrow>
   boot_store_wf prims (st\<lparr>st_boot := (st_boot st)(slots \<mapsto> cfg)\<rparr>)"
  by (simp add: boot_store_wf_def)

lemma EvalBootstrapPrecompute_ckks_Inr:
  "EvalBootstrapPrecompute_ckks prims st slots = Inr st' \<longleftrightarrow>
   (\<exists>cfg. st_boot st slots = Some cfg \<and>
      st' = st\<lparr>st_boot := (st_boot st)(slots \<mapsto>
              cfg\<lparr>cfg_precom := Some (enc_factors prims slots (cfg_levelBudget cfg ! 0),
                                      dec_factors prims slots (cfg_levelBudget cfg ! 1))\<rparr>)\<rparr>)"
  by (auto simp: EvalBootstrapPrecompute_ckks_def split: option.splits)

lemma boot_cfg_ok_precom:
  "boot_cfg_ok prims p slots cfg \<Longrightarrow>
   boot_cfg_ok prims p slots (cfg\<lparr>cfg_precom := Some (enc_factors prims slots (cfg_levelBudget cfg ! 0),
                                               dec_factors prims slots (cfg_levelBudget cfg ! 1))\<rparr>)"
  by (simp add: boot_cfg_ok_def)

lemma EvalBootstrapPrecompute_ckks_wf:
  assumes wf: "boot_store_wf prims st" and ok: "EvalBootstrapPrecompute_ckks prims st slots = Inr st'"
  shows "boot_store_wf prims st'"
proof -
  from ok obtain cfg where cfg: "st_boot st slots = Some cfg"
    and st': "st' = st\<lparr>st_boot := (st_boot st)(slots \<mapsto>
              cfg\<lparr>cfg_precom := Some (enc_factors prims slots (cfg_levelBudget cfg ! 0),
                                      dec_factors prims slots (cfg_levelBudget cfg ! 1))\<rparr>)\<rparr>"
    by (auto simp: EvalBootstrapPrecompute_ckks_Inr)
  from wf cfg have "boot_cfg_ok prims (st_params st) slots cfg" by (simp add: boot_store_wf_def)
  then show ?thesis
    unfolding st' by (intro boot_store_wf_upd wf boot_cfg_ok_precom)
qed

lemma EvalBootstrapSetup_ckks_invalid:
  "\<not> boot_setup_valid (st_params st) levelBudget dim1 slots \<Longrightarrow>
   \<exists>m. EvalBootstrapSetup_ckks prims st levelBudget dim1 slots cf pre = Inl (Invalid_configuration m)"
  by (auto simp: EvalBootstrapSetup_ckks_def boot_setup_valid_def Let_def)

lemma EvalBootstrapSetup_ckks_valid:
  fixes cf :: nat
  assumes "boot_setup_valid (st_params st) levelBudget dim1 slots"
  defines "cfg \<equiv> \<lparr>cfg_levelBudget = levelBudget,
                 cfg_dim1 = map (\<lambda>d. if d = 0 then default_dim1 slots else d) dim1,
                 cfg_correctionFactor = cf, cfg_precom = None\<rparr>"
  shows "EvalBootstrapSetup_ckks prims st levelBudget dim1 slots cf pre =
         (if pre then EvalBootstrapPrecompute_ckks prims (st\<lparr>st_boot := (st_boot st)(slots \<mapsto> cfg)\<rparr>) slots
          else Inr (st\<lparr>st_boot := (st_boot st)(slots \<mapsto> cfg)\<rparr>))"
  using assms(1) unfolding cfg_def
  by (simp add: EvalBootstrapSetup_ckks_def boot_setup_valid_def Let_def not_less)

lemma new_cfg_ok:
  assumes "boot_setup_valid p levelBudget dim1 slots"
  shows "boot_cfg_ok prims p slots
           \<lparr>cfg_levelBudget = levelBudget,
            cfg_dim1 = map (\<lambda>d. if d = 0 then default_dim1 slots else d) dim1,
            cfg_correctionFactor = cf, cfg_precom = None\<rparr>"
proof -
  from assms have "length dim1 = 2" by (simp add: boot_setup_valid_def)
  then have "0 < (if dim1 ! i = 0 then default_dim1 slots else dim1 ! i)" for i
    using default_dim1_props(1) by simp
  with assms show ?thesis
    by (simp add: boot_cfg_ok_def boot_setup_valid_def)
qed

lemma EvalBootstrapSetup_ckks_Inr:
  "EvalBootstrapSetup_ckks prims st levelBudget dim1 slots cf pre = Inr st' \<Longrightarrow>
   boot_setup_valid (st_params st) levelBudget dim1 slots \<and>
   (\<exists>cfg. st_boot st' = (st_boot st)(slots \<mapsto> cfg) \<and> st_params st' = st_params st \<and>
          cfg_levelBudget cfg = levelBudget \<and>
          cfg_dim1 cfg = map (\<lambda>d. if d = 0 then default_dim1 slots else d) dim1 \<and>
          cfg_correctionFactor cfg = cf \<and>
          (pre \<longrightarrow> cfg_precom cfg = Some (enc_factors prims slots (levelBudget ! 0),
                                         dec_factors prims slots (levelBudget ! 1))))"
proof -
  assume ok: "EvalBootstrapSetup_ckks prims st levelBudget dim1 slots cf pre = Inr st'"
  have valid: "boot_setup_valid (st_params st) levelBudget dim1 slots"
    using ok EvalBootstrapSetup_ckks_invalid [of st levelBudget dim1 slots prims cf pre] by auto
  show ?thesis
    using ok valid
    by (auto simp: EvalBootstrapSetup_ckks_valid EvalBootstrapPrecompute_ckks_Inr split: if_splits)
qed

lemma EvalBootstrapSetup_ckks_wf:
  assumes wf: "boot_store_wf prims st"
    and ok: "EvalBootstrapSetup_ckks prims st levelBudget dim1 slots cf pre = Inr st'"
  shows "boot_store_wf prims st'"
proof -
  let ?cfg = "\<lparr>cfg_levelBudget = levelBudget,
              cfg_dim1 = map (\<lambda>d. if d = 0 then default_dim1 slots else d) dim1,
              cfg_correctionFactor = cf, cfg_precom = None\<rparr>"
  have valid: "boot_setup_valid (st_params st) levelBudget dim1 slots"
    using EvalBootstrapSetup_ckks_Inr [OF ok] by simp
  have wf': "boot_store_wf prims (st\<lparr>st_boot := (st_boot st)(slots \<mapsto> ?cfg)\<rparr>)"
    using wf new_cfg_ok [OF valid] by (rule boot_store_wf_upd)
  show ?thesis
  proof (cases pre)
    case True
    with ok valid have "EvalBootstrapPrecompute_ckks prims
        (st\<lparr>st_boot := (st_boot st)(slots \<mapsto> ?cfg)\<rparr>) slots = Inr st'"
      by (simp add: EvalBootstrapSetup_ckks_valid)
    with wf' show ?thesis by (rule EvalBootstrapPrecompute_ckks_wf)
  next
    case False
    with ok valid wf' show ?thesis by (simp add: EvalBootstrapSetup_ckks_valid)
  qed
qed

section \<open>Key generation\<close>

lemma set_FindBootstrapRotationIndices:
  "set (FindBootstrapRotationIndices prims slots cfg) =
     (\<Union>f\<in>set (enc_factors prims slots (cfg_levelBudget cfg ! 0)).
        set (lt_rotation_indices (cfg_dim1 cfg ! 0) f)) \<union>
     (\<Union>f\<in>set (dec_factors prims slots (cfg_levelBudget cfg ! 1)).
        set (lt_rotation_indices (cfg_dim1 cfg ! 1) f))"
  by (simp add: FindBootstrapRotationIndices_def)

lemma EvalBootstrapKeyGen_ckks_configured:
  assumes "st_boot st slots = Some cfg"
  shows "EvalBootstrapKeyGen_ckks prims keygen st sk slots =
           Inr (\<lambda>k. if k \<in> set (FindBootstrapRotationIndices prims slots cfg) \<union>
                          {conj_index (st_params st)}
                     then Some (keygen sk k) else None, st)"
proof -
  let ?ks = "FindBootstrapRotationIndices prims slots cfg @ [conj_index (st_params st)]"
  have "map_of (map (\<lambda>k. (k, keygen sk k)) ?ks) =
        (\<lambda>k. if k \<in> set ?ks then Some (keygen sk k) else None)"
    by (rule map_of_map_keys)
  with assms show ?thesis
    by (simp add: EvalBootstrapKeyGen_ckks_def del: map_of_append map_append)
qed

lemma EvalBootstrapKeyGen_ckks_unconfigured:
  "st_boot st slots = None \<Longrightarrow>
   \<exists>m. EvalBootstrapKeyGen_ckks prims keygen st sk slots = Inl (Invalid_configuration m)"
  by (simp add: EvalBootstrapKeyGen_ckks_def)

lemma EvalBootstrapSetup_ckks_frame:
  "EvalBootstrapSetup_ckks prims st levelBudget dim1 slots cf pre = Inr st' \<Longrightarrow> s \<noteq> slots \<Longrightarrow>
   st_boot st' s = st_boot st s \<and> st_params st' = st_params st"
  by (auto dest: EvalBootstrapSetup_ckks_Inr)

section \<open>No unsupported errors\<close>

lemma EvalBootstrapPrecompute_ckks_not_unsupported [unsupported_free]:
  "not_unsupported (EvalBootstrapPrecompute_ckks prims st slots)"
  unfolding EvalBootstrapPrecompute_ckks_def by (intro unsupported_free) simp_all

lemma EvalBootstrapSetup_ckks_not_unsupported [unsupported_free]:
  "not_unsupported (EvalBootstrapSetup_ckks prims st levelBudget dim1 slots cf pre)"
  unfolding EvalBootstrapSetup_ckks_def by (intro unsupported_free) simp_all

lemma EvalBootstrapKeyGen_ckks_not_unsupported [unsupported_free]:
  "not_unsupported (EvalBootstrapKeyGen_ckks prims keygen st sk slots)"
  unfolding EvalBootstrapKeyGen_ckks_def by (intro unsupported_free) simp_all

section \<open>Properties of setup and key generation\<close>

text \<open>
  Key generation for a configured slot count returns exactly one key per rotation
  index of the encoding stage's and the decoding stage's BSGS factorization, plus the
  conjugation key, each generated for its own index, and leaves the scheme object as it
  was: no index is omitted and none is extra.
\<close>

theorem EvalBootstrapKeyGen_ckks_exact_keys:
  assumes "st_boot st slots = Some cfg"
    and "EvalBootstrapKeyGen_ckks prims kg st sk slots = Inr (ks, st')"
  shows "dom ks =
           (\<Union>f\<in>set (enc_factors prims slots (cfg_levelBudget cfg ! 0)).
              set (lt_rotation_indices (cfg_dim1 cfg ! 0) f)) \<union>
           (\<Union>f\<in>set (dec_factors prims slots (cfg_levelBudget cfg ! 1)).
              set (lt_rotation_indices (cfg_dim1 cfg ! 1) f)) \<union>
           {conj_index (st_params st)} \<and>
         (\<forall>k\<in>dom ks. ks k = Some (kg sk k)) \<and> st' = st"
proof -
  from assms have ks: "ks = (\<lambda>k. if k \<in> set (FindBootstrapRotationIndices prims slots cfg) \<union>
                                     {conj_index (st_params st)}
                                 then Some (kg sk k) else None)" and st': "st' = st"
    using EvalBootstrapKeyGen_ckks_configured [OF assms(1), of prims kg sk] assms(2) by auto
  have "dom ks = set (FindBootstrapRotationIndices prims slots cfg) \<union> {conj_index (st_params st)}"
    unfolding ks by (auto split: if_splits)
  then show ?thesis
    using st' by (auto simp: ks set_FindBootstrapRotationIndices split: if_splits)
qed

text \<open>
  Setup keeps the configuration store consistent: started from a consistent store,
  a successful Setup yields a consistent store in which the entry of its slot count is
  (re)written and every other slot count's entry is untouched.
\<close>

theorem EvalBootstrapSetup_ckks_preserves_wf:
  assumes "boot_store_wf prims st"
    and "EvalBootstrapSetup_ckks prims st levelBudget dim1 slots cf pre = Inr st'"
  shows "boot_store_wf prims st' \<and> st_boot st' slots \<noteq> None \<and>
         (\<forall>s. s \<noteq> slots \<longrightarrow> st_boot st' s = st_boot st s)"
  using EvalBootstrapSetup_ckks_wf [OF assms] EvalBootstrapSetup_ckks_Inr [OF assms(2)] by auto

end
