(* ===== verification/Refresh.thy ===== *)
theory Refresh
  imports BootConfig
begin

text \<open>
  The CKKS refresh \<open>EvalBootstrap\<close> (spec section 4.3, modelled from the spec: the
  implementation \<open>FHECKKSRNS::EvalBootstrap\<close> is not among the sources). A ciphertext is
  seen through its slots and its remaining level. One pass raises the modulus, applies
  the encoding stage (CoeffsToSlots: one BSGS factor per level of the encoding budget),
  adds the complex conjugate (conjugation key), applies the approximate modular
  reduction, and applies the decoding stage (SlotsToCoeffs). The precomputed plaintexts
  of the configuration are used when present and recomputed otherwise (EvalBootstrap is
  const and cannot store them). With \<open>numIterations > 1\<close> the Meta-BTS correction
  runs: the error of the previous estimate, scaled by \<open>2^precision\<close>, is bootstrapped
  and subtracted after scaling back, once per further iteration; each correction costs one
  more level. The result sits at the top of the chain minus the levels consumed.

  Results: the functional behaviour on every error branch (unconfigured slot count,
  zero iterations, chain too short), the output level, and the Meta-BTS error bound:
  if one pass is within \<open>\<epsilon>\<close> of the identity slot-wise, any number
  \<open>k \<ge> 2\<close> of iterations is within \<open>\<epsilon> / 2^precision\<close>.
\<close>

record 'v ciphertext =
  ct_slots :: "'v list"
  ct_level :: nat

section \<open>One bootstrapping pass\<close>

definition boot_plaintexts ::
  "'v ckks_prims \<Rightarrow> nat \<Rightarrow> 'v boot_cfg \<Rightarrow> 'v lt_factor list \<times> 'v lt_factor list" where
  "boot_plaintexts prims slots cfg =
     (case cfg_precom cfg of
        Some pc \<Rightarrow> pc
      | None \<Rightarrow> (enc_factors prims slots (cfg_levelBudget cfg ! 0),
                dec_factors prims slots (cfg_levelBudget cfg ! 1)))"

definition EvalConjugate ::
  "(nat \<rightharpoonup> 'ek) \<Rightarrow> nat \<Rightarrow> ('v \<Rightarrow> 'v) \<Rightarrow> 'v list \<Rightarrow> 'v list fhe_result" where
  "EvalConjugate keys ci cj v =
     (case keys ci of None \<Rightarrow> Inl (Key_not_found ci) | Some _ \<Rightarrow> Inr (map cj v))"

definition EvalLinearStage ::
  "(nat \<rightharpoonup> 'ek) \<Rightarrow> nat \<Rightarrow> nat \<Rightarrow> 'v::comm_semiring_1 lt_factor list \<Rightarrow> 'v list \<Rightarrow>
   'v list fhe_result" where
  "EvalLinearStage keys n g fss v = res_foldl (\<lambda>u fs. EvalLinearTransformBSGS keys n g fs u) v fss"

definition EvalBootstrapCore ::
  "'v::comm_semiring_1 ckks_prims \<Rightarrow> ckks_params \<Rightarrow> (nat \<rightharpoonup> 'ek) \<Rightarrow> nat \<Rightarrow> 'v boot_cfg \<Rightarrow>
   'v list \<Rightarrow> 'v list fhe_result" where
  "EvalBootstrapCore prims p keys n cfg v =
     (case boot_plaintexts prims n cfg of (encF, decF) \<Rightarrow>
       res_bind (EvalLinearStage keys n (cfg_dim1 cfg ! 0) encF (raise_eff prims v))
         (\<lambda>u1. res_bind (EvalConjugate keys (conj_index p) (conj_eff prims) u1)
           (\<lambda>c. EvalLinearStage keys n (cfg_dim1 cfg ! 1) decF (approx_mod prims (vadd u1 c)))))"

section \<open>Meta-BTS\<close>

text \<open>\<open>meta_bts boot prec k v\<close> runs \<open>k + 1\<close> iterations of bootstrapping on \<open>v\<close>.\<close>

fun meta_bts ::
  "('v::field list \<Rightarrow> 'v list fhe_result) \<Rightarrow> nat \<Rightarrow> nat \<Rightarrow> 'v list \<Rightarrow> 'v list fhe_result" where
  "meta_bts boot prec 0 v = boot v"
| "meta_bts boot prec (Suc k) v =
     res_bind (meta_bts boot prec k v)
       (\<lambda>y. res_bind (boot (vscale (2 ^ prec) (vsub y v)))
         (\<lambda>c. Inr (vsub y (vscale (inverse (2 ^ prec)) c))))"

definition boot_levels_consumed :: "ckks_params \<Rightarrow> 'v boot_cfg \<Rightarrow> nat \<Rightarrow> nat" where
  "boot_levels_consumed p cfg numIterations =
     cfg_levelBudget cfg ! 0 + approxModDepth p + cfg_levelBudget cfg ! 1 + (numIterations - 1)"

definition EvalBootstrap_ckks ::
  "'v::field ckks_prims \<Rightarrow> 'v ckks_state \<Rightarrow> (nat \<rightharpoonup> 'ek) \<Rightarrow> 'v ciphertext \<Rightarrow> nat \<Rightarrow> nat \<Rightarrow>
   'v ciphertext fhe_result" where
  "EvalBootstrap_ckks prims st keys ct numIterations precision =
     (let n = length (ct_slots ct); p = st_params st in
      case st_boot st n of
        None \<Rightarrow> Inl (Invalid_configuration ''EvalBootstrapSetup was not called for these slots'')
      | Some cfg \<Rightarrow>
          if numIterations = 0
          then Inl (Invalid_configuration ''numIterations must be at least 1'')
          else
            (let used = boot_levels_consumed p cfg numIterations in
             if multDepth p < used then Inl (Insufficient_level (multDepth p) used)
             else res_bind (meta_bts (EvalBootstrapCore prims p keys n cfg) precision
                              (numIterations - 1) (ct_slots ct))
                    (\<lambda>w. Inr \<lparr>ct_slots = w, ct_level = multDepth p - used\<rparr>)))"

section \<open>Precision of Meta-BTS\<close>

text \<open>Two slot vectors are \<open>\<epsilon>\<close>-close: same length, every slot within \<open>\<epsilon>\<close>.\<close>

definition close_to :: "real \<Rightarrow> 'v::real_normed_vector list \<Rightarrow> 'v list \<Rightarrow> bool" where
  "close_to eps a b \<longleftrightarrow> length a = length b \<and> (\<forall>i<length a. norm (a ! i - b ! i) \<le> eps)"

section \<open>The pass computes the reference pipeline\<close>

text \<open>
  The reference meaning of one pass: the stages applied by the diagonal method, with no
  keys and no failure. \<open>boot_prims_wf\<close> says the collaborators fit \<open>n\<close> slots:
  well-formed factors, length-preserving modulus raise and modular reduction.
\<close>

definition stage_apply :: "nat \<Rightarrow> 'v::comm_semiring_1 lt_factor list \<Rightarrow> 'v list \<Rightarrow> 'v list" where
  "stage_apply n fss v = foldl (\<lambda>u fs. lt_apply n fs u) v fss"

definition boot_pipeline :: "'v::comm_semiring_1 ckks_prims \<Rightarrow> nat \<Rightarrow> nat list \<Rightarrow> 'v list \<Rightarrow> 'v list" where
  "boot_pipeline prims n levelBudget v =
     (let u1 = stage_apply n (enc_factors prims n (levelBudget ! 0)) (raise_eff prims v)
      in stage_apply n (dec_factors prims n (levelBudget ! 1))
           (approx_mod prims (vadd u1 (map (conj_eff prims) u1))))"

definition boot_prims_wf :: "'v ckks_prims \<Rightarrow> nat \<Rightarrow> nat list \<Rightarrow> bool" where
  "boot_prims_wf prims n levelBudget \<longleftrightarrow>
     (\<forall>fs\<in>set (enc_factors prims n (levelBudget ! 0)). lt_wf n fs) \<and>
     (\<forall>fs\<in>set (dec_factors prims n (levelBudget ! 1)). lt_wf n fs) \<and>
     (\<forall>u. length u = n \<longrightarrow> length (raise_eff prims u) = n) \<and>
     (\<forall>u. length u = n \<longrightarrow> length (approx_mod prims u) = n)"

section \<open>Error branches and levels\<close>

text \<open>
  Refreshing a ciphertext whose slot count was never passed to Setup fails with an
  InvalidConfiguration error, never with a numeric result.
\<close>

theorem EvalBootstrap_ckks_unconfigured:
  "st_boot st (length (ct_slots ct)) = None \<Longrightarrow>
   \<exists>m. EvalBootstrap_ckks prims st keys ct it pr = Inl (Invalid_configuration m)"
  by (simp add: EvalBootstrap_ckks_def)

lemma EvalBootstrap_ckks_zero_iterations:
  "\<exists>m. EvalBootstrap_ckks prims st keys ct 0 pr = Inl (Invalid_configuration m)"
  by (simp add: EvalBootstrap_ckks_def Let_def split: option.splits)

lemma EvalBootstrap_ckks_chain_too_short:
  "st_boot st (length (ct_slots ct)) = Some cfg \<Longrightarrow> 0 < it \<Longrightarrow>
   multDepth (st_params st) < boot_levels_consumed (st_params st) cfg it \<Longrightarrow>
   EvalBootstrap_ckks prims st keys ct it pr =
     Inl (Insufficient_level (multDepth (st_params st)) (boot_levels_consumed (st_params st) cfg it))"
  by (simp add: EvalBootstrap_ckks_def Let_def)

lemma EvalBootstrap_ckks_Inr:
  "EvalBootstrap_ckks prims st keys ct it pr = Inr ct' \<Longrightarrow>
   \<exists>cfg. st_boot st (length (ct_slots ct)) = Some cfg \<and> 0 < it \<and>
     boot_levels_consumed (st_params st) cfg it \<le> multDepth (st_params st) \<and>
     meta_bts (EvalBootstrapCore prims (st_params st) keys (length (ct_slots ct)) cfg) pr (it - 1)
       (ct_slots ct) = Inr (ct_slots ct') \<and>
     ct_level ct' = multDepth (st_params st) - boot_levels_consumed (st_params st) cfg it"
  by (auto simp: EvalBootstrap_ckks_def Let_def res_bind_eq_Inr split: option.splits if_splits)

section \<open>Precision of Meta-BTS\<close>

lemma meta_step_slot:
  fixes a b c :: "'v::real_normed_field"
  assumes "norm (c - 2 ^ p * (a - b)) \<le> eps"
  shows "norm (a - inverse (2 ^ p) * c - b) \<le> eps / 2 ^ p"
proof -
  let ?t = "(2::'v) ^ p"
  have t: "?t \<noteq> 0" by simp
  have "a - inverse ?t * c - b = - (inverse ?t * (c - ?t * (a - b)))"
    using t by (simp add: algebra_simps)
  then have "norm (a - inverse ?t * c - b) = norm (c - ?t * (a - b)) / 2 ^ p"
    by (simp add: norm_mult norm_inverse norm_power divide_inverse mult.commute)
  with assms show ?thesis by (simp add: divide_right_mono)
qed

lemma meta_step_error:
  fixes y v c :: "'v::real_normed_field list"
  assumes "length y = length v" and "close_to eps c (vscale (2 ^ p) (vsub y v))"
  shows "close_to (eps / 2 ^ p) (vsub y (vscale (inverse (2 ^ p)) c)) v"
  using assms unfolding close_to_def by (auto intro!: meta_step_slot)

lemma meta_bts_bound:
  fixes v :: "'v::real_normed_field list"
  assumes boot: "\<forall>u. length u = length v \<longrightarrow> (\<exists>w. boot u = Inr w \<and> close_to eps w u)"
  shows "\<exists>y. meta_bts boot p k v = Inr y \<and> close_to (if k = 0 then eps else eps / 2 ^ p) y v"
proof (induction k)
  case 0
  then show ?case using boot by simp
next
  case (Suc k)
  then obtain y where y: "meta_bts boot p k v = Inr y" and len: "length y = length v"
    by (auto simp: close_to_def)
  let ?u = "vscale (2 ^ p) (vsub y v)"
  have "length ?u = length v" using len by simp
  with boot obtain c where c: "boot ?u = Inr c" and cl: "close_to eps c ?u" by blast
  have "close_to (eps / 2 ^ p) (vsub y (vscale (inverse (2 ^ p)) c)) v"
    using len cl by (rule meta_step_error)
  with y c show ?case by simp
qed

section \<open>The pass computes the reference pipeline\<close>

lemma length_lt_apply: "lt_wf n fs \<Longrightarrow> length v = n \<Longrightarrow> length (lt_apply n fs v) = n"
  unfolding lt_apply_def by (rule length_vsum) (auto simp: lt_wf_def)

lemma EvalLinearStage_ok:
  assumes "\<forall>fs\<in>set fss. lt_wf n fs \<and> set (lt_rotation_indices g fs) \<subseteq> dom keys"
    and "length v = n"
  shows "EvalLinearStage keys n g fss v = Inr (stage_apply n fss v) \<and> length (stage_apply n fss v) = n"
proof -
  have "res_foldl (\<lambda>u fs. EvalLinearTransformBSGS keys n g fs u) v fss =
          Inr (foldl (\<lambda>u fs. lt_apply n fs u) v fss) \<and>
        length (foldl (\<lambda>u fs. lt_apply n fs u) v fss) = n"
    using assms
    by (intro res_foldl_all_Inr [where P = "\<lambda>u. length u = n"])
       (simp_all add: bsgs_eval_eq_diagonal length_lt_apply)
  then show ?thesis by (simp add: EvalLinearStage_def stage_apply_def)
qed

lemma boot_plaintexts_ok:
  "boot_cfg_ok prims p n cfg \<Longrightarrow>
   boot_plaintexts prims n cfg = (enc_factors prims n (cfg_levelBudget cfg ! 0),
                                  dec_factors prims n (cfg_levelBudget cfg ! 1))"
  by (auto simp: boot_plaintexts_def boot_cfg_ok_def split: option.splits)

lemma bootstrap_core_eq_pipeline:
  assumes cfg: "boot_cfg_ok prims p n cfg" and wf: "boot_prims_wf prims n (cfg_levelBudget cfg)"
    and keys: "set (FindBootstrapRotationIndices prims n cfg) \<union> {conj_index p} \<subseteq> dom keys"
    and v: "length v = n"
  shows "EvalBootstrapCore prims p keys n cfg v = Inr (boot_pipeline prims n (cfg_levelBudget cfg) v)"
proof -
  let ?encF = "enc_factors prims n (cfg_levelBudget cfg ! 0)"
  let ?decF = "dec_factors prims n (cfg_levelBudget cfg ! 1)"
  let ?u1 = "stage_apply n ?encF (raise_eff prims v)"
  have encK: "\<forall>fs\<in>set ?encF. lt_wf n fs \<and> set (lt_rotation_indices (cfg_dim1 cfg ! 0) fs) \<subseteq> dom keys"
    using wf keys by (auto simp: boot_prims_wf_def set_FindBootstrapRotationIndices)
  have decK: "\<forall>fs\<in>set ?decF. lt_wf n fs \<and> set (lt_rotation_indices (cfg_dim1 cfg ! 1) fs) \<subseteq> dom keys"
    using wf keys by (auto simp: boot_prims_wf_def set_FindBootstrapRotationIndices)
  have r: "length (raise_eff prims v) = n" using wf v by (simp add: boot_prims_wf_def)
  have st1: "EvalLinearStage keys n (cfg_dim1 cfg ! 0) ?encF (raise_eff prims v) = Inr ?u1"
    and l1: "length ?u1 = n"
    using EvalLinearStage_ok [OF encK r] by simp_all
  have conj: "EvalConjugate keys (conj_index p) (conj_eff prims) ?u1 = Inr (map (conj_eff prims) ?u1)"
    using keys by (auto simp: EvalConjugate_def)
  have "length (approx_mod prims (vadd ?u1 (map (conj_eff prims) ?u1))) = n"
    using wf l1 by (simp add: boot_prims_wf_def)
  then have st2: "EvalLinearStage keys n (cfg_dim1 cfg ! 1) ?decF
                    (approx_mod prims (vadd ?u1 (map (conj_eff prims) ?u1))) =
                  Inr (stage_apply n ?decF (approx_mod prims (vadd ?u1 (map (conj_eff prims) ?u1))))"
    using EvalLinearStage_ok [OF decK] by simp
  show ?thesis
    unfolding EvalBootstrapCore_def boot_plaintexts_ok [OF cfg] boot_pipeline_def Let_def
    using st1 conj st2 by simp
qed

section \<open>No unsupported errors\<close>

lemma EvalConjugate_not_unsupported [unsupported_free]:
  "not_unsupported (EvalConjugate keys ci cj v)"
  unfolding EvalConjugate_def by (intro unsupported_free) simp_all

lemma EvalBootstrapCore_not_unsupported [unsupported_free]:
  "not_unsupported (EvalBootstrapCore prims p keys n cfg v)"
  unfolding EvalBootstrapCore_def EvalLinearStage_def by (intro unsupported_free)

lemma meta_bts_not_unsupported [unsupported_free]:
  "(\<And>u. not_unsupported (boot u)) \<Longrightarrow> not_unsupported (meta_bts boot prec k v)"
  by (induction k) (simp_all add: unsupported_free)

lemma EvalBootstrap_ckks_not_unsupported [unsupported_free]:
  "not_unsupported (EvalBootstrap_ckks prims st keys ct it pr)"
  unfolding EvalBootstrap_ckks_def by (intro unsupported_free) simp_all

section \<open>Properties of the refresh\<close>

text \<open>
  Meta-BTS precision: if one bootstrapping pass is slot-wise within \<open>\<epsilon>\<close> of the
  identity on every input of the ciphertext's slot count, then a refresh with
  \<open>numIterations\<close> iterations that the chain can afford succeeds, lands at the chain
  top minus the levels it consumed, and is within \<open>\<epsilon>\<close> of the input for one
  iteration and within \<open>\<epsilon> / 2^precision\<close> for two or more: more iterations never
  increase the error bound.
\<close>

theorem EvalBootstrap_ckks_meta_bts_precision:
  fixes ct :: "'v::real_normed_field ciphertext"
  assumes cfg: "st_boot st (length (ct_slots ct)) = Some cfg" and it: "0 < it"
    and lv: "boot_levels_consumed (st_params st) cfg it \<le> multDepth (st_params st)"
    and core: "\<forall>u. length u = length (ct_slots ct) \<longrightarrow>
                 (\<exists>w. EvalBootstrapCore prims (st_params st) keys (length (ct_slots ct)) cfg u = Inr w \<and>
                      close_to eps w u)"
  shows "\<exists>ct'. EvalBootstrap_ckks prims st keys ct it pr = Inr ct' \<and>
           close_to (if it = 1 then eps else eps / 2 ^ pr) (ct_slots ct') (ct_slots ct) \<and>
           ct_level ct' = multDepth (st_params st) - boot_levels_consumed (st_params st) cfg it"
proof -
  obtain y where y: "meta_bts (EvalBootstrapCore prims (st_params st) keys (length (ct_slots ct)) cfg)
                       pr (it - 1) (ct_slots ct) = Inr y"
    and cl: "close_to (if it - 1 = 0 then eps else eps / 2 ^ pr) y (ct_slots ct)"
    using meta_bts_bound [OF core] by blast
  have "(it - 1 = 0) = (it = 1)" using it by arith
  with cl have cl': "close_to (if it = 1 then eps else eps / 2 ^ pr) y (ct_slots ct)" by simp
  have "EvalBootstrap_ckks prims st keys ct it pr =
          Inr \<lparr>ct_slots = y, ct_level = multDepth (st_params st) - boot_levels_consumed (st_params st) cfg it\<rparr>"
    using cfg it lv y by (simp add: EvalBootstrap_ckks_def Let_def)
  with cl' show ?thesis by auto
qed

text \<open>
  One bootstrapping pass, given the keys that key generation produces, computes the
  reference pipeline: modulus raise, the encoding stage by the diagonal method, adding
  the conjugate, approximate modular reduction, the decoding stage by the diagonal
  method. The BSGS evaluation with key lookups refines the plain matrix pipeline.
\<close>

theorem EvalBootstrapCore_refines_pipeline:
  assumes "boot_cfg_ok prims p n cfg" and "boot_prims_wf prims n (cfg_levelBudget cfg)"
    and "set (FindBootstrapRotationIndices prims n cfg) \<union> {conj_index p} \<subseteq> dom keys"
    and "length v = n"
  shows "EvalBootstrapCore prims p keys n cfg v = Inr (boot_pipeline prims n (cfg_levelBudget cfg) v)"
  using assms by (rule bootstrap_core_eq_pipeline)

section \<open>One pass with the needed keys\<close>

lemma stage_apply_length:
  "\<forall>fs\<in>set fss. lt_wf n fs \<Longrightarrow> length v = n \<Longrightarrow> length (stage_apply n fss v) = n"
  by (induction fss arbitrary: v) (simp_all add: stage_apply_def length_lt_apply)

lemma boot_pipeline_length:
  "boot_prims_wf prims n lb \<Longrightarrow> length v = n \<Longrightarrow> length (boot_pipeline prims n lb v) = n"
  by (simp add: boot_pipeline_def Let_def boot_prims_wf_def stage_apply_length)

text \<open>
  With a consistent configuration, collaborators that fit it and every key it needs, a
  single-iteration refresh of a ciphertext of the configured slot count always succeeds,
  computes the reference pipeline, and lands at the chain top minus the levels consumed.
\<close>

lemma EvalBootstrap_ckks_one_pass:
  assumes cfg: "st_boot st n = Some cfg" and ok: "boot_cfg_ok prims (st_params st) n cfg"
    and pw: "boot_prims_wf prims n (cfg_levelBudget cfg)"
    and keys: "set (FindBootstrapRotationIndices prims n cfg) \<union> {conj_index (st_params st)} \<subseteq> dom store"
    and len: "length (ct_slots ct) = n"
  shows "EvalBootstrap_ckks prims st store ct 1 pr =
           Inr \<lparr>ct_slots = boot_pipeline prims n (cfg_levelBudget cfg) (ct_slots ct),
                ct_level = multDepth (st_params st) - boot_levels_consumed (st_params st) cfg 1\<rparr>"
proof -
  have core: "EvalBootstrapCore prims (st_params st) store n cfg (ct_slots ct) =
                Inr (boot_pipeline prims n (cfg_levelBudget cfg) (ct_slots ct))"
    by (rule bootstrap_core_eq_pipeline [OF ok pw keys len])
  have lv: "\<not> multDepth (st_params st) < boot_levels_consumed (st_params st) cfg 1"
    using ok by (simp add: boot_cfg_ok_def boot_levels_consumed_def)
  show ?thesis
    unfolding EvalBootstrap_ckks_def Let_def len cfg using core lv by simp
qed

end
