(* ===== verification/SeriesEval.thy ===== *)
theory SeriesEval
  imports Prelude
begin

text \<open>
  Evaluation of a coefficient series on the slots, the arithmetic behind the functional
  and multi-valued bootstraps (spec sections 4.4, 4.5; the implementation is not among
  the sources, so this theory is modelled from the spec). A fresh evaluation runs
  Horner's rule slot by slot (\<open>horner\<close>). The SeriesPowers cache instead holds the
  power basis \<open>x^0, ..., x^d\<close> of the base, each power computed by repeated squaring
  (\<open>vpow_sq\<close>, spec section 5: \<open>p^(2k)\<close> from \<open>p^k\<close>), and evaluates any series of
  degree at most \<open>d\<close> as a linear combination of the cached powers
  (\<open>eval_powers\<close>). The power basis of degree \<open>d\<close> costs \<open>series_depth d\<close> levels,
  the depth of the squaring chain, \<open>\<lceil>log2 d\<rceil>\<close>.

  Results: squaring computes the powers (\<open>vpow_sq_eq\<close>, with its termination
  measure), evaluation from the cached powers equals Horner's rule
  (\<open>eval_powers_horner\<close>), and the depth bounds
  \<open>d \<le> 2^series_depth d < 2 d\<close>.
\<close>

primrec horner :: "'v::comm_semiring_1 list \<Rightarrow> 'v \<Rightarrow> 'v" where
  "horner [] x = 0"
| "horner (c # cs) x = c + x * horner cs x"

function vpow_sq :: "'v::monoid_mult list \<Rightarrow> nat \<Rightarrow> 'v list" where
  "vpow_sq v n =
     (if n = 0 then map (\<lambda>_. 1) v
      else (let h = vpow_sq v (n div 2) in if even n then vmul h h else vmul (vmul h h) v))"
  by pat_completeness auto
termination by (relation "measure snd") auto

declare vpow_sq.simps [simp del]

definition series_powers :: "'v::monoid_mult list \<Rightarrow> nat \<Rightarrow> 'v list list" where
  "series_powers v d = map (vpow_sq v) [0..<Suc d]"

definition eval_powers :: "nat \<Rightarrow> 'v::comm_semiring_1 list \<Rightarrow> 'v list list \<Rightarrow> 'v list" where
  "eval_powers n cs ps = vsum n (map2 vscale cs ps)"

function series_depth :: "nat \<Rightarrow> nat" where
  "series_depth d = (if d \<le> 1 then 0 else Suc (series_depth ((d + 1) div 2)))"
  by pat_completeness auto
termination by (relation "measure id") auto

declare series_depth.simps [simp del]

section \<open>Horner's rule and the power sum\<close>

lemma horner_sum: "horner cs x = (\<Sum>j<length cs. cs ! j * x ^ j)"
proof (induction cs)
  case Nil
  then show ?case by simp
next
  case (Cons c cs)
  have "(\<Sum>j<length (c # cs). (c # cs) ! j * x ^ j) = c + (\<Sum>j<length cs. cs ! j * x ^ Suc j)"
    by (simp add: sum.lessThan_Suc_shift del: sum.lessThan_Suc)
  also have "\<dots> = c + x * (\<Sum>j<length cs. cs ! j * x ^ j)"
    by (simp add: sum_distrib_left ac_simps)
  finally show ?case using Cons by simp
qed

section \<open>Powers by squaring\<close>

lemma power_half_even: "even n \<Longrightarrow> x ^ (n div 2) * x ^ (n div 2) = (x::'a::monoid_mult) ^ n"
proof -
  assume "even n"
  then have "n div 2 + n div 2 = n" by presburger
  then show ?thesis by (metis power_add)
qed

lemma power_half_odd: "odd n \<Longrightarrow> x ^ (n div 2) * x ^ (n div 2) * x = (x::'a::monoid_mult) ^ n"
proof -
  assume "odd n"
  then have "Suc (n div 2 + n div 2) = n" by presburger
  then show ?thesis by (metis power_add power_Suc2)
qed

lemma vpow_sq_eq: "vpow_sq v n = map (\<lambda>x. x ^ n) v"
proof (induction v n rule: vpow_sq.induct)
  case (1 v n)
  show ?case
  proof (cases "n = 0")
    case True
    then show ?thesis by (subst vpow_sq.simps) simp
  next
    case False
    then have IH: "vpow_sq v (n div 2) = map (\<lambda>x. x ^ (n div 2)) v" by (rule "1")
    show ?thesis
    proof (cases "even n")
      case True
      then show ?thesis using False
        by (subst vpow_sq.simps) (simp add: IH Let_def vmul_def zip_map1 zip_map2 zip_same_conv_map
            power_half_even o_def)
    next
      case odd: False
      then show ?thesis using False
        by (subst vpow_sq.simps) (simp add: IH Let_def vmul_def zip_map1 zip_map2 zip_same_conv_map
            power_half_odd o_def)
    qed
  qed
qed

lemma length_vpow_sq [simp]: "length (vpow_sq v n) = length v"
  by (simp add: vpow_sq_eq)

section \<open>Evaluation from the cached powers\<close>

lemma eval_powers_horner:
  assumes "length u = n" and "length cs \<le> Suc d"
  shows "eval_powers n cs (series_powers u d) = map (horner cs) u"
proof (rule nth_equalityI)
  let ?ps = "series_powers u d"
  have m: "map2 vscale cs ?ps = map (\<lambda>j. vscale (cs ! j) (map (\<lambda>x. x ^ j) u)) [0..<length cs]"
  proof (rule nth_equalityI)
    show "length (map2 vscale cs ?ps) = length (map (\<lambda>j. vscale (cs ! j) (map (\<lambda>x. x ^ j) u)) [0..<length cs])"
      using assms(2) by (simp add: series_powers_def del: upt_Suc)
    fix j assume "j < length (map2 vscale cs ?ps)"
    then show "map2 vscale cs ?ps ! j = map (\<lambda>j. vscale (cs ! j) (map (\<lambda>x. x ^ j) u)) [0..<length cs] ! j"
      using assms(2) by (simp add: series_powers_def vpow_sq_eq del: upt_Suc)
  qed
  have len: "\<forall>v\<in>set (map2 vscale cs ?ps). length v = n"
    unfolding m using assms(1) by auto
  show "length (eval_powers n cs ?ps) = length (map (horner cs) u)"
    using len assms(1) by (simp add: eval_powers_def length_vsum)
  fix i assume "i < length (eval_powers n cs ?ps)"
  then have i: "i < n" using len by (simp add: eval_powers_def length_vsum)
  have "eval_powers n cs ?ps ! i = (\<Sum>v\<leftarrow>map2 vscale cs ?ps. v ! i)"
    using len i by (simp add: eval_powers_def nth_vsum)
  also have "\<dots> = (\<Sum>j\<leftarrow>[0..<length cs]. cs ! j * u ! i ^ j)"
    unfolding m using i assms(1) by (simp add: o_def)
  also have "\<dots> = horner cs (u ! i)"
    by (simp add: horner_sum interv_sum_list_conv_sum_set_nat atLeast0LessThan) 
  finally show "eval_powers n cs ?ps ! i = map (horner cs) u ! i"
    using i assms(1) by simp
qed

section \<open>Depth of the power basis\<close>

lemma series_depth_bounds:
  "d \<le> 2 ^ series_depth d \<and> (0 < d \<longrightarrow> 2 ^ series_depth d < 2 * d)"
proof (induction d rule: series_depth.induct)
  case (1 d)
  show ?case
  proof (cases "d \<le> 1")
    case True
    then have "series_depth d = 0" by (subst series_depth.simps) simp
    with True show ?thesis by auto
  next
    case False
    then have sd: "series_depth d = Suc (series_depth ((d + 1) div 2))"
      by (subst series_depth.simps) simp
    define p where "p = (2::nat) ^ series_depth ((d + 1) div 2)"
    have par: "even p \<or> p = 1" by (cases "series_depth ((d + 1) div 2)") (auto simp: p_def)
    from "1" False have "(d + 1) div 2 \<le> p \<and> p < 2 * ((d + 1) div 2)"
      by (simp add: p_def)
    then have "d \<le> 2 * p \<and> 2 * p < 2 * d" using par False by presburger
    then show ?thesis by (simp add: sd p_def)
  qed
qed

end
