(* ===== verification/FBT.thy ===== *)
theory FBT
  imports Refresh SeriesEval FHEBase
begin

text \<open>
  The CKKS functional bootstrap and the multi-valued bootstrap (spec sections 4.4, 4.5;
  the implementation, \<open>FHECKKSRNS::EvalFBT*\<close>, \<open>EvalHomDecoding\<close> and
  \<open>EvalMVB*\<close>, is not among the sources, so it is modelled from the spec).
  \<open>EvalFBTSetup\<close> validates its arguments against the modulus chain and stores a
  configuration for the slot count (\<open>st_fbt\<close>). Evaluation follows the refresh: modulus
  raise, normalisation by \<open>initialScaling\<close>, the encoding stage (CoeffsToSlots), then the
  bound function instead of the modular reduction, evaluated slot-wise as the coefficient
  series (\<open>horner\<close>); \<open>EvalFBTNoDecoding\<close> stops there, \<open>EvalHomDecoding\<close> performs
  the decoding stage (SlotsToCoeffs), multiplies by \<open>postScaling\<close> and consumes
  \<open>levelToReduce\<close> more levels, and \<open>EvalFBT\<close> does all of it in one pass. The
  multi-valued bootstrap splits the evaluation at the power basis: \<open>EvalMVBPrecompute\<close>
  runs the front of the pipeline once and caches the powers of the encoded base
  (\<open>series_powers\<close>, keyed by digit size and order), and \<open>EvalMVB\<close> evaluates any
  series of bounded degree from the cache, checking the key first (ParameterMismatch).

  The series of degree \<open>d\<close> fixed at setup costs \<open>series_depth d\<close> levels; a coefficient
  vector longer than the setup's degree allows is an InvalidConfiguration. Both coefficient
  domains run the same generic algorithm (spec section 9): integer coefficients enter by
  \<open>of_int\<close>, complex ones through the encoding collaborator \<open>enc_coeff\<close>.
  The digit decomposition that \<open>digitBitSize\<close> drives inside the evaluation is not
  modelled: the model evaluates the series exactly, and \<open>digitBitSize\<close> is validated and
  keys the cache.

  Results: the round-trip law \<open>EvalFBT = EvalHomDecoding \<circ> EvalFBTNoDecoding\<close>
  (\<open>EvalFBT_ckks_roundtrip\<close>), the multi-valued bootstrap agrees with a fresh
  functional bootstrap (\<open>EvalMVB_ckks_eq_EvalFBT\<close>), the key check of the cache, the
  error branches, that setup keeps the configuration store consistent, and that a
  functional bootstrap leaves the levels reserved at setup.
\<close>

record 'v series_powers =
  sp_base :: "'v ciphertext"
  sp_digitBitSize :: nat
  sp_order :: nat
  sp_powers :: "'v list list"
  sp_level :: nat

definition coeffs_ckks :: "'v::ring_1 ckks_prims \<Rightarrow> coeffs \<Rightarrow> 'v list" where
  "coeffs_ckks prims c =
     (case c of Complex_coeffs cs \<Rightarrow> map (enc_coeff prims) cs | Int_coeffs is \<Rightarrow> map of_int is)"

definition fbt_eval_levels :: "fbt_cfg \<Rightarrow> nat" where
  "fbt_eval_levels cfg = fbt_levelBudget cfg ! 0 + series_depth (fbt_degree cfg)"

definition EvalFBTSetup_ckks ::
  "'v ckks_state \<Rightarrow> 'v list \<Rightarrow> nat \<Rightarrow> int \<Rightarrow> int \<Rightarrow> int \<Rightarrow> nat list \<Rightarrow> nat list \<Rightarrow>
   nat \<Rightarrow> nat \<Rightarrow> nat \<Rightarrow> 'v ckks_state fhe_result" where
  "EvalFBTSetup_ckks st coeffs numSlots PIn POut Bigq dim1 levelBudget lvlsAfterBoot
     depthLeveledComputation order =
     (let p = st_params st in
      if length levelBudget \<noteq> 2 \<or> length dim1 \<noteq> 2
      then Inl (Invalid_configuration ''levelBudget and dim1 need one entry per stage'')
      else if \<not> is_pow2 numSlots \<or> ringDim p < 2 * numSlots
      then Inl (Invalid_configuration ''slots must be a power of two of at most ringDim / 2'')
      else if levelBudget ! 0 = 0 \<or> levelBudget ! 1 = 0
      then Inl (Invalid_configuration ''level budgets must be positive'')
      else if PIn \<le> 0 \<or> POut \<le> 0 \<or> Bigq \<le> 0
      then Inl (Invalid_configuration ''PIn, POut and Bigq must be positive'')
      else if order = 0 then Inl (Invalid_configuration ''order must be at least 1'')
      else if coeffs = [] then Inl (Invalid_configuration ''the function needs a coefficient'')
      else
        (let cfg = \<lparr>fbt_levelBudget = levelBudget,
                    fbt_dim1 = map (\<lambda>d. if d = 0 then default_dim1 numSlots else d) dim1,
                    fbt_degree = length coeffs - 1, fbt_PIn = PIn, fbt_POut = POut,
                    fbt_Bigq = Bigq, fbt_lvlsAfterBoot = lvlsAfterBoot,
                    fbt_depthLeveled = depthLeveledComputation, fbt_order = order\<rparr>
         in if multDepth p < depthLeveledComputation + fbt_eval_levels cfg + levelBudget ! 1 +
                             lvlsAfterBoot
            then Inl (Invalid_configuration ''level budget exceeds the modulus chain'')
            else Inr (st\<lparr>st_fbt := (st_fbt st)(numSlots \<mapsto> cfg)\<rparr>)))"

text \<open>The argument checks every evaluation entry point makes against the setup.\<close>

definition fbt_check :: "fbt_cfg \<Rightarrow> 'v list \<Rightarrow> nat \<Rightarrow> int \<Rightarrow> nat \<Rightarrow> fhe_error option" where
  "fbt_check cfg coeffs digitBitSize initialScaling order =
     (if digitBitSize = 0 then Some (Invalid_configuration ''digitBitSize must be positive'')
      else if order \<noteq> fbt_order cfg then Some (Invalid_configuration ''order differs from EvalFBTSetup'')
      else if initialScaling = 0 then Some (Invalid_configuration ''initialScaling must be nonzero'')
      else if Suc (fbt_degree cfg) < length coeffs
      then Some (Invalid_configuration ''coefficients exceed the degree fixed by EvalFBTSetup'')
      else None)"

text \<open>The front of the pipeline (raise, normalise, CoeffsToSlots) and its back
  (SlotsToCoeffs, output scaling).\<close>

definition fbt_front ::
  "'v::field ckks_prims \<Rightarrow> (nat \<rightharpoonup> 'ek) \<Rightarrow> nat \<Rightarrow> fbt_cfg \<Rightarrow> int \<Rightarrow> 'v list \<Rightarrow> 'v list fhe_result" where
  "fbt_front prims keys n cfg initialScaling v =
     EvalLinearStage keys n (fbt_dim1 cfg ! 0) (enc_factors prims n (fbt_levelBudget cfg ! 0))
       (vscale (inverse (of_int initialScaling)) (raise_eff prims v))"

definition fbt_back ::
  "'v::field ckks_prims \<Rightarrow> (nat \<rightharpoonup> 'ek) \<Rightarrow> nat \<Rightarrow> fbt_cfg \<Rightarrow> nat \<Rightarrow> 'v list \<Rightarrow> 'v list fhe_result" where
  "fbt_back prims keys n cfg postScaling v =
     res_bind (EvalLinearStage keys n (fbt_dim1 cfg ! 1) (dec_factors prims n (fbt_levelBudget cfg ! 1)) v)
       (\<lambda>w. Inr (vscale (of_nat postScaling) w))"

definition EvalFBTNoDecoding_ckks ::
  "'v::field ckks_prims \<Rightarrow> 'v ckks_state \<Rightarrow> (nat \<rightharpoonup> 'ek) \<Rightarrow> 'v ciphertext \<Rightarrow> 'v list \<Rightarrow> nat \<Rightarrow>
   int \<Rightarrow> nat \<Rightarrow> 'v ciphertext fhe_result" where
  "EvalFBTNoDecoding_ckks prims st keys ct coeffs digitBitSize initialScaling order =
     (let n = length (ct_slots ct); p = st_params st in
      case st_fbt st n of
        None \<Rightarrow> Inl (Invalid_configuration ''EvalFBTSetup was not called for these slots'')
      | Some cfg \<Rightarrow>
          (case fbt_check cfg coeffs digitBitSize initialScaling order of
             Some e \<Rightarrow> Inl e
           | None \<Rightarrow>
               (let used = fbt_eval_levels cfg in
                if multDepth p < used then Inl (Insufficient_level (multDepth p) used)
                else res_bind (fbt_front prims keys n cfg initialScaling (ct_slots ct))
                       (\<lambda>u. Inr \<lparr>ct_slots = map (horner coeffs) u, ct_level = multDepth p - used\<rparr>))))"

definition EvalHomDecoding_ckks ::
  "'v::field ckks_prims \<Rightarrow> 'v ckks_state \<Rightarrow> (nat \<rightharpoonup> 'ek) \<Rightarrow> 'v ciphertext \<Rightarrow> nat \<Rightarrow> nat \<Rightarrow>
   'v ciphertext fhe_result" where
  "EvalHomDecoding_ckks prims st keys ct postScaling levelToReduce =
     (let n = length (ct_slots ct) in
      case st_fbt st n of
        None \<Rightarrow> Inl (Invalid_configuration ''EvalFBTSetup was not called for these slots'')
      | Some cfg \<Rightarrow>
          (let used = fbt_levelBudget cfg ! 1 + levelToReduce in
           if ct_level ct < used then Inl (Insufficient_level (ct_level ct) used)
           else res_bind (fbt_back prims keys n cfg postScaling (ct_slots ct))
                  (\<lambda>w. Inr \<lparr>ct_slots = w, ct_level = ct_level ct - used\<rparr>)))"

definition EvalFBT_ckks ::
  "'v::field ckks_prims \<Rightarrow> 'v ckks_state \<Rightarrow> (nat \<rightharpoonup> 'ek) \<Rightarrow> 'v ciphertext \<Rightarrow> 'v list \<Rightarrow> nat \<Rightarrow>
   int \<Rightarrow> nat \<Rightarrow> nat \<Rightarrow> nat \<Rightarrow> 'v ciphertext fhe_result" where
  "EvalFBT_ckks prims st keys ct coeffs digitBitSize initialScaling postScaling levelToReduce order =
     (let n = length (ct_slots ct); p = st_params st in
      case st_fbt st n of
        None \<Rightarrow> Inl (Invalid_configuration ''EvalFBTSetup was not called for these slots'')
      | Some cfg \<Rightarrow>
          (case fbt_check cfg coeffs digitBitSize initialScaling order of
             Some e \<Rightarrow> Inl e
           | None \<Rightarrow>
               (let used = fbt_eval_levels cfg + fbt_levelBudget cfg ! 1 + levelToReduce in
                if multDepth p < used then Inl (Insufficient_level (multDepth p) used)
                else res_bind (fbt_front prims keys n cfg initialScaling (ct_slots ct))
                       (\<lambda>u. res_bind (fbt_back prims keys n cfg postScaling (map (horner coeffs) u))
                         (\<lambda>w. Inr \<lparr>ct_slots = w, ct_level = multDepth p - used\<rparr>)))))"

definition EvalMVBPrecompute_ckks ::
  "'v::field ckks_prims \<Rightarrow> 'v ckks_state \<Rightarrow> (nat \<rightharpoonup> 'ek) \<Rightarrow> 'v ciphertext \<Rightarrow> 'v list \<Rightarrow> nat \<Rightarrow>
   int \<Rightarrow> nat \<Rightarrow> 'v series_powers fhe_result" where
  "EvalMVBPrecompute_ckks prims st keys ct coeffs digitBitSize initialScaling order =
     (let n = length (ct_slots ct); p = st_params st in
      case st_fbt st n of
        None \<Rightarrow> Inl (Invalid_configuration ''EvalFBTSetup was not called for these slots'')
      | Some cfg \<Rightarrow>
          (case fbt_check cfg coeffs digitBitSize initialScaling order of
             Some e \<Rightarrow> Inl e
           | None \<Rightarrow>
               (let used = fbt_eval_levels cfg in
                if multDepth p < used then Inl (Insufficient_level (multDepth p) used)
                else res_bind (fbt_front prims keys n cfg initialScaling (ct_slots ct))
                       (\<lambda>u. Inr \<lparr>sp_base = ct, sp_digitBitSize = digitBitSize, sp_order = order,
                                sp_powers = series_powers u (fbt_degree cfg),
                                sp_level = multDepth p - used\<rparr>))))"

definition EvalMVBNoDecoding_ckks ::
  "'v::field series_powers \<Rightarrow> 'v list \<Rightarrow> nat \<Rightarrow> nat \<Rightarrow> 'v ciphertext fhe_result" where
  "EvalMVBNoDecoding_ckks sp coeffs digitBitSize order =
     (if sp_digitBitSize sp \<noteq> digitBitSize \<or> sp_order sp \<noteq> order
      then Inl (Parameter_mismatch ''SeriesPowers built with another digit size or order'')
      else if length (sp_powers sp) < length coeffs
      then Inl (Parameter_mismatch ''coefficients exceed the degree of the SeriesPowers'')
      else Inr \<lparr>ct_slots = eval_powers (length (ct_slots (sp_base sp))) coeffs (sp_powers sp),
                ct_level = sp_level sp\<rparr>)"

definition EvalMVB_ckks ::
  "'v::field ckks_prims \<Rightarrow> 'v ckks_state \<Rightarrow> (nat \<rightharpoonup> 'ek) \<Rightarrow> 'v series_powers \<Rightarrow> 'v list \<Rightarrow>
   nat \<Rightarrow> nat \<Rightarrow> nat \<Rightarrow> nat \<Rightarrow> 'v ciphertext fhe_result" where
  "EvalMVB_ckks prims st keys sp coeffs digitBitSize postScaling levelToReduce order =
     res_bind (EvalMVBNoDecoding_ckks sp coeffs digitBitSize order)
       (\<lambda>ct. EvalHomDecoding_ckks prims st keys ct postScaling levelToReduce)"

section \<open>Well-formedness\<close>

text \<open>
  The collaborators fit \<open>n\<close> slots for the stages of a configuration, and a stored
  configuration is consistent with the parameters (the conditions \<open>EvalFBTSetup\<close>
  checks, with the inner dimensions resolved).
\<close>

definition fbt_prims_wf :: "'v ckks_prims \<Rightarrow> nat \<Rightarrow> nat list \<Rightarrow> bool" where
  "fbt_prims_wf prims n levelBudget \<longleftrightarrow>
     (\<forall>fs\<in>set (enc_factors prims n (levelBudget ! 0)). lt_wf n fs) \<and>
     (\<forall>fs\<in>set (dec_factors prims n (levelBudget ! 1)). lt_wf n fs) \<and>
     (\<forall>u. length u = n \<longrightarrow> length (raise_eff prims u) = n)"

definition fbt_cfg_ok :: "ckks_params \<Rightarrow> nat \<Rightarrow> fbt_cfg \<Rightarrow> bool" where
  "fbt_cfg_ok p n cfg \<longleftrightarrow>
     length (fbt_levelBudget cfg) = 2 \<and> length (fbt_dim1 cfg) = 2 \<and>
     is_pow2 n \<and> 2 * n \<le> ringDim p \<and>
     0 < fbt_levelBudget cfg ! 0 \<and> 0 < fbt_levelBudget cfg ! 1 \<and>
     0 < fbt_dim1 cfg ! 0 \<and> 0 < fbt_dim1 cfg ! 1 \<and>
     0 < fbt_PIn cfg \<and> 0 < fbt_POut cfg \<and> 0 < fbt_Bigq cfg \<and> 0 < fbt_order cfg \<and>
     fbt_depthLeveled cfg + fbt_eval_levels cfg + fbt_levelBudget cfg ! 1 + fbt_lvlsAfterBoot cfg
       \<le> multDepth p"

definition fbt_store_wf :: "'v ckks_state \<Rightarrow> bool" where
  "fbt_store_wf st \<longleftrightarrow> (\<forall>n cfg. st_fbt st n = Some cfg \<longrightarrow> fbt_cfg_ok (st_params st) n cfg)"

section \<open>Lemmas on the pipeline\<close>

lemma EvalLinearStage_Inr_length:
  assumes "\<forall>fs\<in>set fss. lt_wf n fs" and "length v = n"
    and "EvalLinearStage keys n g fss v = Inr w"
  shows "length w = n"
  using assms unfolding EvalLinearStage_def
proof (induction fss arbitrary: v)
  case Nil
  then show ?case by simp
next
  case (Cons fs fss)
  from Cons.prems(3) obtain u where u: "EvalLinearTransformBSGS keys n g fs v = Inr u"
    and rest: "res_foldl (\<lambda>u fs. EvalLinearTransformBSGS keys n g fs u) u fss = Inr w"
    unfolding res_foldl.simps res_bind_eq_Inr by blast
  have "lt_wf n fs" using Cons.prems(1) by simp
  then have "length u = n" using Cons.prems(2) u by (rule EvalLinearTransformBSGS_Inr_length)
  with Cons.IH [OF _ _ rest] Cons.prems(1) show ?case by simp
qed

lemma fbt_front_Inr_length:
  assumes "fbt_prims_wf prims n (fbt_levelBudget cfg)" and "length v = n"
    and "fbt_front prims keys n cfg isc v = Inr u"
  shows "length u = n"
proof -
  have "\<forall>fs\<in>set (enc_factors prims n (fbt_levelBudget cfg ! 0)). lt_wf n fs"
    and "length (vscale (inverse (of_int isc)) (raise_eff prims v)) = n"
    using assms(1,2) by (simp_all add: fbt_prims_wf_def)
  then show ?thesis using assms(3) unfolding fbt_front_def by (rule EvalLinearStage_Inr_length)
qed

lemma fbt_check_None:
  "fbt_check cfg cs db isc ord = None \<longleftrightarrow>
   0 < db \<and> ord = fbt_order cfg \<and> isc \<noteq> 0 \<and> length cs \<le> Suc (fbt_degree cfg)"
  by (auto simp: fbt_check_def)

lemma EvalMVBPrecompute_ckks_Inr:
  assumes "EvalMVBPrecompute_ckks prims st keys ct cs db isc ord = Inr sp"
    and "st_fbt st (length (ct_slots ct)) = Some cfg"
  shows "fbt_check cfg cs db isc ord = None \<and> fbt_eval_levels cfg \<le> multDepth (st_params st) \<and>
         (\<exists>u. fbt_front prims keys (length (ct_slots ct)) cfg isc (ct_slots ct) = Inr u \<and>
              sp = \<lparr>sp_base = ct, sp_digitBitSize = db, sp_order = ord,
                    sp_powers = series_powers u (fbt_degree cfg),
                    sp_level = multDepth (st_params st) - fbt_eval_levels cfg\<rparr>)"
  using assms
  by (auto simp: EvalMVBPrecompute_ckks_def Let_def res_bind_eq_Inr not_less
      split: option.splits if_splits)

section \<open>The round-trip law\<close>

text \<open>
  \<open>EvalFBT\<close> succeeds exactly when \<open>EvalFBTNoDecoding\<close> followed by
  \<open>EvalHomDecoding\<close> does, with the same ciphertext: the single check of the whole
  level budget in \<open>EvalFBT\<close> agrees with the two checks of the split evaluation.
\<close>

lemma EvalFBT_ckks_roundtrip:
  assumes cfg: "st_fbt st (length (ct_slots ct)) = Some cfg"
    and wf: "fbt_prims_wf prims (length (ct_slots ct)) (fbt_levelBudget cfg)"
  shows "EvalFBT_ckks prims st keys ct cs db isc ps lr ord = Inr r \<longleftrightarrow>
         res_bind (EvalFBTNoDecoding_ckks prims st keys ct cs db isc ord)
           (\<lambda>ct'. EvalHomDecoding_ckks prims st keys ct' ps lr) = Inr r"
proof (cases "fbt_check cfg cs db isc ord")
  case (Some e)
  then show ?thesis by (simp add: EvalFBT_ckks_def EvalFBTNoDecoding_ckks_def cfg)
next
  case None
  let ?n = "length (ct_slots ct)" and ?m = "multDepth (st_params st)"
  show ?thesis
  proof (cases "fbt_front prims keys ?n cfg isc (ct_slots ct)")
    case (Inl e)
    with None show ?thesis
      by (simp add: EvalFBT_ckks_def EvalFBTNoDecoding_ckks_def cfg Let_def)
  next
    case (Inr u)
    have len: "length (map (horner cs) u) = ?n"
      using fbt_front_Inr_length [OF wf _ Inr] by simp
    show ?thesis
      using None Inr cfg len
      by (auto simp: EvalFBT_ckks_def EvalFBTNoDecoding_ckks_def EvalHomDecoding_ckks_def
          Let_def res_bind_eq_Inr not_less split: if_splits)
  qed
qed

section \<open>The multi-valued bootstrap agrees with a fresh evaluation\<close>

lemma EvalMVBNoDecoding_eq_FBT:
  assumes pre: "EvalMVBPrecompute_ckks prims st keys ct cs0 db isc ord = Inr sp"
    and cfg: "st_fbt st (length (ct_slots ct)) = Some cfg"
    and wf: "fbt_prims_wf prims (length (ct_slots ct)) (fbt_levelBudget cfg)"
    and len: "length cs \<le> Suc (fbt_degree cfg)"
  shows "EvalMVBNoDecoding_ckks sp cs db ord = EvalFBTNoDecoding_ckks prims st keys ct cs db isc ord"
proof -
  obtain u where chk: "fbt_check cfg cs0 db isc ord = None"
    and lv: "fbt_eval_levels cfg \<le> multDepth (st_params st)"
    and u: "fbt_front prims keys (length (ct_slots ct)) cfg isc (ct_slots ct) = Inr u"
    and sp: "sp = \<lparr>sp_base = ct, sp_digitBitSize = db, sp_order = ord,
                   sp_powers = series_powers u (fbt_degree cfg),
                   sp_level = multDepth (st_params st) - fbt_eval_levels cfg\<rparr>"
    using EvalMVBPrecompute_ckks_Inr [OF pre cfg] by blast
  have chk': "fbt_check cfg cs db isc ord = None"
    using chk len by (simp add: fbt_check_None)
  have lu: "length u = length (ct_slots ct)" by (rule fbt_front_Inr_length [OF wf refl u])
  have ev: "eval_powers (length (ct_slots ct)) cs (series_powers u (fbt_degree cfg)) = map (horner cs) u"
    by (rule eval_powers_horner [OF lu len])
  have lp: "length (sp_powers sp) = Suc (fbt_degree cfg)"
    by (simp add: sp series_powers_def del: upt_Suc)
  show ?thesis
    using chk' lv u len ev cfg lp
    by (simp add: sp EvalMVBNoDecoding_ckks_def EvalFBTNoDecoding_ckks_def Let_def not_less)
qed

lemma EvalMVB_ckks_eq_EvalFBT:
  assumes pre: "EvalMVBPrecompute_ckks prims st keys ct cs0 db isc ord = Inr sp"
    and cfg: "st_fbt st (length (ct_slots ct)) = Some cfg"
    and wf: "fbt_prims_wf prims (length (ct_slots ct)) (fbt_levelBudget cfg)"
  shows "EvalMVB_ckks prims st keys sp cs db ps lr ord = Inr r \<longleftrightarrow>
         EvalFBT_ckks prims st keys ct cs db isc ps lr ord = Inr r"
proof (cases "length cs \<le> Suc (fbt_degree cfg)")
  case True
  show ?thesis
    unfolding EvalMVB_ckks_def EvalMVBNoDecoding_eq_FBT [OF pre cfg wf True]
    by (rule EvalFBT_ckks_roundtrip [OF cfg wf, symmetric])
next
  case False
  have sp: "length (sp_powers sp) = Suc (fbt_degree cfg)"
    using EvalMVBPrecompute_ckks_Inr [OF pre cfg] by (auto simp: series_powers_def simp del: upt_Suc)
  show ?thesis
    using False sp cfg
    by (simp add: EvalMVB_ckks_def EvalMVBNoDecoding_ckks_def EvalFBT_ckks_def fbt_check_def Let_def)
qed

section \<open>Error branches\<close>

lemma EvalMVB_ckks_mismatch:
  "sp_digitBitSize sp \<noteq> db \<or> sp_order sp \<noteq> ord \<Longrightarrow>
   EvalMVBNoDecoding_ckks sp cs db ord =
     Inl (Parameter_mismatch ''SeriesPowers built with another digit size or order'') \<and>
   EvalMVB_ckks prims st keys sp cs db ps lr ord =
     Inl (Parameter_mismatch ''SeriesPowers built with another digit size or order'')"
  by (auto simp: EvalMVB_ckks_def EvalMVBNoDecoding_ckks_def)

lemma fbt_unconfigured:
  assumes "st_fbt st (length (ct_slots ct)) = None"
  shows "EvalFBT_ckks prims st keys ct cs db isc ps lr ord =
           Inl (Invalid_configuration ''EvalFBTSetup was not called for these slots'') \<and>
         EvalFBTNoDecoding_ckks prims st keys ct cs db isc ord =
           Inl (Invalid_configuration ''EvalFBTSetup was not called for these slots'') \<and>
         EvalHomDecoding_ckks prims st keys ct ps lr =
           Inl (Invalid_configuration ''EvalFBTSetup was not called for these slots'') \<and>
         EvalMVBPrecompute_ckks prims st keys ct cs db isc ord =
           Inl (Invalid_configuration ''EvalFBTSetup was not called for these slots'')"
  using assms
  by (simp add: EvalFBT_ckks_def EvalFBTNoDecoding_ckks_def EvalHomDecoding_ckks_def
      EvalMVBPrecompute_ckks_def)

section \<open>Setup and levels\<close>

lemma EvalFBTSetup_ckks_Inr:
  assumes "EvalFBTSetup_ckks st cs n pin pout q d1 lb la dl ord = Inr st'"
  shows "\<exists>cfg. st' = st\<lparr>st_fbt := (st_fbt st)(n \<mapsto> cfg)\<rparr> \<and> fbt_cfg_ok (st_params st) n cfg \<and>
               fbt_levelBudget cfg = lb \<and> fbt_degree cfg = length cs - 1 \<and>
               fbt_lvlsAfterBoot cfg = la \<and> fbt_depthLeveled cfg = dl \<and> fbt_order cfg = ord"
  using assms default_dim1_props(1) [of n]
  by (auto simp: EvalFBTSetup_ckks_def Let_def fbt_cfg_ok_def fbt_eval_levels_def not_less
      split: if_splits)

lemma EvalFBTSetup_ckks_preserves_wf:
  assumes "fbt_store_wf st" and "EvalFBTSetup_ckks st cs n pin pout q d1 lb la dl ord = Inr st'"
  shows "fbt_store_wf st' \<and> st_fbt st' n \<noteq> None \<and>
         (\<forall>m. m \<noteq> n \<longrightarrow> st_fbt st' m = st_fbt st m) \<and>
         st_boot st' = st_boot st \<and> st_params st' = st_params st"
  using assms(1) EvalFBTSetup_ckks_Inr [OF assms(2)]
  by (auto simp: fbt_store_wf_def split: if_splits)

lemma EvalFBT_ckks_level:
  assumes "EvalFBT_ckks prims st keys ct cs db isc ps lr ord = Inr r"
    and "st_fbt st (length (ct_slots ct)) = Some cfg"
  shows "ct_level r = multDepth (st_params st) - (fbt_eval_levels cfg + fbt_levelBudget cfg ! 1 + lr) \<and>
         fbt_eval_levels cfg + fbt_levelBudget cfg ! 1 + lr \<le> multDepth (st_params st)"
  using assms
  by (auto simp: EvalFBT_ckks_def Let_def res_bind_eq_Inr not_less split: option.splits if_splits)

lemma EvalFBT_ckks_keeps_reserved_levels:
  assumes r: "EvalFBT_ckks prims st keys ct cs db isc ps lr ord = Inr r"
    and cfg: "st_fbt st (length (ct_slots ct)) = Some cfg"
    and ok: "fbt_cfg_ok (st_params st) (length (ct_slots ct)) cfg"
    and lr: "lr \<le> fbt_depthLeveled cfg"
  shows "fbt_lvlsAfterBoot cfg \<le> ct_level r"
proof -
  have a: "ct_level r = multDepth (st_params st) - (fbt_eval_levels cfg + fbt_levelBudget cfg ! 1 + lr)"
    using EvalFBT_ckks_level [OF r cfg] by blast
  have b: "fbt_depthLeveled cfg + fbt_eval_levels cfg + fbt_levelBudget cfg ! 1 + fbt_lvlsAfterBoot cfg
             \<le> multDepth (st_params st)"
    using ok unfolding fbt_cfg_ok_def by blast
  show ?thesis using a b lr by linarith
qed

section \<open>No unsupported errors\<close>

lemma fbt_front_not_unsupported [unsupported_free]:
  "not_unsupported (fbt_front prims keys n cfg isc v)"
  unfolding fbt_front_def EvalLinearStage_def
  by (intro unsupported_free EvalLinearTransformBSGS_not_unsupported)

lemma fbt_back_not_unsupported [unsupported_free]:
  "not_unsupported (fbt_back prims keys n cfg ps v)"
  unfolding fbt_back_def EvalLinearStage_def
  by (intro unsupported_free EvalLinearTransformBSGS_not_unsupported)

lemma not_unsupported_fbt_check [unsupported_free]:
  "not_unsupported a \<Longrightarrow>
   not_unsupported (case fbt_check cfg cs db isc ord of None \<Rightarrow> a | Some e \<Rightarrow> Inl e)"
  by (auto simp: fbt_check_def not_unsupported_def split: option.splits if_splits)

lemma fbt_ops_not_unsupported [unsupported_free]:
  "not_unsupported (EvalFBTSetup_ckks st cs n pin pout q d1 lb la dl ord)"
  "not_unsupported (EvalFBTNoDecoding_ckks prims st keys ct cs db isc ord)"
  "not_unsupported (EvalHomDecoding_ckks prims st keys ct ps lr)"
  "not_unsupported (EvalFBT_ckks prims st keys ct cs db isc ps lr ord)"
  "not_unsupported (EvalMVBPrecompute_ckks prims st keys ct cs db isc ord)"
  "not_unsupported (EvalMVBNoDecoding_ckks sp cs db ord)"
  "not_unsupported (EvalMVB_ckks prims st keys sp cs db ps lr ord)"
  unfolding EvalFBTSetup_ckks_def EvalFBTNoDecoding_ckks_def EvalHomDecoding_ckks_def
    EvalFBT_ckks_def EvalMVBPrecompute_ckks_def EvalMVBNoDecoding_ckks_def EvalMVB_ckks_def Let_def
  by (auto intro!: unsupported_free)

end
