(* ===== verification/HermiteTrig.thy ===== *)
theory HermiteTrig
  imports FBT
begin

text \<open>
  The Hermite/Trig series composer (spec section 4.6, modelled from the spec):
  \<open>EvalHermiteTrigSeries\<close> evaluates on every slot \<open>x\<close> a Chebyshev series, taken on the
  interval \<open>[a, b]\<close> mapped affinely onto \<open>[-1, 1]\<close> (\<open>interval_map\<close>), plus a
  Hermite correction series evaluated at \<open>x\<close> (physicists' Hermite polynomials
  \<open>hermite_H\<close>). The Chebyshev series is evaluated by Clenshaw's backward recurrence
  (\<open>clenshaw\<close>, \<open>cheb_eval\<close>), the way a homomorphic evaluator avoids building every
  \<open>T_k\<close>; \<open>cheb_eval_sum\<close> proves it equal to the direct sum
  \<open>\<Sum>k. c_k T_k(x)\<close>. The call fails with \<open>Invalid_configuration\<close> on an empty
  interval and with \<open>Insufficient_level\<close> when the ciphertext cannot pay for the affine
  map plus the deeper of the two series (\<open>hermite_trig_levels\<close>); the precomputation
  handle only selects cached work and does not change the result.
\<close>

fun cheb_T :: "nat \<Rightarrow> 'v::comm_ring_1 \<Rightarrow> 'v" where
  "cheb_T 0 x = 1"
| "cheb_T (Suc 0) x = x"
| "cheb_T (Suc (Suc n)) x = 2 * x * cheb_T (Suc n) x - cheb_T n x"

fun cheb_U :: "nat \<Rightarrow> 'v::comm_ring_1 \<Rightarrow> 'v" where
  "cheb_U 0 x = 1"
| "cheb_U (Suc 0) x = 2 * x"
| "cheb_U (Suc (Suc n)) x = 2 * x * cheb_U (Suc n) x - cheb_U n x"

fun clenshaw :: "'v::comm_ring_1 list \<Rightarrow> 'v \<Rightarrow> 'v \<times> 'v" where
  "clenshaw [] x = (0, 0)"
| "clenshaw (c # cs) x = (case clenshaw cs x of (b1, b2) \<Rightarrow> (c + 2 * x * b1 - b2, b1))"

definition cheb_eval :: "'v::comm_ring_1 list \<Rightarrow> 'v \<Rightarrow> 'v" where
  "cheb_eval cs x = (case clenshaw cs x of (b0, b1) \<Rightarrow> b0 - x * b1)"

fun hermite_H :: "nat \<Rightarrow> 'v::comm_ring_1 \<Rightarrow> 'v" where
  "hermite_H 0 x = 1"
| "hermite_H (Suc 0) x = 2 * x"
| "hermite_H (Suc (Suc n)) x = 2 * x * hermite_H (Suc n) x - 2 * of_nat (Suc n) * hermite_H n x"

definition herm_eval :: "'v::comm_ring_1 list \<Rightarrow> 'v \<Rightarrow> 'v" where
  "herm_eval hs x = (\<Sum>k<length hs. hs ! k * hermite_H k x)"

definition interval_map :: "real \<Rightarrow> real \<Rightarrow> 'v::real_field \<Rightarrow> 'v" where
  "interval_map a b x = (2 * x - of_real (a + b)) / of_real (b - a)"

definition hermite_trig_levels :: "nat \<Rightarrow> nat \<Rightarrow> nat" where
  "hermite_trig_levels nc nh = Suc (max (series_depth (nc - 1)) (series_depth (nh - 1)))"

definition EvalHermiteTrigSeries_ckks ::
  "'v::real_field ckks_prims \<Rightarrow> 'v ciphertext \<Rightarrow> complex list \<Rightarrow> real \<Rightarrow> real \<Rightarrow> 'v list \<Rightarrow> nat \<Rightarrow>
   'v ciphertext fhe_result" where
  "EvalHermiteTrigSeries_ckks prims ct coefficientsCheb a b coefficientsHerm precomp =
     (if \<not> a < b then Inl (Invalid_configuration ''EvalHermiteTrigSeries needs a < b'')
      else (let used = hermite_trig_levels (length coefficientsCheb) (length coefficientsHerm);
                cs = map (enc_coeff prims) coefficientsCheb in
            if ct_level ct < used then Inl (Insufficient_level (ct_level ct) used)
            else Inr \<lparr>ct_slots = map (\<lambda>x. cheb_eval cs (interval_map a b x) + herm_eval coefficientsHerm x)
                                      (ct_slots ct),
                      ct_level = ct_level ct - used\<rparr>))"

text \<open>\<open>U_{k-1}\<close>, with \<open>U_{-1} = 0\<close>: the second Clenshaw accumulator.\<close>

definition cheb_Um :: "nat \<Rightarrow> 'v::comm_ring_1 \<Rightarrow> 'v" where
  "cheb_Um k x = (if k = 0 then 0 else cheb_U (k - 1) x)"

section \<open>Clenshaw evaluation equals the Chebyshev sum\<close>

lemma cheb_U_step: "cheb_U (Suc k) x = 2 * x * cheb_U k x - cheb_Um k x"
  by (cases k) (simp_all add: cheb_Um_def)

lemma cheb_Um_simps [simp]: "cheb_Um 0 x = 0" "cheb_Um (Suc k) x = cheb_U k x"
  by (simp_all add: cheb_Um_def)

lemma cheb_T_U: "cheb_T k x = cheb_U k x - x * cheb_Um k x"
proof (induction k x rule: cheb_T.induct)
  case (3 n x)
  have a: "cheb_T (Suc n) x = cheb_U (Suc n) x - x * cheb_U n x" using 3(1) by simp
  have u: "cheb_U (Suc n) x = 2 * x * cheb_U n x - cheb_Um n x" by (rule cheb_U_step)
  show ?case
    unfolding cheb_T.simps(3) cheb_U.simps(3) a 3(2) cheb_Um_simps u
    by (simp add: algebra_simps)
qed simp_all

lemma clenshaw_sums:
  "clenshaw cs x = ((\<Sum>k<length cs. cs ! k * cheb_U k x), (\<Sum>k<length cs. cs ! k * cheb_Um k x))"
proof (induction cs)
  case Nil
  then show ?case by simp
next
  case (Cons c cs)
  have U: "(\<Sum>k<length (c # cs). (c # cs) ! k * cheb_U k x) =
             c + (\<Sum>k<length cs. cs ! k * cheb_U (Suc k) x)"
    by (simp add: sum.lessThan_Suc_shift del: sum.lessThan_Suc)
  have Um: "(\<Sum>k<length (c # cs). (c # cs) ! k * cheb_Um k x) = (\<Sum>k<length cs. cs ! k * cheb_U k x)"
    by (simp add: sum.lessThan_Suc_shift del: sum.lessThan_Suc)
  have "(\<Sum>k<length cs. cs ! k * cheb_U (Suc k) x) =
        2 * x * (\<Sum>k<length cs. cs ! k * cheb_U k x) - (\<Sum>k<length cs. cs ! k * cheb_Um k x)"
    by (simp add: cheb_U_step sum_distrib_left sum_subtractf algebra_simps)
  with Cons U Um show ?case by simp
qed

lemma cheb_eval_sum: "cheb_eval cs x = (\<Sum>k<length cs. cs ! k * cheb_T k x)"
  by (simp add: cheb_eval_def clenshaw_sums cheb_T_U sum_distrib_left sum_subtractf algebra_simps)


section \<open>The composer\<close>

lemma interval_map_ends:
  fixes a b :: real
  assumes "a < b"
  shows "interval_map a b (of_real a :: 'v::real_field) = -1"
    and "interval_map a b (of_real b :: 'v::real_field) = 1"
proof -
  have nz: "(of_real (b - a) :: 'v) \<noteq> 0" using assms by simp
  have lo: "2 * (of_real a :: 'v) - of_real (a + b) = - of_real (b - a)"
    by (simp add: of_real_add of_real_diff algebra_simps)
  show "interval_map a b (of_real a :: 'v) = -1"
    unfolding interval_map_def lo by (simp only: minus_divide_left [symmetric] divide_self [OF nz])
  have hi: "2 * (of_real b :: 'v) - of_real (a + b) = of_real (b - a)"
    by (simp add: of_real_add of_real_diff algebra_simps)
  show "interval_map a b (of_real b :: 'v) = 1"
    unfolding interval_map_def hi using nz by simp
qed

lemma EvalHermiteTrigSeries_ckks_Inr:
  "EvalHermiteTrigSeries_ckks prims ct ch a b hs pc = Inr r \<longleftrightarrow>
     a < b \<and> hermite_trig_levels (length ch) (length hs) \<le> ct_level ct \<and>
     r = \<lparr>ct_slots = map (\<lambda>x. (\<Sum>k<length ch. enc_coeff prims (ch ! k) * cheb_T k (interval_map a b x))
                                   + (\<Sum>k<length hs. hs ! k * hermite_H k x)) (ct_slots ct),
          ct_level = ct_level ct - hermite_trig_levels (length ch) (length hs)\<rparr>"
  by (auto simp: EvalHermiteTrigSeries_ckks_def Let_def cheb_eval_sum herm_eval_def not_less)

lemma EvalHermiteTrigSeries_ckks_errors:
  "\<not> a < b \<Longrightarrow> EvalHermiteTrigSeries_ckks prims ct ch a b hs pc =
     Inl (Invalid_configuration ''EvalHermiteTrigSeries needs a < b'')"
  "a < b \<Longrightarrow> ct_level ct < hermite_trig_levels (length ch) (length hs) \<Longrightarrow>
     EvalHermiteTrigSeries_ckks prims ct ch a b hs pc =
     Inl (Insufficient_level (ct_level ct) (hermite_trig_levels (length ch) (length hs)))"
  by (simp_all add: EvalHermiteTrigSeries_ckks_def Let_def)

lemma EvalHermiteTrigSeries_ckks_precomp:
  "EvalHermiteTrigSeries_ckks prims ct ch a b hs pc = EvalHermiteTrigSeries_ckks prims ct ch a b hs 0"
  by (simp add: EvalHermiteTrigSeries_ckks_def)

lemma EvalHermiteTrigSeries_ckks_not_unsupported [unsupported_free]:
  "not_unsupported (EvalHermiteTrigSeries_ckks prims ct ch a b hs pc)"
  by (simp add: EvalHermiteTrigSeries_ckks_def Let_def not_unsupported_def)

end
