(* ===== verification/CKKSScheme.thy ===== *)
theory CKKSScheme
  imports FHEBase HermiteTrig
begin

text \<open>
  The CKKS scheme as a derived class of \<open>FHEBase\<close>: its override table
  (\<open>ckks_overrides\<close>, every virtual method), the bodies of its overrides
  (\<open>ckks_impl\<close>, each routing a call to the CKKS operation of the component
  theories and wrapping its value as the method's declared return type), and the
  scheme object with the context's key store (\<open>ckks_ctx\<close>). The lemmas give each
  virtual call on the scheme as its CKKS operation (\<open>ckks_call_*\<close>), show that the
  scheme respects the interface and is well-typed, and that the documented order
  Setup, KeyGen, EvalBootstrap works at the level of the CKKS operations.
\<close>

section \<open>The CKKS scheme as an FHEBase scheme\<close>

text \<open>
  The scheme object of the CKKS scheme together with the context's key store: the
  caller merges the keys \<open>EvalBootstrapKeyGen\<close> returns into the store, and
  \<open>EvalBootstrap\<close> looks its keys up there.
\<close>

type_synonym ('v, 'ek) ckks_ctx = "'v ckks_state \<times> (nat \<rightharpoonup> 'ek)"

definition ckks_overrides :: "fhe_method \<Rightarrow> bool" where
  "ckks_overrides m = True"

definition ckks_impl ::
  "'v::real_field ckks_prims \<Rightarrow> ('sk \<Rightarrow> nat \<Rightarrow> 'ek) \<Rightarrow>
   ('sk, 'pk, 'v ciphertext, 'v series_powers) fhe_call \<Rightarrow> ('v, 'ek) ckks_ctx \<Rightarrow>
   (('ek, 'v ciphertext, 'v series_powers) fhe_ret \<times> ('v, 'ek) ckks_ctx) fhe_result" where
  "ckks_impl prims keygen c cc =
     (case cc of (st, store) \<Rightarrow>
       (case c of
          EvalBootstrapSetup lb d1 s cf pre \<Rightarrow>
            res_bind (EvalBootstrapSetup_ckks prims st lb d1 s cf pre)
              (\<lambda>st'. Inr (Ret_unit, (st', store)))
        | EvalBootstrapKeyGen sk s \<Rightarrow>
            res_bind (EvalBootstrapKeyGen_ckks prims keygen st sk s)
              (\<lambda>(ks, st'). Inr (Ret_keys ks, (st', store)))
        | EvalBootstrapPrecompute s \<Rightarrow>
            res_bind (EvalBootstrapPrecompute_ckks prims st s) (\<lambda>st'. Inr (Ret_unit, (st', store)))
        | EvalBootstrap ct it pr \<Rightarrow>
            res_bind (EvalBootstrap_ckks prims st store ct it pr)
              (\<lambda>ct'. Inr (Ret_ct ct', (st, store)))
        | EvalFBTSetup cs n pin pout q pk d1 lb la dl ord \<Rightarrow>
            res_bind (EvalFBTSetup_ckks st (coeffs_ckks prims cs) n pin pout q d1 lb la dl ord)
              (\<lambda>st'. Inr (Ret_unit, (st', store)))
        | EvalFBT ct cs db isc ps lr ord \<Rightarrow>
            res_bind (EvalFBT_ckks prims st store ct (coeffs_ckks prims cs) db isc ps lr ord)
              (\<lambda>ct'. Inr (Ret_ct ct', (st, store)))
        | EvalFBTNoDecoding ct cs db isc ord \<Rightarrow>
            res_bind (EvalFBTNoDecoding_ckks prims st store ct (coeffs_ckks prims cs) db isc ord)
              (\<lambda>ct'. Inr (Ret_ct ct', (st, store)))
        | EvalHomDecoding ct ps lr \<Rightarrow>
            res_bind (EvalHomDecoding_ckks prims st store ct ps lr)
              (\<lambda>ct'. Inr (Ret_ct ct', (st, store)))
        | EvalMVBPrecompute ct cs db isc ord \<Rightarrow>
            res_bind (EvalMVBPrecompute_ckks prims st store ct (coeffs_ckks prims cs) db isc ord)
              (\<lambda>sp. Inr (Ret_powers sp, (st, store)))
        | EvalMVB sp cs db ps lr ord \<Rightarrow>
            res_bind (EvalMVB_ckks prims st store sp (coeffs_ckks prims cs) db ps lr ord)
              (\<lambda>ct'. Inr (Ret_ct ct', (st, store)))
        | EvalMVBNoDecoding sp cs db ord \<Rightarrow>
            res_bind (EvalMVBNoDecoding_ckks sp (coeffs_ckks prims cs) db ord)
              (\<lambda>ct'. Inr (Ret_ct ct', (st, store)))
        | EvalHermiteTrigSeries ct ch a b hs pc \<Rightarrow>
            res_bind (EvalHermiteTrigSeries_ckks prims ct ch a b (coeffs_ckks prims hs) pc)
              (\<lambda>ct'. Inr (Ret_ct ct', (st, store)))))"

definition ckks_scheme ::
  "'v::real_field ckks_prims \<Rightarrow> ('sk \<Rightarrow> nat \<Rightarrow> 'ek) \<Rightarrow>
   ('sk, 'pk, 'v ciphertext, 'v series_powers, 'ek, ('v, 'ek) ckks_ctx) fhe_scheme" where
  "ckks_scheme prims keygen =
     \<lparr>overrides = ckks_overrides, impl = ckks_impl prims keygen,
      impl_bootstrap = (\<lambda>ct it pr (st, store). EvalBootstrap_ckks prims st store ct it pr)\<rparr>"

section \<open>Calls on the CKKS scheme\<close>

text \<open>
  The const override of \<open>EvalBootstrap\<close> answers as the \<open>EvalBootstrap\<close> branch of
  \<open>ckks_impl\<close>, so every virtual call on the scheme is its \<open>ckks_impl\<close> branch.
\<close>

lemma ckks_dispatch_impl:
  "ckks_overrides (method_of c) \<Longrightarrow>
   FHEBase_dispatch (ckks_scheme prims keygen) c cc = ckks_impl prims keygen c cc"
  by (cases c) (auto simp: ckks_scheme_def FHEBase_dispatch_def ckks_impl_def split: prod.splits)

lemma EvalBootstrapSetup_ckks_succeeds:
  assumes "boot_setup_valid (st_params st) levelBudget dim1 slots"
  shows "\<exists>st'. EvalBootstrapSetup_ckks prims st levelBudget dim1 slots cf pre = Inr st'"
  using assms
  by (auto simp: EvalBootstrapSetup_ckks_valid EvalBootstrapPrecompute_ckks_def)

lemma bootstrap_with_generated_keys:
  fixes ct :: "'v::real_field ciphertext"
  assumes pw: "boot_prims_wf prims n lb" and len: "length (ct_slots ct) = n"
    and cfg: "st_boot st1 = (st_boot st)(n \<mapsto> cfg)"
    and par: "st_params st1 = st_params st" and lbc: "cfg_levelBudget cfg = lb"
    and ok: "boot_cfg_ok prims (st_params st1) n cfg"
    and keys: "set (FindBootstrapRotationIndices prims n cfg) \<union> {conj_index (st_params st1)} \<subseteq> dom store"
  shows "EvalBootstrap_ckks prims st1 store ct 1 pr =
               Inr \<lparr>ct_slots = boot_pipeline prims n lb (ct_slots ct),
                    ct_level = multDepth (st_params st) -
                               (lb ! 0 + approxModDepth (st_params st) + lb ! 1)\<rparr>"
proof -
  have pw': "boot_prims_wf prims n (cfg_levelBudget cfg)" using pw lbc by simp
  have bc: "st_boot st1 n = Some cfg" using cfg by simp
  show ?thesis
    using EvalBootstrap_ckks_one_pass [OF bc ok pw' keys len, of pr] par lbc
    by (simp add: boot_levels_consumed_def)
qed

text \<open>
  The documented protocol works at the level of the CKKS operations: for a consistent store, arguments Setup accepts and
  collaborators that fit the slot count, Setup succeeds, key generation then succeeds
  with a non-empty key map and no change of state, and a refresh (one iteration) with
  any key store containing those keys succeeds, computes the reference pipeline on the
  slots, and lands at the chain top minus the levels of the two stages and EvalMod.
\<close>

lemma bootstrap_protocol_succeeds:
  fixes ct :: "'v::real_field ciphertext"
  assumes wf: "boot_store_wf prims st" and valid: "boot_setup_valid (st_params st) lb d1 n"
    and pw: "boot_prims_wf prims n lb" and len: "length (ct_slots ct) = n"
  shows "\<exists>st1 ks. EvalBootstrapSetup_ckks prims st lb d1 n cf pre = Inr st1 \<and>
           EvalBootstrapKeyGen_ckks prims kg st1 sk n = Inr (ks, st1) \<and> ks \<noteq> Map.empty \<and>
           (\<forall>store. ks \<subseteq>\<^sub>m store \<longrightarrow>
              EvalBootstrap_ckks prims st1 store ct 1 pr =
                Inr \<lparr>ct_slots = boot_pipeline prims n lb (ct_slots ct),
                     ct_level = multDepth (st_params st) -
                                (lb ! 0 + approxModDepth (st_params st) + lb ! 1)\<rparr>)"
proof -
  obtain st1 where s1: "EvalBootstrapSetup_ckks prims st lb d1 n cf pre = Inr st1"
    using EvalBootstrapSetup_ckks_succeeds [OF valid] by blast
  obtain cfg where cfg: "st_boot st1 = (st_boot st)(n \<mapsto> cfg)"
    and par: "st_params st1 = st_params st" and lbc: "cfg_levelBudget cfg = lb"
    using EvalBootstrapSetup_ckks_Inr [OF s1] by blast
  have wf1: "boot_store_wf prims st1" using wf s1 by (rule EvalBootstrapSetup_ckks_wf)
  have ok: "boot_cfg_ok prims (st_params st1) n cfg"
    using wf1 cfg by (simp add: boot_store_wf_def)
  let ?I = "set (FindBootstrapRotationIndices prims n cfg) \<union> {conj_index (st_params st1)}"
  let ?ks = "\<lambda>k. if k \<in> ?I then Some (kg sk k) else None"
  have kg1: "EvalBootstrapKeyGen_ckks prims kg st1 sk n = Inr (?ks, st1)"
    using cfg by (simp add: EvalBootstrapKeyGen_ckks_configured)
  have ne: "?ks \<noteq> Map.empty" by (auto simp: fun_eq_iff)
  have dom: "dom ?ks = ?I" by (auto split: if_splits)
  have run: "EvalBootstrap_ckks prims st1 store ct 1 pr =
               Inr \<lparr>ct_slots = boot_pipeline prims n lb (ct_slots ct),
                    ct_level = multDepth (st_params st) -
                               (lb ! 0 + approxModDepth (st_params st) + lb ! 1)\<rparr>"
    if le: "?ks \<subseteq>\<^sub>m store" for store
  proof -
    have "dom ?ks \<subseteq> dom store" by (rule map_le_implies_dom_le [OF le])
    then have keys: "?I \<subseteq> dom store" by (simp only: dom)
    show ?thesis by (rule bootstrap_with_generated_keys [OF pw len cfg par lbc ok keys])
  qed
  show ?thesis using s1 kg1 ne run by blast
qed

text \<open>
  A virtual call of an overridden method on the CKKS scheme runs its CKKS body and,
  when it succeeds, hands back the result and the updated context.
\<close>

lemma ckks_call:
  "ckks_overrides (method_of c) \<Longrightarrow>
   FHEBase_call (ckks_scheme prims kg) c cc =
     (case ckks_impl prims kg c cc of Inl e \<Rightarrow> (Inl e, cc) | Inr (r, cc') \<Rightarrow> (Inr r, cc'))"
  by (simp add: FHEBase_call_def ckks_dispatch_impl)

lemma ckks_call_EvalBootstrap:
  "FHEBase_call (ckks_scheme prims kg) (EvalBootstrap ct it pr) (st, store) =
     (case EvalBootstrap_ckks prims st store ct it pr of
        Inl e \<Rightarrow> (Inl e, (st, store)) | Inr ct' \<Rightarrow> (Inr (Ret_ct ct'), (st, store)))"
  by (simp add: ckks_call ckks_overrides_def ckks_impl_def split: sum.splits)

lemma ckks_call_KeyGen:
  "FHEBase_call (ckks_scheme prims kg) (EvalBootstrapKeyGen sk n) (st, store) =
     (case EvalBootstrapKeyGen_ckks prims kg st sk n of
        Inl e \<Rightarrow> (Inl e, (st, store)) | Inr (ks, st') \<Rightarrow> (Inr (Ret_keys ks), (st', store)))"
  by (simp add: ckks_call ckks_overrides_def ckks_impl_def split: sum.splits prod.splits)

lemma ckks_call_Setup:
  "FHEBase_call (ckks_scheme prims kg) (EvalBootstrapSetup lb d1 n cf pre) (st, store) =
     (case EvalBootstrapSetup_ckks prims st lb d1 n cf pre of
        Inl e \<Rightarrow> (Inl e, (st, store)) | Inr st' \<Rightarrow> (Inr Ret_unit, (st', store)))"
  by (simp add: ckks_call ckks_overrides_def ckks_impl_def split: sum.splits)

lemma ckks_call_Precompute:
  "FHEBase_call (ckks_scheme prims kg) (EvalBootstrapPrecompute n) (st, store) =
     (case EvalBootstrapPrecompute_ckks prims st n of
        Inl e \<Rightarrow> (Inl e, (st, store)) | Inr st' \<Rightarrow> (Inr Ret_unit, (st', store)))"
  by (simp add: ckks_call ckks_overrides_def ckks_impl_def split: sum.splits)

lemma ckks_call_FBTSetup:
  "FHEBase_call (ckks_scheme prims kg) (EvalFBTSetup cs n pin pout q pk d1 lb la dl ord) (st, store) =
     (case EvalFBTSetup_ckks st (coeffs_ckks prims cs) n pin pout q d1 lb la dl ord of
        Inl e \<Rightarrow> (Inl e, (st, store)) | Inr st' \<Rightarrow> (Inr Ret_unit, (st', store)))"
  by (simp add: ckks_call ckks_overrides_def ckks_impl_def split: sum.splits)

lemma ckks_call_const:
  assumes "ckks_overrides (method_of c)"
    and "\<And>st store. ckks_impl prims kg c (st, store) =
           res_bind (f st store) (\<lambda>x. Inr (g x, (st, store)))"
  shows "FHEBase_call (ckks_scheme prims kg) c (st, store) =
           (case f st store of Inl e \<Rightarrow> (Inl e, (st, store)) | Inr x \<Rightarrow> (Inr (g x), (st, store)))"
  using assms by (simp add: ckks_call res_bind_def split: sum.splits)

lemma ckks_overrides_coeffs:
  "ckks_overrides (method_of (EvalFBTSetup cs n pin pout q pk d1 lb la dl ord))"
  "ckks_overrides (method_of (EvalFBT ct cs db isc ps lr ord))"
  "ckks_overrides (method_of (EvalFBTNoDecoding ct cs db isc ord))"
  "ckks_overrides (method_of (EvalHomDecoding ct ps lr))"
  "ckks_overrides (method_of (EvalMVBPrecompute ct cs db isc ord))"
  "ckks_overrides (method_of (EvalMVB sp cs db ps lr ord))"
  "ckks_overrides (method_of (EvalMVBNoDecoding sp cs db ord))"
  "ckks_overrides (method_of (EvalHermiteTrigSeries ct ch a b cs pc))"
  by (simp_all add: ckks_overrides_def)

lemma ckks_call_FBT:
  "FHEBase_call (ckks_scheme prims kg) (EvalFBT ct cs db isc ps lr ord) (st, store) =
     (case EvalFBT_ckks prims st store ct (coeffs_ckks prims cs) db isc ps lr ord of
        Inl e \<Rightarrow> (Inl e, (st, store)) | Inr ct' \<Rightarrow> (Inr (Ret_ct ct'), (st, store)))"
  by (rule ckks_call_const [OF ckks_overrides_coeffs(2)]) (simp add: ckks_impl_def)

lemma ckks_call_FBTNoDecoding:
  "FHEBase_call (ckks_scheme prims kg) (EvalFBTNoDecoding ct cs db isc ord) (st, store) =
     (case EvalFBTNoDecoding_ckks prims st store ct (coeffs_ckks prims cs) db isc ord of
        Inl e \<Rightarrow> (Inl e, (st, store)) | Inr ct' \<Rightarrow> (Inr (Ret_ct ct'), (st, store)))"
  by (rule ckks_call_const [OF ckks_overrides_coeffs(3)]) (simp add: ckks_impl_def)

lemma ckks_call_HomDecoding:
  "FHEBase_call (ckks_scheme prims kg) (EvalHomDecoding ct ps lr) (st, store) =
     (case EvalHomDecoding_ckks prims st store ct ps lr of
        Inl e \<Rightarrow> (Inl e, (st, store)) | Inr ct' \<Rightarrow> (Inr (Ret_ct ct'), (st, store)))"
  by (rule ckks_call_const [OF ckks_overrides_coeffs(4)]) (simp add: ckks_impl_def)

lemma ckks_call_MVBPrecompute:
  "FHEBase_call (ckks_scheme prims kg) (EvalMVBPrecompute ct cs db isc ord) (st, store) =
     (case EvalMVBPrecompute_ckks prims st store ct (coeffs_ckks prims cs) db isc ord of
        Inl e \<Rightarrow> (Inl e, (st, store)) | Inr sp \<Rightarrow> (Inr (Ret_powers sp), (st, store)))"
  by (rule ckks_call_const [OF ckks_overrides_coeffs(5)]) (simp add: ckks_impl_def)

lemma ckks_call_MVB:
  "FHEBase_call (ckks_scheme prims kg) (EvalMVB sp cs db ps lr ord) (st, store) =
     (case EvalMVB_ckks prims st store sp (coeffs_ckks prims cs) db ps lr ord of
        Inl e \<Rightarrow> (Inl e, (st, store)) | Inr ct' \<Rightarrow> (Inr (Ret_ct ct'), (st, store)))"
  by (rule ckks_call_const [OF ckks_overrides_coeffs(6)]) (simp add: ckks_impl_def)

lemma ckks_call_MVBNoDecoding:
  "FHEBase_call (ckks_scheme prims kg) (EvalMVBNoDecoding sp cs db ord) (st, store) =
     (case EvalMVBNoDecoding_ckks sp (coeffs_ckks prims cs) db ord of
        Inl e \<Rightarrow> (Inl e, (st, store)) | Inr ct' \<Rightarrow> (Inr (Ret_ct ct'), (st, store)))"
  by (rule ckks_call_const [OF ckks_overrides_coeffs(7)]) (simp add: ckks_impl_def)

lemma ckks_call_HermiteTrigSeries:
  "FHEBase_call (ckks_scheme prims kg) (EvalHermiteTrigSeries ct ch a b hs pc) (st, store) =
     (case EvalHermiteTrigSeries_ckks prims ct ch a b (coeffs_ckks prims hs) pc of
        Inl e \<Rightarrow> (Inl e, (st, store)) | Inr ct' \<Rightarrow> (Inr (Ret_ct ct'), (st, store)))"
  by (rule ckks_call_const [OF ckks_overrides_coeffs(8)]) (simp add: ckks_impl_def)

lemmas ckks_calls_ct = ckks_call_EvalBootstrap ckks_call_FBT ckks_call_FBTNoDecoding
  ckks_call_HomDecoding ckks_call_MVBPrecompute ckks_call_MVB ckks_call_MVBNoDecoding
  ckks_call_HermiteTrigSeries

end
