(* ===== verification/Spec2Isabelle.thy ===== *)
theory Spec2Isabelle
  imports FHEBase CKKSSession
begin

text \<open>
  \<^bold>\<open>A verification library for the bootstrapping interface of the CKKS-only OpenFHE
  build (spockwall/ckks-acceleration).\<close>

  \<^bold>\<open>The program.\<close> The repository's only source,
  \<open>src/src/pke/include/schemebase/base-fhe.h\<close>, declares the abstract class
  \<open>FHEBase<Element>\<close>: the bootstrapping interface (setup, rotation-key generation,
  plaintext precomputation, the refresh \<open>EvalBootstrap\<close>, the functional bootstraps
  \<open>EvalFBT*\<close>, \<open>EvalHomDecoding\<close>, the multi-valued bootstraps \<open>EvalMVB*\<close> and
  \<open>EvalHermiteTrigSeries\<close>), each a virtual method whose default body throws
  \<open>"Not supported"\<close> (\<open>EvalBootstrap\<close>: \<open>"EvalBootstrap is not implemented for this
  scheme"\<close>), and empty serialization hooks. A scheme overrides the methods it supports;
  the CKKS scheme (\<open>FHECKKSRNS\<close>, not among the sources) implements them as spec.md
  describes. Callers run Setup once per slot count, KeyGen once per key, merge the keys
  into the context's key store, then refresh ciphertexts (the order the header's comment
  prescribes).

  \<^bold>\<open>Theories.\<close>
  \<^item> \<open>Prelude\<close>: the error taxonomy \<open>fhe_error\<close> (spec section 7 and the key lookup
    of section 6), results \<open>fhe_error + 'a\<close> with \<open>res_bind\<close>, \<open>res_map\<close>,
    \<open>res_foldl\<close> (loops whose body may throw), the slot algebra \<open>vrot\<close>, \<open>vmul\<close>,
    \<open>vadd\<close>, \<open>vsum\<close> (the decrypted meaning of rotations, products and sums), and the
    collections \<open>res_simps\<close>, \<open>slot_simps\<close>, \<open>unsupported_free\<close>.
  \<^item> \<open>FHEBase\<close> (modelled from the source, lines 59 to 237): one definition per
    overload of the class (\<open>FHEBase_EvalBootstrapSetup\<close> ... \<open>FHEBase_load\<close>), the
    calls \<open>fhe_call\<close> and their results \<open>fhe_ret\<close>, the class's virtual table
    \<open>FHEBase_default\<close>, a scheme as an override table with the bodies of its
    non-const methods (\<open>impl\<close>, which return the updated object) and the body of the
    const \<open>EvalBootstrap\<close> (\<open>impl_bootstrap\<close>, which returns no object)
    (\<open>fhe_scheme\<close>), the virtual call \<open>FHEBase_dispatch\<close>, the calls that omit the
    defaulted trailing arguments (\<open>EvalFBT_defaults\<close> and its siblings), and the
    caller's view of calls and call sequences (\<open>FHEBase_call\<close>, \<open>FHEBase_run\<close>).
  \<^item> \<open>LinearTransform\<close> (spec sections 4.1, 4.2): the baby-step/giant-step evaluation
    \<open>EvalLinearTransformBSGS\<close> of a transform factor given by its diagonals, with key
    lookups in \<open>EvalRotate\<close>, and the rotation indices it needs.
  \<^item> \<open>BootConfig\<close> (spec sections 3, 4.1, 4.2): the scheme object's configuration
    store keyed by slot count, \<open>EvalBootstrapSetup_ckks\<close>,
    \<open>EvalBootstrapPrecompute_ckks\<close>, \<open>FindBootstrapRotationIndices\<close>,
    \<open>EvalBootstrapKeyGen_ckks\<close>, and the store invariant \<open>boot_store_wf\<close>.
  \<^item> \<open>Refresh\<close> (spec section 4.3): ciphertexts as slots and remaining level, one
    bootstrapping pass \<open>EvalBootstrapCore\<close>, the Meta-BTS iteration \<open>meta_bts\<close>, and
    \<open>EvalBootstrap_ckks\<close> with its level accounting and error branches.
  \<^item> \<open>SeriesEval\<close> (spec sections 4.4, 4.5, 5): Horner evaluation of a coefficient
    series, the power basis by repeated squaring (\<open>vpow_sq\<close>, \<open>series_powers\<close>),
    evaluation from cached powers (\<open>eval_powers\<close>), and the depth \<open>series_depth\<close> of
    the squaring chain.
  \<^item> \<open>FBT\<close> (spec sections 4.4, 4.5): the configuration \<open>EvalFBTSetup_ckks\<close> stores per
    slot count, the functional bootstrap \<open>EvalFBT_ckks\<close> and its two halves
    \<open>EvalFBTNoDecoding_ckks\<close> and \<open>EvalHomDecoding_ckks\<close>, the SeriesPowers cache
    (\<open>series_powers\<close> record, \<open>EvalMVBPrecompute_ckks\<close>) and the multi-valued bootstrap
    \<open>EvalMVB_ckks\<close>, \<open>EvalMVBNoDecoding_ckks\<close> with its cache-key check.
  \<^item> \<open>HermiteTrig\<close> (spec section 4.6): Chebyshev polynomials of both kinds,
    Clenshaw's recurrence, physicists' Hermite polynomials, the affine map of
    \<open>[a, b]\<close> onto \<open>[-1, 1]\<close>, and \<open>EvalHermiteTrigSeries_ckks\<close>.
  \<^item> \<open>CKKSScheme\<close>: the CKKS scheme as an \<open>FHEBase\<close> scheme (\<open>ckks_scheme\<close>,
    overriding every virtual method, \<open>ckks_impl\<close> routing each call to its CKKS
    operation), and each virtual call on it as its CKKS operation (\<open>ckks_call_*\<close>).
  \<^item> \<open>CKKSSession\<close> (spec sections 2, 3, 4.2): a caller's session as a step relation
    (\<open>ckks_step\<close>: a virtual call in any order, or merging a generated key map into
    the key store), the reachable contexts \<open>ckks_reach\<close>, the context invariant
    \<open>ckks_ctx_wf\<close>, the caller's refresh loop \<open>refresh_until\<close> (a
    \<open>while_option\<close>), and Setups in either order (spec section 5).
  \<^item> this theory: the properties that span the components, and concrete instances
    for the witnesses.

  \<^bold>\<open>What is modelled and how.\<close> The source's behaviour is modelled exactly: each
  default body is its thrown error as an \<open>Inl\<close> value; the scheme object is explicit
  state, returned updated by the non-const methods; \<open>EvalBootstrap\<close>, a const member
  function (line 128), has a body of its own type that returns no object, so that no
  override can change the object through it. A failed call returns no state and the
  caller keeps the old one (spec section 7: a throwing call leaves the object as it
  was; the C++ type system does not enforce this, the model assumes it). The
  CKKS implementation is modelled from the spec's words: the ring arithmetic, encoding
  and key-switching collaborators of spec section 6 are parameters (\<open>ckks_prims\<close>: the
  transform factors per slot count and level budget, the slot effect of modulus raise,
  of conjugation and of the approximate modular reduction, the encoding of a complex
  coefficient; \<open>keygen\<close>: the generation of one rotation key). A ciphertext is its slot
  vector and its remaining level; the transforms, rotations and series compute on the
  slots exactly, and the only approximation is the one of the pass, bounded by a
  hypothesis \<open>\<epsilon>\<close> in the Meta-BTS theorem. The scheme object holds the bootstrap
  configurations (\<open>st_boot\<close>) and the functional-bootstrap configurations
  (\<open>st_fbt\<close>), both keyed by slot count. Level accounting: a functional bootstrap uses
  the encoding budget plus \<open>series_depth\<close> of the bound degree before decoding, and the
  decoding budget plus \<open>levelToReduce\<close> after it; the Hermite/Trig composer uses one
  level for the affine map plus the deeper of its two series. Machine widths play no
  role in what is proved: \<open>uint32_t\<close> counts are \<open>nat\<close>, \<open>BigInteger\<close> is \<open>int\<close>,
  \<open>double\<close> is \<open>real\<close>. No loop needs fuel: every loop is a structural recursion over
  a list or a number of iterations, and the two halving recursions (\<open>vpow_sq\<close>,
  \<open>series_depth\<close>) are \<open>function\<close>s with measure termination proofs.

  \<^bold>\<open>What the lemmas show.\<close> The numbered properties: every method called on the
  class itself throws its default message (C1, theory \<open>FHEBase\<close>); the documented
  call order Setup, KeyGen, EvalBootstrap works on the CKKS scheme seen through the
  virtual interface and computes the reference pipeline (C2); inserting a call of the
  const \<open>EvalBootstrap\<close> anywhere into a run of any scheme changes neither the final
  object nor the results of the other calls (C3, theory \<open>FHEBase\<close>); \<open>EvalMVB\<close> on a
  precomputed cache equals a fresh \<open>EvalFBT\<close> (C4); the serialization hooks
  \<open>save\<close>/\<open>load\<close> interleaved anywhere in a session change no result, no object
  state and no archive (C5, theory \<open>FHEBase\<close>).

  Further theorems of this theory, each with a witness: Meta-BTS iterations bound the
  error by \<open>\<epsilon> / 2^precision\<close> (\<open>ckks_EvalBootstrap_meta_bts\<close>); every evaluation
  entry point for an unconfigured slot count throws InvalidConfiguration
  (\<open>ckks_unconfigured_slots\<close>); \<open>EvalFBT = EvalHomDecoding \<circ> EvalFBTNoDecoding\<close>
  (\<open>ckks_EvalFBT_roundtrip\<close>, and for the defaulted arguments
  \<open>ckks_EvalFBT_defaults_roundtrip\<close>); a SeriesPowers cache built with another digit size or
  order is refused with ParameterMismatch (\<open>ckks_EvalMVB_mismatch\<close>);
  \<open>EvalHermiteTrigSeries\<close> computes the Chebyshev series on the mapped interval plus
  the Hermite correction (\<open>ckks_EvalHermiteTrigSeries\<close>); every context reachable by
  calls in any order and key merges keeps its parameters, consistent configuration
  stores, and keys generated for their indices (\<open>ckks_reach_invariant\<close>, by rule
  induction over \<open>ckks_reach\<close>); the caller's refresh loop returns exactly when the
  target is at most the input's level or the refreshed level, and otherwise never
  returns (\<open>ckks_refresh_until\<close>, termination and divergence both proved: the loop
  is a \<open>while_option\<close>, not fuel). Setups for different slot counts commute and the
  last Setup of a slot count wins (\<open>ckks_setup_commute\<close>,
  \<open>ckks_setup_last_writer\<close>). They rest on the component lemmas: BSGS evaluation equals the diagonal method
  when the keys cover its index set (\<open>EvalLinearTransformBSGS_correct\<close>) and fails
  when any one is missing (\<open>EvalLinearTransformBSGS_needs_key\<close>); Setup keeps the
  stores consistent (\<open>EvalBootstrapSetup_ckks_preserves_wf\<close>,
  \<open>EvalFBTSetup_ckks_preserves_wf\<close>); a pass refines the reference pipeline
  (\<open>EvalBootstrapCore_refines_pipeline\<close>); squaring computes the powers
  (\<open>vpow_sq_eq\<close>) and the cached powers reproduce Horner's rule
  (\<open>eval_powers_horner\<close>), within \<open>d \<le> 2^series_depth d < 2d\<close>
  (\<open>series_depth_bounds\<close>); Clenshaw's recurrence equals the Chebyshev sum
  (\<open>cheb_eval_sum\<close>) and the affine map sends \<open>a, b\<close> to \<open>-1, 1\<close>
  (\<open>interval_map_ends\<close>); a functional bootstrap keeps the levels reserved at setup
  (\<open>EvalFBT_ckks_keeps_reserved_levels\<close>); each virtual call on the CKKS scheme is
  its CKKS operation (\<open>ckks_dispatch_impl\<close>).

  \<^bold>\<open>Not modelled.\<close> The digit decomposition of \<open>digitBitSize\<close> inside a functional
  bootstrap: the spec gives no algorithm for it, so the model checks the digit size
  (positive, and the cache key of a SeriesPowers) and evaluates the bound series
  exactly. The precomputation handle of \<open>EvalHermiteTrigSeries\<close> selects cached work
  only and does not enter the result. The collapsed-FFT structure of the transform
  factors and the default correction factor are collaborator data (spec section 9
  leaves the latter open). Concurrency (spec section 5) is modelled only as the order
  of operations: threads, the parallel sub-steps inside key generation and evaluation,
  and external serialization of same-slot-count Setups are not, since every operation
  is a function of the state it is given; what the spec promises about concurrent
  Setups is shown for the two orders of a sequential run. Every operation of the
  program is a total function (Meta-BTS runs \<open>numIterations\<close> passes, the transforms
  run over their factor lists, the squaring chain halves its exponent, with measure
  termination proofs for the two non-structural recursions); the only loop that may
  not return is the caller's refresh loop, characterised by \<open>ckks_refresh_until\<close>. The source's remaining lines
  (license, include directives, the namespace) have no behaviour to model.
\<close>

section \<open>A concrete instance\<close>

text \<open>
  The scenario of spec section 8: 16 slots, level budgets 3 and 3, default inner
  dimensions (4), ring dimension 32, a chain of 12 levels of which EvalMod uses 4. Each
  encoding factor rotates the slots by 1 and each decoding factor by 15, so that the
  pass is the identity; the approximate modular reduction halves \<open>x + conj x\<close>.
\<close>

definition example_params :: ckks_params where
  "example_params = \<lparr>ringDim = 32, multDepth = 12, approxModDepth = 4\<rparr>"

definition example_prims :: "real ckks_prims" where
  "example_prims =
     \<lparr>enc_factors = (\<lambda>n b. replicate b [(1, replicate n 1)]),
      dec_factors = (\<lambda>n b. replicate b [(n - 1, replicate n 1)]),
      raise_eff = id, conj_eff = id, approx_mod = (\<lambda>u. map (\<lambda>x. x / 2) u), enc_coeff = Re\<rparr>"

definition example_state :: "real ckks_state" where
  "example_state = \<lparr>st_params = example_params, st_boot = Map.empty, st_fbt = Map.empty\<rparr>"

definition example_cfg :: "real boot_cfg" where
  "example_cfg = \<lparr>cfg_levelBudget = [3, 3], cfg_dim1 = [4, 4], cfg_correctionFactor = 0,
                  cfg_precom = None\<rparr>"

definition example_configured :: "real ckks_state" where
  "example_configured = example_state\<lparr>st_boot := [16 \<mapsto> example_cfg]\<rparr>"

definition noisy_prims :: "real ckks_prims" where
  "noisy_prims =
     \<lparr>enc_factors = (\<lambda>n b. []), dec_factors = (\<lambda>n b. []), raise_eff = id, conj_eff = id,
      approx_mod = (\<lambda>u. map (\<lambda>x. x / 2 + 1 / 8) u), enc_coeff = Re\<rparr>"

definition noisy_cfg :: "real boot_cfg" where
  "noisy_cfg = \<lparr>cfg_levelBudget = [1, 1], cfg_dim1 = [1, 1], cfg_correctionFactor = 0,
                cfg_precom = None\<rparr>"

definition noisy_state :: "real ckks_state" where
  "noisy_state = example_state\<lparr>st_boot := [4 \<mapsto> noisy_cfg]\<rparr>"

text \<open>
  A functional bootstrap on four slots: one-level linear stages with no factors (the
  transforms are the identity), a series of degree 2 fixed at setup (2 levels for the
  encoding stage and the power basis, 1 for decoding), digit size 8, order 1.
\<close>

definition fbt_example_cfg :: fbt_cfg where
  "fbt_example_cfg =
     \<lparr>fbt_levelBudget = [1, 1], fbt_dim1 = [1, 1], fbt_degree = 2, fbt_PIn = 4, fbt_POut = 4,
      fbt_Bigq = 64, fbt_lvlsAfterBoot = 0, fbt_depthLeveled = 0, fbt_order = 1\<rparr>"

definition fbt_state :: "real ckks_state" where
  "fbt_state = example_state\<lparr>st_fbt := [4 \<mapsto> fbt_example_cfg]\<rparr>"

definition fbt_example_ct :: "real ciphertext" where
  "fbt_example_ct = \<lparr>ct_slots = [1, 2, 3, 4], ct_level = 0\<rparr>"

definition fbt_example_powers :: "real series_powers" where
  "fbt_example_powers =
     \<lparr>sp_base = fbt_example_ct, sp_digitBitSize = 8, sp_order = 1,
      sp_powers = series_powers [1, 2, 3, 4] 2, sp_level = 10\<rparr>"

section \<open>Properties across the components\<close>

lemma ex_valid: "boot_setup_valid example_params [3, 3] [0, 0] 16"
  by (simp add: boot_setup_valid_def example_params_def is_pow2.simps)

lemma ex_pw: "boot_prims_wf example_prims 16 [3, 3]"
  by (simp add: boot_prims_wf_def example_prims_def lt_wf_def)

lemma ex_indices: "FindBootstrapRotationIndices example_prims 16 example_cfg = [1, 3, 12]"
  by (simp add: FindBootstrapRotationIndices_def example_prims_def example_cfg_def lt_rotation_indices_def)

lemma ex_conj: "conj_index (st_params example_configured) = 63"
  by (simp add: conj_index_def example_configured_def example_state_def example_params_def)

lemma noisy_core:
  "length u = 4 \<Longrightarrow>
   EvalBootstrapCore noisy_prims (st_params noisy_state) [63 \<mapsto> ()] 4 noisy_cfg u =
     Inr (map (\<lambda>x. x / 2 + 1 / 8) (vadd u u))"
  by (simp add: EvalBootstrapCore_def boot_plaintexts_def noisy_cfg_def noisy_prims_def
      EvalLinearStage_def EvalConjugate_def conj_index_def noisy_state_def example_state_def
      example_params_def)

lemma fbt_example_levels: "series_depth 2 = 1"
  by (subst series_depth.simps, simp, subst series_depth.simps, simp)

text \<open>
  C2. The protocol of the header comment of \<open>FHEBase\<close> works through the virtual
  interface: on the CKKS scheme, with a consistent configuration store, arguments Setup
  accepts and collaborators that fit the slot count, the call sequence Setup, KeyGen
  succeeds (KeyGen returning a non-empty key dictionary), and a subsequent EvalBootstrap
  with one iteration under any key store that contains those keys returns the reference
  pipeline applied to the slots, at the chain top minus the levels of the two linear
  stages and EvalMod, leaving the context unchanged.
\<close>

theorem ckks_bootstrap_protocol:
  fixes ct :: "'v::real_field ciphertext"
  assumes wf: "boot_store_wf prims st" and valid: "boot_setup_valid (st_params st) lb d1 n"
    and pw: "boot_prims_wf prims n lb" and len: "length (ct_slots ct) = n"
  shows "\<exists>st1 ks. FHEBase_run (ckks_scheme prims kg)
              [EvalBootstrapSetup lb d1 n cf pre, EvalBootstrapKeyGen sk n] (st, store) =
            ([Inr Ret_unit, Inr (Ret_keys ks)], (st1, store)) \<and> ks \<noteq> Map.empty \<and>
           (\<forall>store'. ks \<subseteq>\<^sub>m store' \<longrightarrow>
              FHEBase_call (ckks_scheme prims kg) (EvalBootstrap ct 1 pr) (st1, store') =
                (Inr (Ret_ct \<lparr>ct_slots = boot_pipeline prims n lb (ct_slots ct),
                              ct_level = multDepth (st_params st) -
                                (lb ! 0 + approxModDepth (st_params st) + lb ! 1)\<rparr>), (st1, store')))"
proof -
  obtain st1 ks where s: "EvalBootstrapSetup_ckks prims st lb d1 n cf pre = Inr st1"
    and k: "EvalBootstrapKeyGen_ckks prims kg st1 sk n = Inr (ks, st1)" and ne: "ks \<noteq> Map.empty"
    and b: "\<forall>store'. ks \<subseteq>\<^sub>m store' \<longrightarrow> EvalBootstrap_ckks prims st1 store' ct 1 pr =
                Inr \<lparr>ct_slots = boot_pipeline prims n lb (ct_slots ct),
                     ct_level = multDepth (st_params st) -
                                (lb ! 0 + approxModDepth (st_params st) + lb ! 1)\<rparr>"
    using bootstrap_protocol_succeeds [OF wf valid pw len, of cf pre kg sk pr] by blast
  have r: "FHEBase_run (ckks_scheme prims kg) [EvalBootstrapSetup lb d1 n cf pre, EvalBootstrapKeyGen sk n]
          (st, store) = ([Inr Ret_unit, Inr (Ret_keys ks)], (st1, store))"
    by (simp add: ckks_call_Setup ckks_call_KeyGen s k)
  have "\<forall>store'. ks \<subseteq>\<^sub>m store' \<longrightarrow>
          FHEBase_call (ckks_scheme prims kg) (EvalBootstrap ct 1 pr) (st1, store') =
            (Inr (Ret_ct \<lparr>ct_slots = boot_pipeline prims n lb (ct_slots ct),
                          ct_level = multDepth (st_params st) -
                            (lb ! 0 + approxModDepth (st_params st) + lb ! 1)\<rparr>), (st1, store'))"
    using b by (simp add: ckks_call_EvalBootstrap)
  with r ne show ?thesis by blast
qed

theorem ckks_bootstrap_protocol_witness:
  "boot_store_wf example_prims example_state \<and>
   boot_setup_valid (st_params example_state) [3, 3] [0, 0] 16 \<and>
   boot_prims_wf example_prims 16 [3, 3] \<and>
   length (ct_slots \<lparr>ct_slots = map real [0..<16], ct_level = 0\<rparr>) = 16 \<and>
   (\<exists>st1 ks. FHEBase_run (ckks_scheme example_prims (\<lambda>(_::unit) (_::nat). ()) :: (unit, unit, real ciphertext, real series_powers, unit, (real, unit) ckks_ctx) fhe_scheme)
        [EvalBootstrapSetup [3, 3] [0, 0] 16 0 True, EvalBootstrapKeyGen () 16] (example_state, Map.empty) =
        ([Inr Ret_unit, Inr (Ret_keys ks)], (st1, Map.empty)) \<and> ks \<noteq> Map.empty \<and>
      (\<forall>store'. ks \<subseteq>\<^sub>m store' \<longrightarrow>
         FHEBase_call (ckks_scheme example_prims (\<lambda>(_::unit) (_::nat). ()) :: (unit, unit, real ciphertext, real series_powers, unit, (real, unit) ckks_ctx) fhe_scheme)
           (EvalBootstrap \<lparr>ct_slots = map real [0..<16], ct_level = 0\<rparr> 1 0) (st1, store') =
         (Inr (Ret_ct \<lparr>ct_slots = boot_pipeline example_prims 16 [3, 3] (map real [0..<16]),
                       ct_level = 2\<rparr>), (st1, store'))))"
proof -
  have h1: "boot_store_wf example_prims example_state"
    by (simp add: boot_store_wf_def example_state_def)
  have h2: "boot_setup_valid (st_params example_state) [3, 3] [0, 0] 16"
    using ex_valid by (simp add: example_state_def)
  have h4: "length (ct_slots \<lparr>ct_slots = map real [0..<16], ct_level = 0\<rparr>) = 16" by simp
  have lvl: "multDepth (st_params example_state) -
     ([3, 3] ! 0 + approxModDepth (st_params example_state) + [3, 3] ! 1) = (2::nat)"
    by (simp add: example_state_def example_params_def)
  show ?thesis
    using h1 h2 ex_pw h4
      ckks_bootstrap_protocol [OF h1 h2 ex_pw h4, where cf = 0 and pre = True and kg = "(\<lambda>(_::unit) (_::nat). ())"
        and sk = "()" and pr = 0 and store = "Map.empty :: nat \<rightharpoonup> unit"
       ]
    unfolding lvl ciphertext.select_convs by blast
qed

text \<open>
  Meta-BTS precision through the virtual interface: if one bootstrapping pass is
  slot-wise within \<open>\<epsilon>\<close> of the identity on every input of the ciphertext's slot
  count, then \<open>EvalBootstrap(ct, numIterations, precision)\<close> on the CKKS scheme, with
  a number of iterations the chain can afford, returns a ciphertext within \<open>\<epsilon>\<close> of
  the input for one iteration and within \<open>\<epsilon> / 2^precision\<close> for two or more, at the
  chain top minus the levels consumed, and leaves the context unchanged (it is const).
\<close>

theorem ckks_EvalBootstrap_meta_bts:
  fixes ct :: "'v::real_normed_field ciphertext"
  assumes cfg: "st_boot st (length (ct_slots ct)) = Some cfg" and it: "0 < it"
    and lv: "boot_levels_consumed (st_params st) cfg it \<le> multDepth (st_params st)"
    and core: "\<forall>u. length u = length (ct_slots ct) \<longrightarrow>
                 (\<exists>w. EvalBootstrapCore prims (st_params st) store (length (ct_slots ct)) cfg u = Inr w \<and>
                      close_to eps w u)"
  shows "\<exists>ct'. FHEBase_call (ckks_scheme prims kg) (EvalBootstrap ct it pr) (st, store) =
                 (Inr (Ret_ct ct'), (st, store)) \<and>
           close_to (if it = 1 then eps else eps / 2 ^ pr) (ct_slots ct') (ct_slots ct) \<and>
           ct_level ct' = multDepth (st_params st) - boot_levels_consumed (st_params st) cfg it"
  using EvalBootstrap_ckks_meta_bts_precision [OF cfg it lv core, of pr]
  by (auto simp: ckks_call_EvalBootstrap)

text \<open>
  Four slots, one-level linear stages with no factors, an EvalMod stage that halves and
  adds \<open>1/8\<close>: each pass is off by exactly \<open>1/8\<close>; two iterations at precision 3.
\<close>

theorem ckks_EvalBootstrap_meta_bts_witness:
  "st_boot noisy_state (length (ct_slots \<lparr>ct_slots = [1, 2, 3, 4::real], ct_level = 0\<rparr>)) = Some noisy_cfg \<and>
   0 < (2::nat) \<and>
   boot_levels_consumed (st_params noisy_state) noisy_cfg 2 \<le> multDepth (st_params noisy_state) \<and>
   (\<exists>ct'. FHEBase_call (ckks_scheme noisy_prims (\<lambda>(_::unit) (_::nat). ()) :: (unit, unit, real ciphertext, real series_powers, unit, (real, unit) ckks_ctx) fhe_scheme)
            (EvalBootstrap \<lparr>ct_slots = [1, 2, 3, 4::real], ct_level = 0\<rparr> 2 3) (noisy_state, [63 \<mapsto> ()]) =
            (Inr (Ret_ct ct'), (noisy_state, [63 \<mapsto> ()])) \<and>
          close_to (if (2::nat) = 1 then 1 / 8 else 1 / 8 / 2 ^ 3) (ct_slots ct')
            (ct_slots \<lparr>ct_slots = [1, 2, 3, 4::real], ct_level = 0\<rparr>) \<and>
          ct_level ct' = multDepth (st_params noisy_state) -
                         boot_levels_consumed (st_params noisy_state) noisy_cfg 2)"
proof -
  let ?ct = "\<lparr>ct_slots = [1, 2, 3, 4::real], ct_level = 0\<rparr>"
  have h1: "st_boot noisy_state (length (ct_slots ?ct)) = Some noisy_cfg"
    by (simp add: noisy_state_def)
  have h2: "0 < (2::nat)" by simp
  have h3: "boot_levels_consumed (st_params noisy_state) noisy_cfg 2 \<le> multDepth (st_params noisy_state)"
    by (simp add: boot_levels_consumed_def noisy_cfg_def noisy_state_def example_state_def
        example_params_def)
  have h4: "\<forall>u. length u = length (ct_slots ?ct) \<longrightarrow>
      (\<exists>w. EvalBootstrapCore noisy_prims (st_params noisy_state) [63 \<mapsto> ()]
             (length (ct_slots ?ct)) noisy_cfg u = Inr w \<and> close_to (1 / 8) w u)"
  proof (intro allI impI)
    fix u :: "real list" assume "length u = length (ct_slots ?ct)"
    then have u: "length u = 4" by simp
    have len: "length (ct_slots ?ct) = 4" by simp
    have cl: "close_to (1 / 8) (map (\<lambda>x. x / 2 + 1 / 8) (vadd u u)) u"
      using u by (simp add: close_to_def)
    show "\<exists>w. EvalBootstrapCore noisy_prims (st_params noisy_state) [63 \<mapsto> ()]
             (length (ct_slots ?ct)) noisy_cfg u = Inr w \<and> close_to (1 / 8) w u"
      unfolding len using noisy_core [OF u] cl by blast
  qed
  show ?thesis
    using h1 h2 h3
      ckks_EvalBootstrap_meta_bts [OF h1 h2 h3 h4, where pr = 3 and kg = "(\<lambda>(_::unit) (_::nat). ())"]
    by blast
qed

text \<open>
  Every evaluation entry point of the CKKS scheme refuses a slot count that was
  never configured: \<open>EvalBootstrap\<close> for a slot count never passed to
  \<open>EvalBootstrapSetup\<close>, and \<open>EvalFBT\<close>, \<open>EvalFBTNoDecoding\<close>,
  \<open>EvalHomDecoding\<close> and \<open>EvalMVBPrecompute\<close> for one never passed to
  \<open>EvalFBTSetup\<close>, throw InvalidConfiguration, never return a numeric result, and
  leave the context unchanged.
\<close>

theorem ckks_unconfigured_slots:
  "(st_boot st (length (ct_slots ct)) = None \<longrightarrow>
      (\<exists>m. FHEBase_call (ckks_scheme prims kg) (EvalBootstrap ct it pr) (st, store) =
             (Inl (Invalid_configuration m), (st, store)))) \<and>
   (st_fbt st (length (ct_slots ct)) = None \<longrightarrow>
      (\<exists>m. FHEBase_call (ckks_scheme prims kg) (EvalFBT ct c db isc ps lr ord) (st, store) =
             (Inl (Invalid_configuration m), (st, store))) \<and>
      (\<exists>m. FHEBase_call (ckks_scheme prims kg) (EvalFBTNoDecoding ct c db isc ord) (st, store) =
             (Inl (Invalid_configuration m), (st, store))) \<and>
      (\<exists>m. FHEBase_call (ckks_scheme prims kg) (EvalHomDecoding ct ps lr) (st, store) =
             (Inl (Invalid_configuration m), (st, store))) \<and>
      (\<exists>m. FHEBase_call (ckks_scheme prims kg) (EvalMVBPrecompute ct c db isc ord) (st, store) =
             (Inl (Invalid_configuration m), (st, store))))"
  using EvalBootstrap_ckks_unconfigured [of st ct prims store it pr]
    fbt_unconfigured [of st ct prims store "coeffs_ckks prims c" db isc ps lr ord]
  by (auto simp: ckks_calls_ct)

theorem ckks_unconfigured_slots_witness:
  "st_boot example_state (length (ct_slots fbt_example_ct)) = None \<and>
   st_fbt example_state (length (ct_slots fbt_example_ct)) = None \<and>
   (\<exists>m. FHEBase_call (ckks_scheme example_prims (\<lambda>(_::unit) (_::nat). ()) :: (unit, unit, real ciphertext, real series_powers, unit, (real, unit) ckks_ctx) fhe_scheme)
          (EvalBootstrap fbt_example_ct 1 0) (example_state, Map.empty) =
        (Inl (Invalid_configuration m), (example_state, Map.empty))) \<and>
   (\<exists>m. FHEBase_call (ckks_scheme example_prims (\<lambda>(_::unit) (_::nat). ()) :: (unit, unit, real ciphertext, real series_powers, unit, (real, unit) ckks_ctx) fhe_scheme)
          (EvalFBT fbt_example_ct (Int_coeffs [1, 2, 3]) 8 1 1 0 1) (example_state, Map.empty) =
        (Inl (Invalid_configuration m), (example_state, Map.empty)))"
proof -
  have h: "st_boot example_state (length (ct_slots fbt_example_ct)) = None"
    "st_fbt example_state (length (ct_slots fbt_example_ct)) = None"
    by (simp_all add: example_state_def)
  show ?thesis
    using h ckks_unconfigured_slots [where prims = example_prims and kg = "(\<lambda>(_::unit) (_::nat). ())"
      and store = "Map.empty :: nat \<rightharpoonup> unit" and st = example_state and ct = fbt_example_ct
      and it = 1 and pr = 0 and c = "Int_coeffs [1, 2, 3]" and db = 8 and isc = 1 and ps = 1
      and lr = 0 and ord = 1]
    by blast
qed

text \<open>
  The round-trip law of the functional bootstrap, through the virtual interface:
  on the CKKS scheme, \<open>EvalFBT(x)\<close> returns a ciphertext exactly when
  \<open>EvalFBTNoDecoding(x)\<close> returns one on which \<open>EvalHomDecoding\<close> with the same
  \<open>postScaling\<close> and \<open>levelToReduce\<close> returns the same ciphertext, for every input
  whose slot count \<open>EvalFBTSetup\<close> configured with collaborators that fit it.
\<close>

theorem ckks_EvalFBT_roundtrip:
  assumes cfg: "st_fbt st (length (ct_slots ct)) = Some cfg"
    and wf: "fbt_prims_wf prims (length (ct_slots ct)) (fbt_levelBudget cfg)"
  shows "fst (FHEBase_call (ckks_scheme prims kg) (EvalFBT ct c db isc ps lr ord) (st, store)) =
           Inr (Ret_ct r) \<longleftrightarrow>
         (\<exists>ct'. fst (FHEBase_call (ckks_scheme prims kg) (EvalFBTNoDecoding ct c db isc ord) (st, store)) =
                  Inr (Ret_ct ct') \<and>
                fst (FHEBase_call (ckks_scheme prims kg) (EvalHomDecoding ct' ps lr) (st, store)) =
                  Inr (Ret_ct r))"
  using EvalFBT_ckks_roundtrip [OF cfg wf, where keys = store and cs = "coeffs_ckks prims c" and db = db
      and isc = isc and ps = ps and lr = lr and ord = ord and r = r]
  by (auto simp: ckks_calls_ct res_bind_eq_Inr split: sum.splits)

theorem ckks_EvalFBT_roundtrip_witness:
  "st_fbt fbt_state (length (ct_slots fbt_example_ct)) = Some fbt_example_cfg \<and>
   fbt_prims_wf noisy_prims (length (ct_slots fbt_example_ct)) (fbt_levelBudget fbt_example_cfg) \<and>
   fst (FHEBase_call (ckks_scheme noisy_prims (\<lambda>(_::unit) (_::nat). ()) :: (unit, unit, real ciphertext, real series_powers, unit, (real, unit) ckks_ctx) fhe_scheme)
          (EvalFBT fbt_example_ct (Int_coeffs [1, 2, 3]) 8 1 1 0 1) (fbt_state, Map.empty)) =
     Inr (Ret_ct \<lparr>ct_slots = [6, 17, 34, 57], ct_level = 9\<rparr>) \<and>
   (\<exists>ct'. fst (FHEBase_call (ckks_scheme noisy_prims (\<lambda>(_::unit) (_::nat). ()) :: (unit, unit, real ciphertext, real series_powers, unit, (real, unit) ckks_ctx) fhe_scheme)
            (EvalFBTNoDecoding fbt_example_ct (Int_coeffs [1, 2, 3]) 8 1 1) (fbt_state, Map.empty)) =
            Inr (Ret_ct ct') \<and>
          fst (FHEBase_call (ckks_scheme noisy_prims (\<lambda>(_::unit) (_::nat). ()) :: (unit, unit, real ciphertext, real series_powers, unit, (real, unit) ckks_ctx) fhe_scheme)
            (EvalHomDecoding ct' 1 0) (fbt_state, Map.empty)) =
            Inr (Ret_ct \<lparr>ct_slots = [6, 17, 34, 57], ct_level = 9\<rparr>))"
proof -
  have cfg: "st_fbt fbt_state (length (ct_slots fbt_example_ct)) = Some fbt_example_cfg"
    by (simp add: fbt_state_def fbt_example_ct_def)
  have wf: "fbt_prims_wf noisy_prims (length (ct_slots fbt_example_ct)) (fbt_levelBudget fbt_example_cfg)"
    by (simp add: fbt_prims_wf_def noisy_prims_def)
  have r: "fst (FHEBase_call (ckks_scheme noisy_prims (\<lambda>(_::unit) (_::nat). ()) :: (unit, unit, real ciphertext, real series_powers, unit, (real, unit) ckks_ctx) fhe_scheme)
          (EvalFBT fbt_example_ct (Int_coeffs [1, 2, 3]) 8 1 1 0 1) (fbt_state, Map.empty)) =
     Inr (Ret_ct \<lparr>ct_slots = [6, 17, 34, 57], ct_level = 9\<rparr>)"
    using cfg by (simp add: ckks_calls_ct EvalFBT_ckks_def fbt_check_def fbt_front_def fbt_back_def
        EvalLinearStage_def fbt_example_ct_def fbt_example_cfg_def fbt_eval_levels_def
        fbt_example_levels noisy_prims_def coeffs_ckks_def fbt_state_def example_state_def
        example_params_def vscale_def)
  show ?thesis
    using cfg wf r ckks_EvalFBT_roundtrip [OF cfg wf, where kg = "(\<lambda>(_::unit) (_::nat). ())"
      and store = "Map.empty :: nat \<rightharpoonup> unit" and c = "Int_coeffs [1, 2, 3]" and db = 8 and isc = 1
      and ps = 1 and lr = 0 and ord = 1 and r = "\<lparr>ct_slots = [6, 17, 34, 57], ct_level = 9\<rparr>"]
    by blast
qed

text \<open>
  The same law for calls that omit the defaulted trailing arguments: \<open>EvalFBT(ct,
  coeffs, digitBitSize, initialScaling, postScaling)\<close> is \<open>EvalHomDecoding(ct',
  postScaling)\<close> after \<open>EvalFBTNoDecoding(ct, coeffs, digitBitSize,
  initialScaling)\<close>, because the two halves declare the defaults of the whole.
\<close>

theorem ckks_EvalFBT_defaults_roundtrip:
  assumes cfg: "st_fbt st (length (ct_slots ct)) = Some cfg"
    and wf: "fbt_prims_wf prims (length (ct_slots ct)) (fbt_levelBudget cfg)"
  shows "fst (FHEBase_call (ckks_scheme prims kg) (EvalFBT_defaults ct c db isc ps) (st, store)) =
           Inr (Ret_ct r) \<longleftrightarrow>
         (\<exists>ct'. fst (FHEBase_call (ckks_scheme prims kg) (EvalFBTNoDecoding_defaults ct c db isc) (st, store)) =
                  Inr (Ret_ct ct') \<and>
                fst (FHEBase_call (ckks_scheme prims kg) (EvalHomDecoding_defaults ct' ps) (st, store)) =
                  Inr (Ret_ct r))"
  unfolding EvalFBT_defaults_def EvalFBTNoDecoding_defaults_def EvalHomDecoding_defaults_def
  by (rule ckks_EvalFBT_roundtrip [OF cfg wf])

text \<open>
  C4. Amortisation does not change the result (spec section 8): once
  \<open>EvalMVBPrecompute\<close> has built a SeriesPowers cache for a ciphertext, \<open>EvalMVB\<close> with
  that cache returns, for any coefficient vector, exactly the ciphertext a fresh
  \<open>EvalFBT\<close> on the same ciphertext with the same parameters returns, and fails exactly
  when it fails.
\<close>

theorem ckks_EvalMVB_eq_EvalFBT:
  assumes pre: "fst (FHEBase_call (ckks_scheme prims kg) (EvalMVBPrecompute ct c0 db isc ord) (st, store)) =
                  Inr (Ret_powers sp)"
    and cfg: "st_fbt st (length (ct_slots ct)) = Some cfg"
    and wf: "fbt_prims_wf prims (length (ct_slots ct)) (fbt_levelBudget cfg)"
  shows "fst (FHEBase_call (ckks_scheme prims kg) (EvalMVB sp c db ps lr ord) (st, store)) = Inr (Ret_ct r) \<longleftrightarrow>
         fst (FHEBase_call (ckks_scheme prims kg) (EvalFBT ct c db isc ps lr ord) (st, store)) = Inr (Ret_ct r)"
proof -
  have p: "EvalMVBPrecompute_ckks prims st store ct (coeffs_ckks prims c0) db isc ord = Inr sp"
    using pre by (auto simp: ckks_calls_ct split: sum.splits)
  show ?thesis
    using EvalMVB_ckks_eq_EvalFBT [OF p cfg wf, of "coeffs_ckks prims c" ps lr r]
    by (auto simp: ckks_calls_ct split: sum.splits)
qed

text \<open>
  The scenario of spec section 8 on four slots: one cache, two different functions,
  \<open>1 + 2x + 3x^2\<close> and \<open>x^2\<close>, each agreeing with its fresh functional bootstrap.
\<close>

theorem ckks_EvalMVB_eq_EvalFBT_witness:
  "fst (FHEBase_call (ckks_scheme noisy_prims (\<lambda>(_::unit) (_::nat). ()) :: (unit, unit, real ciphertext, real series_powers, unit, (real, unit) ckks_ctx) fhe_scheme)
          (EvalMVBPrecompute fbt_example_ct (Int_coeffs [1, 2, 3]) 8 1 1) (fbt_state, Map.empty)) =
     Inr (Ret_powers fbt_example_powers) \<and>
   st_fbt fbt_state (length (ct_slots fbt_example_ct)) = Some fbt_example_cfg \<and>
   fbt_prims_wf noisy_prims (length (ct_slots fbt_example_ct)) (fbt_levelBudget fbt_example_cfg) \<and>
   fst (FHEBase_call (ckks_scheme noisy_prims (\<lambda>(_::unit) (_::nat). ()) :: (unit, unit, real ciphertext, real series_powers, unit, (real, unit) ckks_ctx) fhe_scheme)
          (EvalMVB fbt_example_powers (Int_coeffs [1, 2, 3]) 8 1 0 1) (fbt_state, Map.empty)) =
     Inr (Ret_ct \<lparr>ct_slots = [6, 17, 34, 57], ct_level = 9\<rparr>) \<and>
   fst (FHEBase_call (ckks_scheme noisy_prims (\<lambda>(_::unit) (_::nat). ()) :: (unit, unit, real ciphertext, real series_powers, unit, (real, unit) ckks_ctx) fhe_scheme)
          (EvalMVB fbt_example_powers (Int_coeffs [0, 0, 1]) 8 1 0 1) (fbt_state, Map.empty)) =
     Inr (Ret_ct \<lparr>ct_slots = [1, 4, 9, 16], ct_level = 9\<rparr>)"
proof -
  let ?S = "ckks_scheme noisy_prims (\<lambda>(_::unit) (_::nat). ()) :: (unit, unit, real ciphertext, real series_powers, unit, (real, unit) ckks_ctx) fhe_scheme"
  have cfg: "st_fbt fbt_state (length (ct_slots fbt_example_ct)) = Some fbt_example_cfg"
    by (simp add: fbt_state_def fbt_example_ct_def)
  have wf: "fbt_prims_wf noisy_prims (length (ct_slots fbt_example_ct)) (fbt_levelBudget fbt_example_cfg)"
    by (simp add: fbt_prims_wf_def noisy_prims_def)
  have pre: "fst (FHEBase_call ?S (EvalMVBPrecompute fbt_example_ct (Int_coeffs [1, 2, 3]) 8 1 1)
               (fbt_state, Map.empty)) = Inr (Ret_powers fbt_example_powers)"
    using cfg by (simp add: ckks_calls_ct EvalMVBPrecompute_ckks_def fbt_check_def fbt_front_def
        EvalLinearStage_def fbt_example_ct_def fbt_example_cfg_def fbt_eval_levels_def
        fbt_example_levels noisy_prims_def coeffs_ckks_def fbt_state_def example_state_def
        example_params_def vscale_def fbt_example_powers_def)
  have f1: "fst (FHEBase_call ?S (EvalFBT fbt_example_ct (Int_coeffs [1, 2, 3]) 8 1 1 0 1) (fbt_state, Map.empty)) =
     Inr (Ret_ct \<lparr>ct_slots = [6, 17, 34, 57], ct_level = 9\<rparr>)"
    using cfg by (simp add: ckks_calls_ct EvalFBT_ckks_def fbt_check_def fbt_front_def fbt_back_def
        EvalLinearStage_def fbt_example_ct_def fbt_example_cfg_def fbt_eval_levels_def
        fbt_example_levels noisy_prims_def coeffs_ckks_def fbt_state_def example_state_def
        example_params_def vscale_def)
  have f2: "fst (FHEBase_call ?S (EvalFBT fbt_example_ct (Int_coeffs [0, 0, 1]) 8 1 1 0 1) (fbt_state, Map.empty)) =
     Inr (Ret_ct \<lparr>ct_slots = [1, 4, 9, 16], ct_level = 9\<rparr>)"
    using cfg by (simp add: ckks_calls_ct EvalFBT_ckks_def fbt_check_def fbt_front_def fbt_back_def
        EvalLinearStage_def fbt_example_ct_def fbt_example_cfg_def fbt_eval_levels_def
        fbt_example_levels noisy_prims_def coeffs_ckks_def fbt_state_def example_state_def
        example_params_def vscale_def)
  show ?thesis
    using pre cfg wf f1 f2
      ckks_EvalMVB_eq_EvalFBT [OF pre cfg wf, where c = "Int_coeffs [1, 2, 3]" and ps = 1 and lr = 0
        and r = "\<lparr>ct_slots = [6, 17, 34, 57], ct_level = 9\<rparr>"]
      ckks_EvalMVB_eq_EvalFBT [OF pre cfg wf, where c = "Int_coeffs [0, 0, 1]" and ps = 1 and lr = 0
        and r = "\<lparr>ct_slots = [1, 4, 9, 16], ct_level = 9\<rparr>"]
    by blast
qed

text \<open>
  The SeriesPowers cache is checked before it is used (spec sections 4.5, 7): an
  \<open>EvalMVB\<close> or \<open>EvalMVBNoDecoding\<close> call on the CKKS scheme with a digit size or an
  order other than the cache's throws ParameterMismatch and leaves the context unchanged.
\<close>

theorem ckks_EvalMVB_mismatch:
  assumes "sp_digitBitSize sp \<noteq> db \<or> sp_order sp \<noteq> ord"
  shows "FHEBase_call (ckks_scheme prims kg) (EvalMVB sp c db ps lr ord) (st, store) =
           (Inl (Parameter_mismatch ''SeriesPowers built with another digit size or order''), (st, store)) \<and>
         FHEBase_call (ckks_scheme prims kg) (EvalMVBNoDecoding sp c db ord) (st, store) =
           (Inl (Parameter_mismatch ''SeriesPowers built with another digit size or order''), (st, store))"
  using EvalMVB_ckks_mismatch [OF assms, of "coeffs_ckks prims c" prims st store ps lr]
  by (simp add: ckks_calls_ct)

theorem ckks_EvalMVB_mismatch_witness:
  "sp_digitBitSize fbt_example_powers = 8 \<and>
   FHEBase_call (ckks_scheme noisy_prims (\<lambda>(_::unit) (_::nat). ()) :: (unit, unit, real ciphertext, real series_powers, unit, (real, unit) ckks_ctx) fhe_scheme)
     (EvalMVB fbt_example_powers (Int_coeffs [0, 1]) 4 1 0 1) (fbt_state, Map.empty) =
   (Inl (Parameter_mismatch ''SeriesPowers built with another digit size or order''), (fbt_state, Map.empty))"
proof -
  have h: "sp_digitBitSize fbt_example_powers \<noteq> 4 \<or> sp_order fbt_example_powers \<noteq> 1"
    by (simp add: fbt_example_powers_def)
  have d: "sp_digitBitSize fbt_example_powers = 8" by (simp add: fbt_example_powers_def)
  show ?thesis
    using d ckks_EvalMVB_mismatch [OF h, where prims = noisy_prims and kg = "(\<lambda>(_::unit) (_::nat). ())"
      and c = "Int_coeffs [0, 1]" and ps = 1 and lr = 0 and st = fbt_state
      and store = "Map.empty :: nat \<rightharpoonup> unit"]
    by blast
qed

text \<open>
  \<open>EvalHermiteTrigSeries\<close> on the CKKS scheme: with an empty interval it fails
  with \<open>Invalid_configuration\<close>; when the ciphertext cannot pay for the affine map
  and the deeper of the two series it fails with \<open>Insufficient_level\<close>; otherwise it
  returns, on every slot \<open>x\<close>, the Chebyshev series \<open>\<Sum>k. c_k T_k\<close> taken at the point
  of \<open>[-1, 1]\<close> corresponding to \<open>x\<close> in \<open>[a, b]\<close>, plus the Hermite correction
  \<open>\<Sum>k. h_k H_k(x)\<close>, and leaves the scheme object unchanged.
\<close>

theorem ckks_EvalHermiteTrigSeries:
  "FHEBase_call (ckks_scheme prims kg) (EvalHermiteTrigSeries ct ch a b hs pc) (st, store) =
     (if \<not> a < b then (Inl (Invalid_configuration ''EvalHermiteTrigSeries needs a < b''), (st, store))
      else if ct_level ct < hermite_trig_levels (length ch) (length (coeffs_ckks prims hs))
      then (Inl (Insufficient_level (ct_level ct)
                   (hermite_trig_levels (length ch) (length (coeffs_ckks prims hs)))), (st, store))
      else (Inr (Ret_ct
              \<lparr>ct_slots = map (\<lambda>x. (\<Sum>k<length ch. enc_coeff prims (ch ! k) * cheb_T k (interval_map a b x))
                                   + (\<Sum>k<length (coeffs_ckks prims hs).
                                        coeffs_ckks prims hs ! k * hermite_H k x)) (ct_slots ct),
               ct_level = ct_level ct - hermite_trig_levels (length ch) (length (coeffs_ckks prims hs))\<rparr>),
            (st, store)))"
  by (simp add: ckks_call_HermiteTrigSeries EvalHermiteTrigSeries_ckks_def Let_def cheb_eval_sum
      herm_eval_def)

text \<open>
  On four slots \<open>1, 2, 3, 4\<close> at level 3 with interval \<open>[0, 4]\<close>, Chebyshev
  coefficients \<open>[1, 2]\<close> (the series \<open>1 + 2t = x - 1\<close>) and Hermite coefficients
  \<open>[0, 1]\<close> (the correction \<open>H_1(x) = 2x\<close>) the result is \<open>3x - 1\<close> at level 2.
\<close>

theorem ckks_EvalHermiteTrigSeries_witness:
  "FHEBase_call (ckks_scheme noisy_prims (\<lambda>(_::unit) _. ()))
     (EvalHermiteTrigSeries \<lparr>ct_slots = [1, 2, 3, 4], ct_level = 3\<rparr> [1, 2] 0 4 (Int_coeffs [0, 1]) 0
        :: (unit, unit, real ciphertext, real series_powers) fhe_call)
     (noisy_state, Map.empty) =
   (Inr (Ret_ct \<lparr>ct_slots = [2, 5, 8, 11], ct_level = 2\<rparr>), (noisy_state, Map.empty))"
proof -
  have l: "hermite_trig_levels (length [1 :: complex, 2])
             (length (coeffs_ckks noisy_prims (Int_coeffs [0, 1]))) = 1"
    by (simp add: hermite_trig_levels_def coeffs_ckks_def series_depth.simps)
  show ?thesis
    unfolding ckks_EvalHermiteTrigSeries l
    by (simp add: coeffs_ckks_def noisy_prims_def interval_map_def numeral_2_eq_2)
qed

text \<open>
  Every context a caller can reach from a consistent start context, by virtual
  calls on the CKKS scheme in any order and by merging the key maps
  \<open>EvalBootstrapKeyGen\<close> returns into the key store, keeps the start's parameters (the
  CryptoContext is read-only after construction), keeps both configuration stores
  consistent with them, and holds only keys generated for their own rotation index.
\<close>

theorem ckks_reach_invariant:
  assumes "ckks_reach (ckks_scheme prims kg) (st0, store0) (st, store)"
    and "boot_store_wf prims st0" and "fbt_store_wf st0" and "keys_generated kg store0"
  shows "st_params st = st_params st0 \<and> boot_store_wf prims st \<and> fbt_store_wf st \<and>
         keys_generated kg store"
proof -
  have "ckks_ctx_wf prims kg (st_params st0) (st0, store0)"
    using assms(2-4) by (simp add: ckks_ctx_wf_def)
  with assms(1) have "ckks_ctx_wf prims kg (st_params st0) (st, store)"
    by (induction rule: ckks_reach.induct) (auto intro: ckks_step_ctx_wf)
  then show ?thesis by (simp add: ckks_ctx_wf_def)
qed

text \<open>The context after \<open>EvalBootstrapSetup\<close> on the example, from an empty context.\<close>

theorem ckks_reach_invariant_witness:
  "ckks_reach (ckks_scheme example_prims (\<lambda>(_::unit) (_::nat). ()) ::
       (unit, unit, real ciphertext, real series_powers, unit, (real, unit) ckks_ctx) fhe_scheme)
     (example_state, Map.empty)
     (fst (snd (FHEBase_call (ckks_scheme example_prims (\<lambda>(_::unit) (_::nat). ()))
        (EvalBootstrapSetup [3, 3] [0, 0] 16 0 True :: (unit, unit, real ciphertext, real series_powers) fhe_call)
        (example_state, Map.empty))),
      snd (snd (FHEBase_call (ckks_scheme example_prims (\<lambda>(_::unit) (_::nat). ()))
        (EvalBootstrapSetup [3, 3] [0, 0] 16 0 True :: (unit, unit, real ciphertext, real series_powers) fhe_call)
        (example_state, Map.empty)))) \<and>
   st_params (fst (snd (FHEBase_call (ckks_scheme example_prims (\<lambda>(_::unit) (_::nat). ()))
        (EvalBootstrapSetup [3, 3] [0, 0] 16 0 True :: (unit, unit, real ciphertext, real series_powers) fhe_call)
        (example_state, Map.empty)))) = example_params \<and>
   boot_store_wf example_prims (fst (snd (FHEBase_call (ckks_scheme example_prims (\<lambda>(_::unit) (_::nat). ()))
        (EvalBootstrapSetup [3, 3] [0, 0] 16 0 True :: (unit, unit, real ciphertext, real series_powers) fhe_call)
        (example_state, Map.empty))))"
proof -
  let ?s = "ckks_scheme example_prims (\<lambda>(_::unit) (_::nat). ()) ::
              (unit, unit, real ciphertext, real series_powers, unit, (real, unit) ckks_ctx) fhe_scheme"
  let ?cc = "snd (FHEBase_call ?s (EvalBootstrapSetup [3, 3] [0, 0] 16 0 True) (example_state, Map.empty))"
  have r: "ckks_reach ?s (example_state, Map.empty) (fst ?cc, snd ?cc)"
    using ckks_reach.step [OF ckks_reach.init ckks_step.call] by simp
  have b: "boot_store_wf example_prims example_state"
    by (simp add: example_state_def boot_store_wf_empty)
  have f: "fbt_store_wf example_state" by (simp add: example_state_def fbt_store_wf_def)
  have k: "keys_generated (\<lambda>(_::unit) (_::nat). ()) (Map.empty :: nat \<rightharpoonup> unit)"
    by (simp add: keys_generated_def)
  have p: "st_params example_state = example_params" by (simp add: example_state_def)
  show ?thesis using r ckks_reach_invariant [OF r b f k] p by simp
qed

text \<open>
  The caller's refresh loop terminates exactly when it can: with a consistent
  configuration for the ciphertext's slot count, collaborators that fit it and every
  rotation key it needs, refreshing a ciphertext one iteration at a time until its
  level reaches \<open>target\<close> returns the ciphertext unchanged when it already is at the
  target, returns after one refresh (the reference pipeline, at the chain top minus the
  levels a pass consumes) when that level reaches the target, and otherwise never
  returns, since every refresh lands at that same level.
\<close>

theorem ckks_refresh_until:
  fixes ct :: "'v::real_field ciphertext"
  assumes cfg: "st_boot st (length (ct_slots ct)) = Some cfg"
    and ok: "boot_cfg_ok prims (st_params st) (length (ct_slots ct)) cfg"
    and pw: "boot_prims_wf prims (length (ct_slots ct)) (cfg_levelBudget cfg)"
    and keys: "set (FindBootstrapRotationIndices prims (length (ct_slots ct)) cfg) \<union>
                 {conj_index (st_params st)} \<subseteq> dom store"
  shows "refresh_until (ckks_scheme prims kg :: ('sk, 'pk, 'v ciphertext, 'v series_powers, 'ek, ('v, 'ek) ckks_ctx) fhe_scheme) (st, store) target ct =
           (if target \<le> ct_level ct then Some (Inr ct)
            else if target \<le> multDepth (st_params st) - boot_levels_consumed (st_params st) cfg 1
            then Some (Inr \<lparr>ct_slots = boot_pipeline prims (length (ct_slots ct)) (cfg_levelBudget cfg)
                                          (ct_slots ct),
                            ct_level = multDepth (st_params st) - boot_levels_consumed (st_params st) cfg 1\<rparr>)
            else None)"
proof -
  let ?n = "length (ct_slots ct)"
  let ?L = "multDepth (st_params st) - boot_levels_consumed (st_params st) cfg 1"
  let ?guard = "\<lambda>r. case r of Inl _ \<Rightarrow> False | Inr x \<Rightarrow> ct_level x < target"
  let ?body = "\<lambda>r. case r of Inl e \<Rightarrow> Inl e | Inr x \<Rightarrow>
                 refresh_pass (ckks_scheme prims kg :: ('sk, 'pk, 'v ciphertext, 'v series_powers, 'ek, ('v, 'ek) ckks_ctx) fhe_scheme) (st, store) x"
  have pass: "?body (Inr x) = Inr \<lparr>ct_slots = boot_pipeline prims ?n (cfg_levelBudget cfg) (ct_slots x), ct_level = ?L\<rparr>"
    if "length (ct_slots x) = ?n" for x :: "'v ciphertext"
    using refresh_pass_ckks [OF cfg ok pw keys that, of kg] by simp
  have loop: "refresh_until (ckks_scheme prims kg :: ('sk, 'pk, 'v ciphertext, 'v series_powers, 'ek, ('v, 'ek) ckks_ctx) fhe_scheme) (st, store) target ct = while_option ?guard ?body (Inr ct)"
    by (simp add: refresh_until_def)
  consider (reached) "target \<le> ct_level ct" | (once) "ct_level ct < target" "target \<le> ?L"
    | (never) "ct_level ct < target" "?L < target" by linarith
  then show ?thesis
  proof cases
    case reached
    then show ?thesis unfolding loop by (subst while_option_unfold) simp
  next
    case once
    have p1: "?body (Inr ct) = Inr \<lparr>ct_slots = boot_pipeline prims ?n (cfg_levelBudget cfg) (ct_slots ct), ct_level = ?L\<rparr>"
      by (rule pass) simp
    show ?thesis using once unfolding loop
      by (subst while_option_unfold, simp only: p1, subst while_option_unfold) simp
  next
    case never
    have inv: "\<exists>x. (?body ^^ k) (Inr ct) = Inr x \<and> length (ct_slots x) = ?n \<and> ct_level x < target" for k
    proof (induction k)
      case 0
      then show ?case using never by simp
    next
      case (Suc k)
      then obtain x where x: "(?body ^^ k) (Inr ct) = Inr x" "length (ct_slots x) = ?n" by blast
      have l: "length (boot_pipeline prims ?n (cfg_levelBudget cfg) (ct_slots x)) = ?n"
        using boot_pipeline_length [OF pw x(2)] .
      show ?case using x pass [OF x(2)] l never by simp
    qed
    have "while_option ?guard ?body (Inr ct) = None"
    proof (rule while_option_None_always)
      fix k
      from inv [of k] show "?guard ((?body ^^ k) (Inr ct))" by auto
    qed
    then show ?thesis using never unfolding loop by simp
  qed
qed

text \<open>
  Four slots under the noisy configuration (12 levels, of which a pass consumes 6): the
  loop for target 5 returns after one refresh at level 6, the loop for target 7 never
  returns.
\<close>

theorem ckks_refresh_until_witness:
  "st_boot noisy_state (length [1, 2, 3, 4 :: real]) = Some noisy_cfg \<and>
   boot_cfg_ok noisy_prims (st_params noisy_state) (length [1, 2, 3, 4 :: real]) noisy_cfg \<and>
   boot_prims_wf noisy_prims (length [1, 2, 3, 4 :: real]) (cfg_levelBudget noisy_cfg) \<and>
   set (FindBootstrapRotationIndices noisy_prims (length [1, 2, 3, 4 :: real]) noisy_cfg) \<union>
     {conj_index (st_params noisy_state)} \<subseteq> dom [63 \<mapsto> ()] \<and>
   refresh_until (ckks_scheme noisy_prims (\<lambda>(_::unit) (_::nat). ()) :: (unit, unit, real ciphertext, real series_powers, unit, (real, unit) ckks_ctx) fhe_scheme)
     (noisy_state, [63 \<mapsto> ()]) 5 \<lparr>ct_slots = [1, 2, 3, 4], ct_level = 0\<rparr> =
     Some (Inr \<lparr>ct_slots = boot_pipeline noisy_prims (length [1, 2, 3, 4 :: real]) [1, 1] [1, 2, 3, 4],
                ct_level = 6\<rparr>) \<and>
   refresh_until (ckks_scheme noisy_prims (\<lambda>(_::unit) (_::nat). ()) :: (unit, unit, real ciphertext, real series_powers, unit, (real, unit) ckks_ctx) fhe_scheme)
     (noisy_state, [63 \<mapsto> ()]) 7 \<lparr>ct_slots = [1, 2, 3, 4], ct_level = 0\<rparr> = None"
proof -
  let ?ct = "\<lparr>ct_slots = [1, 2, 3, 4 :: real], ct_level = 0\<rparr>"
  have cfg: "st_boot noisy_state (length (ct_slots ?ct)) = Some noisy_cfg"
    by (simp add: noisy_state_def)
  have ok: "boot_cfg_ok noisy_prims (st_params noisy_state) (length (ct_slots ?ct)) noisy_cfg"
    by (simp add: boot_cfg_ok_def noisy_cfg_def noisy_state_def example_state_def example_params_def
        is_pow2.simps)
  have pw: "boot_prims_wf noisy_prims (length (ct_slots ?ct)) (cfg_levelBudget noisy_cfg)"
    by (simp add: boot_prims_wf_def noisy_prims_def noisy_cfg_def)
  have keys: "set (FindBootstrapRotationIndices noisy_prims (length (ct_slots ?ct)) noisy_cfg) \<union>
                {conj_index (st_params noisy_state)} \<subseteq> dom [63 \<mapsto> ()]"
    by (simp add: FindBootstrapRotationIndices_def noisy_prims_def conj_index_def noisy_state_def
        example_state_def example_params_def)
  have L: "multDepth (st_params noisy_state) - boot_levels_consumed (st_params noisy_state) noisy_cfg 1 = 6"
    by (simp add: boot_levels_consumed_def noisy_cfg_def noisy_state_def example_state_def
        example_params_def)
  have lb: "cfg_levelBudget noisy_cfg = [1, 1]" by (simp add: noisy_cfg_def)
  show ?thesis
    using cfg ok pw keys L lb
      ckks_refresh_until [OF cfg ok pw keys, where kg = "\<lambda>(_::unit) (_::nat). ()" and target = 5]
      ckks_refresh_until [OF cfg ok pw keys, where kg = "\<lambda>(_::unit) (_::nat). ()" and target = 7]
    by simp
qed

end
